theory Spec2Isabelle
  imports
    Complex_Main
    "HOL-Library.AList"
    "HOL-Library.Char_ord"
    "HOL-Library.List_Lexorder"
    "HOL-Library.Log_Nat"
begin

section \<open>JavaScript values used by the analytics pipeline\<close>

text \<open>
  The sync module (\<^verbatim>\<open>src/lib/analytics/sync.ts\<close>), the store and API helpers
  (\<^verbatim>\<open>src/lib/supabase/client.ts\<close>) and the calculator module are embedded as HOL
  functions. Conventions of the embedding:
  \<^item> a finite JavaScript number is the rational it denotes (\<^typ>\<open>rat\<close>), and every
    arithmetic operation on numbers is the exact operation followed by the rounding
    \<open>binary64\<close> to the nearest double; a value that can come out of a division by a
    variable is a \<open>number\<close>, which also has \<^verbatim>\<open>Infinity\<close>, \<^verbatim>\<open>-Infinity\<close> and \<^verbatim>\<open>NaN\<close>;
    integers that the store holds (cents) are \<^typ>\<open>int\<close>, epoch values and timestamps are
    \<^typ>\<open>int\<close>, and counts of rows and lengths of arrays are \<^typ>\<open>nat\<close> (they are far
    below \<open>2\<^sup>5\<^sup>3\<close>, where every integer is a double);
  \<^item> a value that may be \<^verbatim>\<open>null\<close> or \<^verbatim>\<open>undefined\<close> is an \<^typ>\<open>'a option\<close>;
    a chain \<^verbatim>\<open>a?.b?.c\<close> is flattened to the optional leaf;
  \<^item> a \<^verbatim>\<open>Date\<close> and a stored \<^verbatim>\<open>timestamptz\<close>/ISO string are the number of
    milliseconds since the epoch (\<^typ>\<open>int\<close>), so comparing two stored timestamps is
    comparing these numbers;
  \<^item> everything a function can throw is a value of type \<open>thrown\<close>, and a function
    that can throw returns \<open>thrown + 'a\<close>.
\<close>

type_synonym timestamp = int

definition MS_PER_DAY :: int where
  "MS_PER_DAY = 1000 * 60 * 60 * 24"

definition ONE_HOUR_MS :: int where
  "ONE_HOUR_MS = 60 * 60 * 1000"

text \<open>\<^verbatim>\<open>subDays(date, n)\<close> of date-fns, without daylight-saving shifts.\<close>

definition subDays :: "timestamp \<Rightarrow> int \<Rightarrow> timestamp" where
  "subDays d n = d - n * MS_PER_DAY"

subsection \<open>Numbers\<close>

text \<open>
  The binary exponent of a positive rational \<open>x\<close>: the \<open>e\<close> with
  \<open>2\<^sup>e \<le> x < 2\<^sup>e\<^sup>+\<^sup>1\<close>, found from the bit lengths of numerator and denominator.
\<close>

definition fl_exp :: "rat \<Rightarrow> int" where
  "fl_exp x =
     (let e0 = bitlen (fst (quotient_of x)) - bitlen (snd (quotient_of x))
      in if 2 powi e0 \<le> x then e0 else e0 - 1)"

text \<open>The nearest integer, a tie going to the even one.\<close>

definition round_half_even :: "rat \<Rightarrow> int" where
  "round_half_even m =
     (let f = \<lfloor>m\<rfloor>; r = m - of_int f
      in if r < 1 / 2 then f else if 1 / 2 < r then f + 1 else if even f then f else f + 1)"

text \<open>
  The double nearest to \<open>x\<close> (IEEE 754 binary64, round to nearest, ties to even): the
  significand \<open>\<bar>x\<bar> / 2\<^sup>e\<^sup>-\<^sup>5\<^sup>2\<close> is rounded to an integer of 53 bits. The range of the
  exponent is not modelled: no number overflows to \<^verbatim>\<open>Infinity\<close> or is subnormal, and
  \<^verbatim>\<open>-0\<close> is \<open>0\<close>. A decimal of a JSON text or of the program text denotes the double
  nearest to it.
\<close>

definition binary64 :: "rat \<Rightarrow> rat" where
  "binary64 x =
     (if x = 0 then 0
      else sgn x * of_int (round_half_even (\<bar>x\<bar> / 2 powi (fl_exp \<bar>x\<bar> - 52))) *
             2 powi (fl_exp \<bar>x\<bar> - 52))"

text \<open>
  \<^verbatim>\<open>Math.round\<close>: the nearest integer, a tie going up; it is computed without an
  intermediate rounding.
\<close>

definition Math_round :: "rat \<Rightarrow> int" where
  "Math_round x = \<lfloor>x + 1 / 2\<rfloor>"

text \<open>
  The values of type \<^verbatim>\<open>number\<close> and the operators \<^verbatim>\<open>+\<close>, \<^verbatim>\<open>-\<close>, \<^verbatim>\<open>*\<close>, \<^verbatim>\<open>/\<close> and \<^verbatim>\<open>>\<close>
  on them. A zero divisor is \<^verbatim>\<open>+0\<close>.
\<close>

datatype number = Finite rat | Infinity | NegInfinity | NaN

fun js_neg :: "number \<Rightarrow> number" where
  "js_neg (Finite a) = Finite (- a)"
| "js_neg Infinity = NegInfinity"
| "js_neg NegInfinity = Infinity"
| "js_neg NaN = NaN"

fun js_add :: "number \<Rightarrow> number \<Rightarrow> number" where
  "js_add (Finite a) (Finite b) = Finite (binary64 (a + b))"
| "js_add (Finite a) Infinity = Infinity"
| "js_add (Finite a) NegInfinity = NegInfinity"
| "js_add Infinity (Finite b) = Infinity"
| "js_add Infinity Infinity = Infinity"
| "js_add Infinity NegInfinity = NaN"
| "js_add NegInfinity (Finite b) = NegInfinity"
| "js_add NegInfinity Infinity = NaN"
| "js_add NegInfinity NegInfinity = NegInfinity"
| "js_add NaN y = NaN"
| "js_add x NaN = NaN"

definition js_sub :: "number \<Rightarrow> number \<Rightarrow> number" where
  "js_sub x y = js_add x (js_neg y)"

fun js_mul :: "number \<Rightarrow> number \<Rightarrow> number" where
  "js_mul (Finite a) (Finite b) = Finite (binary64 (a * b))"
| "js_mul (Finite a) Infinity = (if a = 0 then NaN else if 0 < a then Infinity else NegInfinity)"
| "js_mul (Finite a) NegInfinity = (if a = 0 then NaN else if 0 < a then NegInfinity else Infinity)"
| "js_mul Infinity (Finite b) = (if b = 0 then NaN else if 0 < b then Infinity else NegInfinity)"
| "js_mul NegInfinity (Finite b) = (if b = 0 then NaN else if 0 < b then NegInfinity else Infinity)"
| "js_mul Infinity Infinity = Infinity"
| "js_mul Infinity NegInfinity = NegInfinity"
| "js_mul NegInfinity Infinity = NegInfinity"
| "js_mul NegInfinity NegInfinity = Infinity"
| "js_mul NaN y = NaN"
| "js_mul x NaN = NaN"

fun js_div :: "number \<Rightarrow> number \<Rightarrow> number" where
  "js_div (Finite a) (Finite b) =
     (if b = 0 then (if a = 0 then NaN else if 0 < a then Infinity else NegInfinity)
      else Finite (binary64 (a / b)))"
| "js_div (Finite a) Infinity = Finite 0"
| "js_div (Finite a) NegInfinity = Finite 0"
| "js_div Infinity (Finite b) = (if 0 \<le> b then Infinity else NegInfinity)"
| "js_div NegInfinity (Finite b) = (if 0 \<le> b then NegInfinity else Infinity)"
| "js_div Infinity Infinity = NaN"
| "js_div Infinity NegInfinity = NaN"
| "js_div NegInfinity Infinity = NaN"
| "js_div NegInfinity NegInfinity = NaN"
| "js_div NaN y = NaN"
| "js_div x NaN = NaN"

fun js_gt :: "number \<Rightarrow> number \<Rightarrow> bool" where
  "js_gt (Finite a) (Finite b) = (b < a)"
| "js_gt (Finite a) Infinity = False"
| "js_gt (Finite a) NegInfinity = True"
| "js_gt Infinity (Finite b) = True"
| "js_gt Infinity Infinity = False"
| "js_gt Infinity NegInfinity = True"
| "js_gt NegInfinity y = False"
| "js_gt NaN y = False"
| "js_gt x NaN = False"

subsection \<open>Strings, errors and dates\<close>

text \<open>Truthiness of an optional string: \<^verbatim>\<open>null\<close>, \<^verbatim>\<open>undefined\<close> and \<^verbatim>\<open>''\<close> are falsy.\<close>

definition truthy :: "string option \<Rightarrow> bool" where
  "truthy s = (case s of None \<Rightarrow> False | Some t \<Rightarrow> t \<noteq> [])"

text \<open>\<^verbatim>\<open>s || null\<close> and \<^verbatim>\<open>s || 'default'\<close>.\<close>

definition or_null :: "string option \<Rightarrow> string option" where
  "or_null s = (if truthy s then s else None)"

definition or_else :: "string option \<Rightarrow> string \<Rightarrow> string" where
  "or_else s d = (case s of None \<Rightarrow> d | Some t \<Rightarrow> if t = [] then d else t)"

text \<open>
  The error object of a store response (\<^verbatim>\<open>{ data, error }\<close> of supabase-js). The helpers
  of \<^verbatim>\<open>client.ts\<close> throw it as it is; whether it is an \<^verbatim>\<open>Error\<close> instance is a fact
  of the client library, so it is a field.
\<close>

record pg_error =
  pg_code :: string
  pg_message :: string
  pg_instanceof_Error :: bool

datatype thrown = JsError string | PgThrown pg_error

text \<open>\<^verbatim>\<open>error instanceof Error ? error.message : 'Unknown error'\<close>\<close>

definition error_message :: "thrown \<Rightarrow> string" where
  "error_message e =
     (case e of
        JsError m \<Rightarrow> m
      | PgThrown p \<Rightarrow> if pg_instanceof_Error p then pg_message p else ''Unknown error'')"

text \<open>
  \<^verbatim>\<open>new Date(ms).toISOString()\<close> throws a RangeError outside the range of valid dates.
\<close>

definition toISOString :: "int \<Rightarrow> thrown + timestamp" where
  "toISOString ms =
     (if \<bar>ms\<bar> \<le> 8640000000000000 then Inr ms else Inl (JsError ''Invalid time value''))"

text \<open>\<^verbatim>\<open>x ? new Date(x * 1000).toISOString() : null\<close> for epoch seconds \<open>x\<close>.\<close>

definition epoch_to_iso :: "int option \<Rightarrow> thrown + timestamp option" where
  "epoch_to_iso x =
     (case x of
        None \<Rightarrow> Inr None
      | Some s \<Rightarrow>
          if s = 0 then Inr None
          else (case toISOString (s * 1000) of Inl e \<Rightarrow> Inl e | Inr t \<Rightarrow> Inr (Some t)))"

section \<open>Data model\<close>

subsection \<open>Upstream records (Whop API)\<close>

record access_pass =
  ap_id :: "string option"
  ap_name :: "string option"
  ap_visibility :: "string option"
  ap_stock :: "int option"
  ap_initialStock :: "int option"

text \<open>
  A receipt of \<^verbatim>\<open>listReceiptsForCompany\<close>. \<open>r_membership_id\<close> is
  \<^verbatim>\<open>p.membership?.id\<close> and \<open>r_user_id\<close> is \<^verbatim>\<open>p.member?.user?.id\<close>. \<open>r_finalAmount\<close> is
  the decimal of the response text; the program sees the double nearest to it.
\<close>

record receipt =
  r_id :: string
  r_status :: "string option"
  r_finalAmount :: "rat option"
  r_currency :: "string option"
  r_createdAt :: "int option"
  r_paidAt :: "int option"
  r_refundedAt :: "int option"
  r_accessPass :: "access_pass option"
  r_membership_id :: "string option"
  r_user_id :: "string option"

text \<open>A member of \<^verbatim>\<open>listMembers\<close>; \<open>mb_user_id\<close> is \<^verbatim>\<open>m.user?.id\<close>.\<close>

record member =
  mb_id :: "string option"
  mb_status :: "string option"
  mb_valid :: "bool option"
  mb_createdAt :: "int option"
  mb_expiresAt :: "int option"
  mb_renewalPeriodStart :: "int option"
  mb_renewalPeriodEnd :: "int option"
  mb_cancelAtPeriodEnd :: "bool option"
  mb_accessPasses :: "access_pass list"
  mb_user_id :: "string option"

text \<open>The product objects that \<^verbatim>\<open>fetchAllProducts\<close> builds from the receipts.\<close>

record upstream_product =
  up_id :: string
  up_name :: string
  up_visibility :: "string option"
  up_stock :: "int option"
  up_initialStock :: "int option"

subsection \<open>Cache rows (Supabase tables)\<close>

record payment_row =
  p_id :: string
  p_company_id :: string
  p_product_id :: "string option"
  p_membership_id :: "string option"
  p_user_id :: "string option"
  p_status :: string
  p_final_amount :: "int option"
  p_currency :: string
  p_created_at :: "timestamp option"
  p_paid_at :: "timestamp option"
  p_refunded_at :: "timestamp option"

record membership_row =
  m_id :: string
  m_company_id :: string
  m_product_id :: "string option"
  m_user_id :: "string option"
  m_status :: string
  m_valid :: bool
  m_created_at :: "timestamp option"
  m_expires_at :: "timestamp option"
  m_renewal_period_start :: "timestamp option"
  m_renewal_period_end :: "timestamp option"
  m_cancel_at_period_end :: bool

record product_row =
  pr_id :: string
  pr_company_id :: string
  pr_name :: "string option"
  pr_created_at :: "timestamp option"
  pr_visibility :: "string option"
  pr_stock :: "int option"
  pr_initial_stock :: "int option"

section \<open>Sync coordinator\<close>

record SyncOptions =
  companyId :: string
  force :: "bool option"

record SyncResult =
  success :: bool
  paymentsCount :: nat
  membershipsCount :: nat
  productsCount :: nat
  syncedAt :: timestamp
  error :: "string option"

text \<open>
  What the two external collaborators answer during one call of \<^verbatim>\<open>syncCompanyData\<close>,
  and what the clock reads:
  \<^item> \<open>company_lookup\<close>: the response of the single-row lookup of the company
    (\<open>Inr\<close> the \<^verbatim>\<open>last_sync\<close> column, \<open>Inl\<close> the error);
  \<^item> \<open>*_error\<close>: the \<^verbatim>\<open>error\<close> of the response of each write, \<open>None\<close> on success;
  \<^item> \<open>receipts_nodes\<close>, \<open>members_nodes\<close>, \<open>receipts_nodes_products\<close>: the nodes of the
    three API calls (\<^verbatim>\<open>response?.x?.nodes ?? []\<close>), \<open>None\<close> when the call throws; a
    node can be \<^verbatim>\<open>null\<close>;
  \<^item> \<open>t_check\<close>, \<open>t_products\<close>, \<open>t_update\<close>, \<open>t_return\<close>: the clock at the freshness
    check, at the transformation of the products, in \<^verbatim>\<open>updateLastSync\<close> and where
    the result is built.
\<close>

record sync_env =
  company_lookup :: "pg_error + timestamp option"
  upsert_company_error :: "pg_error option"
  receipts_nodes :: "receipt option list option"
  members_nodes :: "member option list option"
  receipts_nodes_products :: "receipt option list option"
  upsert_payments_error :: "pg_error option"
  upsert_memberships_error :: "pg_error option"
  upsert_products_error :: "pg_error option"
  update_last_sync_error :: "pg_error option"
  t_check :: timestamp
  t_products :: timestamp
  t_update :: timestamp
  t_return :: timestamp

text \<open>The requests that reach the store and the API, in the order they are issued.\<close>

datatype call =
    SelectLastSync string
  | UpsertCompany string
  | ListReceipts string
  | ListMembers string
  | UpsertPayments "payment_row list"
  | UpsertMemberships "membership_row list"
  | UpsertProducts "product_row list"
  | UpdateLastSync string timestamp

subsection \<open>Store helpers (\<^verbatim>\<open>client.ts\<close>)\<close>

definition getLastSync :: "sync_env \<Rightarrow> string \<Rightarrow> thrown + timestamp option" where
  "getLastSync env cid =
     (case company_lookup env of
        Inl e \<Rightarrow> if pg_code e = ''PGRST116'' then Inr None else Inl (PgThrown e)
      | Inr last_sync \<Rightarrow> Inr last_sync)"

definition upsertCompany :: "sync_env \<Rightarrow> string \<Rightarrow> thrown + unit" where
  "upsertCompany env cid =
     (case upsert_company_error env of Some e \<Rightarrow> Inl (PgThrown e) | None \<Rightarrow> Inr ())"

definition updateLastSync :: "sync_env \<Rightarrow> string \<Rightarrow> thrown + unit" where
  "updateLastSync env cid =
     (case update_last_sync_error env of Some e \<Rightarrow> Inl (PgThrown e) | None \<Rightarrow> Inr ())"

definition bulkInsertPayments :: "sync_env \<Rightarrow> payment_row list \<Rightarrow> thrown + unit" where
  "bulkInsertPayments env rows =
     (if rows = [] then Inr ()
      else (case upsert_payments_error env of Some e \<Rightarrow> Inl (PgThrown e) | None \<Rightarrow> Inr ()))"

definition bulkInsertMemberships :: "sync_env \<Rightarrow> membership_row list \<Rightarrow> thrown + unit" where
  "bulkInsertMemberships env rows =
     (if rows = [] then Inr ()
      else (case upsert_memberships_error env of Some e \<Rightarrow> Inl (PgThrown e) | None \<Rightarrow> Inr ()))"

definition bulkInsertProducts :: "sync_env \<Rightarrow> product_row list \<Rightarrow> thrown + unit" where
  "bulkInsertProducts env rows =
     (if rows = [] then Inr ()
      else (case upsert_products_error env of Some e \<Rightarrow> Inl (PgThrown e) | None \<Rightarrow> Inr ()))"

subsection \<open>API helpers (Whop client)\<close>

definition fetchAllPayments :: "sync_env \<Rightarrow> string \<Rightarrow> thrown + receipt option list" where
  "fetchAllPayments env cid =
     (case receipts_nodes env of
        None \<Rightarrow> Inl (JsError ''Failed to fetch receipts from Whop API'')
      | Some receipts \<Rightarrow> Inr receipts)"

definition fetchAllMemberships :: "sync_env \<Rightarrow> string \<Rightarrow> thrown + member option list" where
  "fetchAllMemberships env cid =
     (case members_nodes env of
        None \<Rightarrow> Inl (JsError ''Failed to fetch members from Whop API'')
      | Some members \<Rightarrow> Inr members)"

text \<open>
  The loop of \<^verbatim>\<open>fetchAllProducts\<close> over the receipts: the first receipt that names a
  product id decides the product's entry; the \<^verbatim>\<open>Map\<close> keeps insertion order.
\<close>

fun extract_products ::
  "upstream_product list \<Rightarrow> receipt option list \<Rightarrow> upstream_product list" where
  "extract_products acc [] = acc"
| "extract_products acc (None # rs) = extract_products acc rs"
| "extract_products acc (Some r # rs) =
     (case r_accessPass r of
        None \<Rightarrow> extract_products acc rs
      | Some product \<Rightarrow>
          if truthy (ap_id product) \<and> the (ap_id product) \<notin> set (map up_id acc)
          then extract_products
                 (acc @ [\<lparr> up_id = the (ap_id product),
                           up_name = or_else (ap_name product) ''Unnamed Product'',
                           up_visibility = ap_visibility product,
                           up_stock = ap_stock product,
                           up_initialStock = ap_initialStock product \<rparr>]) rs
          else extract_products acc rs)"

definition fetchAllProducts :: "sync_env \<Rightarrow> string \<Rightarrow> thrown + upstream_product list" where
  "fetchAllProducts env cid =
     (case receipts_nodes_products env of
        None \<Rightarrow> Inl (JsError ''Failed to fetch products from Whop API'')
      | Some receipts \<Rightarrow> Inr (extract_products [] receipts))"

subsection \<open>Transformation of the upstream records (step 4 of \<^verbatim>\<open>syncCompanyData\<close>)\<close>

text \<open>
  One element of \<^verbatim>\<open>payments.map((p) => ({...}))\<close>. The amount is the product of two
  doubles, rounded to a double and then to an integer. The three timestamps are
  converted in the order of the object literal; the first conversion that throws ends
  the call.
\<close>

definition formatPayment :: "string \<Rightarrow> receipt \<Rightarrow> thrown + payment_row" where
  "formatPayment cid p =
     (case epoch_to_iso (r_createdAt p) of
        Inl e \<Rightarrow> Inl e
      | Inr created \<Rightarrow>
     (case epoch_to_iso (r_paidAt p) of
        Inl e \<Rightarrow> Inl e
      | Inr paid \<Rightarrow>
     (case epoch_to_iso (r_refundedAt p) of
        Inl e \<Rightarrow> Inl e
      | Inr refunded \<Rightarrow>
          Inr \<lparr> p_id = r_id p,
                p_company_id = cid,
                p_product_id =
                  (case r_accessPass p of None \<Rightarrow> None | Some a \<Rightarrow> or_null (ap_id a)),
                p_membership_id = or_null (r_membership_id p),
                p_user_id = or_null (r_user_id p),
                p_status =
                  (if r_status p = Some ''succeeded'' then ''paid''
                   else or_else (r_status p) ''unknown''),
                p_final_amount =
                  Some (Math_round
                    (binary64 ((case r_finalAmount p of None \<Rightarrow> 0 | Some a \<Rightarrow> binary64 a) * 100))),
                p_currency = or_else (r_currency p) ''usd'',
                p_created_at = created,
                p_paid_at = paid,
                p_refunded_at = refunded \<rparr>)))"

text \<open>
  \<^verbatim>\<open>payments.map\<close> over the nodes: reading \<^verbatim>\<open>p.id\<close> of a \<^verbatim>\<open>null\<close> node throws a
  TypeError; the message is the engine's (V8):
  \<^verbatim>\<open>Cannot read properties of null (reading 'id')\<close>.
\<close>

definition null_id_message :: string where
  "null_id_message =
     ''Cannot read properties of null (reading '' @ [CHR 0x27] @ ''id'' @ [CHR 0x27] @ '')''"

fun formatPayments :: "string \<Rightarrow> receipt option list \<Rightarrow> thrown + payment_row list" where
  "formatPayments cid [] = Inr []"
| "formatPayments cid (None # ps) = Inl (JsError null_id_message)"
| "formatPayments cid (Some p # ps) =
     (case formatPayment cid p of
        Inl e \<Rightarrow> Inl e
      | Inr row \<Rightarrow>
          (case formatPayments cid ps of Inl e \<Rightarrow> Inl e | Inr rows \<Rightarrow> Inr (row # rows)))"

text \<open>
  \<^verbatim>\<open>(m) => m?.id\<close>: only members with ids. The rows are built from the members that
  pass this filter, so \<open>m_id\<close> is the id of the member.
\<close>

definition has_id :: "member option \<Rightarrow> bool" where
  "has_id m = (case m of None \<Rightarrow> False | Some r \<Rightarrow> truthy (mb_id r))"

definition formatMembership :: "string \<Rightarrow> member \<Rightarrow> thrown + membership_row" where
  "formatMembership cid m =
     (case epoch_to_iso (mb_createdAt m) of
        Inl e \<Rightarrow> Inl e
      | Inr created \<Rightarrow>
     (case epoch_to_iso (mb_expiresAt m) of
        Inl e \<Rightarrow> Inl e
      | Inr expires \<Rightarrow>
     (case epoch_to_iso (mb_renewalPeriodStart m) of
        Inl e \<Rightarrow> Inl e
      | Inr rstart \<Rightarrow>
     (case epoch_to_iso (mb_renewalPeriodEnd m) of
        Inl e \<Rightarrow> Inl e
      | Inr rend \<Rightarrow>
          Inr \<lparr> m_id = or_else (mb_id m) [],
                m_company_id = cid,
                m_product_id =
                  (case mb_accessPasses m of [] \<Rightarrow> None | a # _ \<Rightarrow> or_null (ap_id a)),
                m_user_id = or_null (mb_user_id m),
                m_status = or_else (mb_status m) ''unknown'',
                m_valid = (case mb_valid m of None \<Rightarrow> False | Some b \<Rightarrow> b),
                m_created_at = created,
                m_expires_at = expires,
                m_renewal_period_start = rstart,
                m_renewal_period_end = rend,
                m_cancel_at_period_end =
                  (case mb_cancelAtPeriodEnd m of None \<Rightarrow> False | Some b \<Rightarrow> b) \<rparr>))))"

fun formatMemberships_map :: "string \<Rightarrow> member option list \<Rightarrow> thrown + membership_row list" where
  "formatMemberships_map cid [] = Inr []"
| "formatMemberships_map cid (None # ms) = Inl (JsError null_id_message)"
| "formatMemberships_map cid (Some m # ms) =
     (case formatMembership cid m of
        Inl e \<Rightarrow> Inl e
      | Inr row \<Rightarrow>
          (case formatMemberships_map cid ms of
             Inl e \<Rightarrow> Inl e
           | Inr rows \<Rightarrow> Inr (row # rows)))"

definition formatMemberships :: "string \<Rightarrow> member option list \<Rightarrow> thrown + membership_row list" where
  "formatMemberships cid memberships = formatMemberships_map cid (filter has_id memberships)"

text \<open>
  \<^verbatim>\<open>p.title || p.name || 'Unnamed Product'\<close>: the objects built by
  \<^verbatim>\<open>fetchAllProducts\<close> have no \<^verbatim>\<open>title\<close>.
\<close>

definition formatProduct :: "string \<Rightarrow> timestamp \<Rightarrow> upstream_product \<Rightarrow> product_row" where
  "formatProduct cid now p =
     \<lparr> pr_id = up_id p,
       pr_company_id = cid,
       pr_name = Some (or_else (Some (up_name p)) ''Unnamed Product''),
       pr_created_at = Some now,
       pr_visibility = up_visibility p,
       pr_stock = up_stock p,
       pr_initial_stock = up_initialStock p \<rparr>"

subsection \<open>\<^verbatim>\<open>syncCompanyData\<close>\<close>

text \<open>
  \<^verbatim>\<open>await Promise.all([a, b, c])\<close>: the three operations are all started; the await
  throws when one of them fails. Which failure is reported when several fail depends on
  timing; the model reports the first in the order of the array.
\<close>

definition promise_all3 ::
  "thrown + 'a \<Rightarrow> thrown + 'b \<Rightarrow> thrown + 'c \<Rightarrow> thrown + ('a \<times> 'b \<times> 'c)" where
  "promise_all3 a b c =
     (case a of
        Inl e \<Rightarrow> Inl e
      | Inr x \<Rightarrow>
          (case b of
             Inl e \<Rightarrow> Inl e
           | Inr y \<Rightarrow> (case c of Inl e \<Rightarrow> Inl e | Inr z \<Rightarrow> Inr (x, y, z))))"

text \<open>The \<^verbatim>\<open>catch\<close> block.\<close>

definition sync_failed :: "sync_env \<Rightarrow> thrown \<Rightarrow> SyncResult" where
  "sync_failed env e =
     \<lparr> success = False, paymentsCount = 0, membershipsCount = 0, productsCount = 0,
       syncedAt = t_return env, error = Some (error_message e) \<rparr>"

text \<open>The early return of the freshness check.\<close>

definition sync_skipped :: "timestamp \<Rightarrow> SyncResult" where
  "sync_skipped lastSync =
     \<lparr> success = True, paymentsCount = 0, membershipsCount = 0, productsCount = 0,
       syncedAt = lastSync, error = None \<rparr>"

text \<open>The upsert requests of step 5: a helper returns early on an empty batch.\<close>

definition upsert_calls ::
  "payment_row list \<Rightarrow> membership_row list \<Rightarrow> product_row list \<Rightarrow> call list" where
  "upsert_calls ps ms prs =
     (if ps = [] then [] else [UpsertPayments ps]) @
     (if ms = [] then [] else [UpsertMemberships ms]) @
     (if prs = [] then [] else [UpsertProducts prs])"

text \<open>
  Steps 2 to 6, the part of the \<^verbatim>\<open>try\<close> block after the freshness check. The result
  comes with the requests issued.
\<close>

definition full_sync :: "sync_env \<Rightarrow> string \<Rightarrow> SyncResult \<times> call list" where
  "full_sync env cid =
     (case upsertCompany env cid of
        Inl e \<Rightarrow> (sync_failed env e, [UpsertCompany cid])
      | Inr _ \<Rightarrow>
     let fetches = [UpsertCompany cid, ListReceipts cid, ListMembers cid, ListReceipts cid] in
     (case promise_all3 (fetchAllPayments env cid) (fetchAllMemberships env cid)
             (fetchAllProducts env cid) of
        Inl e \<Rightarrow> (sync_failed env e, fetches)
      | Inr (payments, memberships, products) \<Rightarrow>
     (case formatPayments cid payments of
        Inl e \<Rightarrow> (sync_failed env e, fetches)
      | Inr paymentsFormatted \<Rightarrow>
     (case formatMemberships cid memberships of
        Inl e \<Rightarrow> (sync_failed env e, fetches)
      | Inr membershipsFormatted \<Rightarrow>
     let productsFormatted = map (formatProduct cid (t_products env)) products;
         writes = upsert_calls paymentsFormatted membershipsFormatted productsFormatted in
     (case promise_all3 (bulkInsertPayments env paymentsFormatted)
             (bulkInsertMemberships env membershipsFormatted)
             (bulkInsertProducts env productsFormatted) of
        Inl e \<Rightarrow> (sync_failed env e, fetches @ writes)
      | Inr _ \<Rightarrow>
     (case updateLastSync env cid of
        Inl e \<Rightarrow> (sync_failed env e, fetches @ writes @ [UpdateLastSync cid (t_update env)])
      | Inr _ \<Rightarrow>
          (\<lparr> success = True,
             paymentsCount = length payments,
             membershipsCount = length memberships,
             productsCount = length products,
             syncedAt = t_return env,
             error = None \<rparr>,
           fetches @ writes @ [UpdateLastSync cid (t_update env)])))))))"

definition syncCompanyData :: "sync_env \<Rightarrow> SyncOptions \<Rightarrow> SyncResult \<times> call list" where
  "syncCompanyData env opts =
     (let cid = companyId opts;
          force' = (case force opts of None \<Rightarrow> False | Some b \<Rightarrow> b)
      in case getLastSync env cid of
           Inl e \<Rightarrow> (sync_failed env e, [SelectLastSync cid])
         | Inr lastSync \<Rightarrow>
             let oneHourAgo = t_check env - ONE_HOUR_MS in
             if \<not> force' \<and> (case lastSync of None \<Rightarrow> False | Some t \<Rightarrow> t > oneHourAgo)
             then (sync_skipped (the lastSync), [SelectLastSync cid])
             else (fst (full_sync env cid), SelectLastSync cid # snd (full_sync env cid)))"

section \<open>Metrics engine (the calculator module)\<close>

subsection \<open>The cache store as the calculator reads it\<close>

text \<open>
  The queries that the calculator sends, one constructor for each query of the module,
  with the values that its filters compare with:
  \<^item> \<open>PaidBetween\<close>: the paid payments of a company with \<^verbatim>\<open>paid_at\<close> in a period
    (\<^verbatim>\<open>calculateRevenue\<close>, for each of the two periods);
  \<^item> \<open>ActiveCount\<close>, \<open>ActiveCountBefore\<close>: the two counts of \<^verbatim>\<open>getActiveMemberCount\<close>;
  \<^item> \<open>ValidCountBefore\<close>, \<open>ChurnedCountBetween\<close>: the two counts of
    \<^verbatim>\<open>calculateChurnRate\<close>;
  \<^item> \<open>PaidSince\<close>: the payments of \<^verbatim>\<open>getRevenueTimeSeries\<close>;
  \<^item> \<open>PaidWithProduct\<close>, \<open>ProductsIn\<close>: the payments and the products of
    \<^verbatim>\<open>getTopProducts\<close>;
  \<^item> \<open>ActiveMemberships\<close>: the memberships of \<^verbatim>\<open>calculateMRR\<close>;
  \<^item> \<open>PaidPayments\<close>, \<open>MembershipsOfUsers\<close>: the payments and the memberships of
    \<^verbatim>\<open>getCustomerSegmentation\<close>.
\<close>

datatype query =
    PaidBetween string timestamp timestamp
  | ActiveCount string
  | ActiveCountBefore string timestamp
  | ValidCountBefore string timestamp
  | ChurnedCountBetween string timestamp timestamp
  | PaidSince string timestamp
  | PaidWithProduct string
  | ProductsIn "string list"
  | ActiveMemberships string
  | PaidPayments string
  | MembershipsOfUsers string "string list"

text \<open>
  The calculator destructures only \<^verbatim>\<open>data\<close> or \<^verbatim>\<open>count\<close> from a response and never
  looks at \<^verbatim>\<open>error\<close>; a failed query shows as \<^verbatim>\<open>null\<close>. \<open>query_fails\<close> says which
  queries the store fails to answer; the tables do not change and a query has the same
  answer during one call. Rows come back in table order unless the query orders them.
\<close>

record db =
  payments :: "payment_row list"
  memberships :: "membership_row list"
  products :: "product_row list"
  query_fails :: "query \<Rightarrow> bool"

definition select_rows :: "db \<Rightarrow> query \<Rightarrow> 'a list \<Rightarrow> ('a \<Rightarrow> bool) \<Rightarrow> 'a list option" where
  "select_rows d q tbl P = (if query_fails d q then None else Some (filter P tbl))"

definition count_rows :: "db \<Rightarrow> query \<Rightarrow> 'a list \<Rightarrow> ('a \<Rightarrow> bool) \<Rightarrow> nat option" where
  "count_rows d q tbl P = (if query_fails d q then None else Some (length (filter P tbl)))"

text \<open>Range filters on a nullable timestamp column: \<^verbatim>\<open>NULL\<close> matches none of them.\<close>

definition gte :: "timestamp option \<Rightarrow> timestamp \<Rightarrow> bool" where
  "gte c x = (case c of None \<Rightarrow> False | Some t \<Rightarrow> t \<ge> x)"

definition lte :: "timestamp option \<Rightarrow> timestamp \<Rightarrow> bool" where
  "lte c x = (case c of None \<Rightarrow> False | Some t \<Rightarrow> t \<le> x)"

definition lt :: "timestamp option \<Rightarrow> timestamp \<Rightarrow> bool" where
  "lt c x = (case c of None \<Rightarrow> False | Some t \<Rightarrow> t < x)"

record MetricResult =
  mr_value :: number
  mr_change :: number

record TimeSeriesPoint =
  ts_date :: string
  ts_value :: rat

record ProductMetric =
  productId :: string
  productName :: string
  revenue :: rat
  count :: nat

datatype segment = Seg_new | Seg_active | Seg_at_risk | Seg_churned

record CustomerSegment =
  cs_segment :: segment
  cs_count :: nat
  cs_percentage :: number
  cs_color :: string

subsection \<open>JavaScript containers\<close>

text \<open>
  A plain object used as a dictionary is an association list in insertion order;
  \<^const>\<open>AList.update\<close> overwrites in place or appends, as an assignment to a property
  does. \<^verbatim>\<open>Object.entries\<close> and \<^verbatim>\<open>Object.keys\<close> list the keys that are array indices
  first, in numeric order, and then the other keys in insertion order. Keys are taken
  not to be names of \<^verbatim>\<open>Object.prototype\<close>.
\<close>

definition is_digit :: "char \<Rightarrow> bool" where
  "is_digit c = (CHR ''0'' \<le> c \<and> c \<le> CHR ''9'')"

definition digits_val :: "string \<Rightarrow> nat" where
  "digits_val s = fold (\<lambda>c n. 10 * n + (of_char c - 48)) s 0"

definition is_array_index :: "string \<Rightarrow> bool" where
  "is_array_index s =
     (s \<noteq> [] \<and> list_all is_digit s \<and> (s = ''0'' \<or> hd s \<noteq> CHR ''0'') \<and>
      digits_val s < 2 ^ 32 - 1)"

definition Object_entries :: "(string \<times> 'a) list \<Rightarrow> (string \<times> 'a) list" where
  "Object_entries obj =
     sort_key (\<lambda>kv. digits_val (fst kv)) (filter (\<lambda>kv. is_array_index (fst kv)) obj) @
     filter (\<lambda>kv. \<not> is_array_index (fst kv)) obj"

text \<open>\<^verbatim>\<open>[...new Set(xs)]\<close>: the distinct elements, each at its first occurrence.\<close>

definition Set_values :: "'a list \<Rightarrow> 'a list" where
  "Set_values xs = rev (remdups (rev xs))"

text \<open>\<^verbatim>\<open>xs.slice(0, end)\<close> for an integer \<open>end\<close>: a negative end counts from the back.\<close>

definition slice0 :: "'a list \<Rightarrow> int \<Rightarrow> 'a list" where
  "slice0 xs end =
     (if end < 0 then take (nat (int (length xs) + end)) xs else take (nat end) xs)"

subsection \<open>Revenue\<close>

text \<open>\<^verbatim>\<open>p.final_amount || 0\<close>: the stored integer as a double.\<close>

definition amount_or_0 :: "payment_row \<Rightarrow> rat" where
  "amount_or_0 p = (case p_final_amount p of None \<Rightarrow> 0 | Some a \<Rightarrow> binary64 (of_int a))"

text \<open>\<^verbatim>\<open>data?.reduce((sum, p) => sum + (p.final_amount || 0), 0) || 0\<close>\<close>

definition sum_final_amount :: "payment_row list option \<Rightarrow> rat" where
  "sum_final_amount data =
     (case data of
        None \<Rightarrow> 0
      | Some ps \<Rightarrow> fold (\<lambda>p sum. binary64 (sum + amount_or_0 p)) ps 0)"

text \<open>The query of \<^verbatim>\<open>calculateRevenue\<close>, issued once for each of the two periods.\<close>

definition paid_between :: "db \<Rightarrow> string \<Rightarrow> timestamp \<Rightarrow> timestamp \<Rightarrow> payment_row list option" where
  "paid_between d cid startDate endDate =
     select_rows d (PaidBetween cid startDate endDate) (payments d)
       (\<lambda>p. p_company_id p = cid \<and> p_status p = ''paid'' \<and>
            gte (p_paid_at p) startDate \<and> lte (p_paid_at p) endDate)"

text \<open>\<^verbatim>\<open>Math.ceil((endDate.getTime() - startDate.getTime()) / (1000 * 60 * 60 * 24))\<close>\<close>

definition daysDiff :: "timestamp \<Rightarrow> timestamp \<Rightarrow> int" where
  "daysDiff startDate endDate =
     \<lceil>binary64 (binary64 (of_int (endDate - startDate)) / of_int MS_PER_DAY)\<rceil>"

text \<open>
  \<^verbatim>\<open>((currentRevenue - previousRevenue) / previousRevenue) * 100\<close> and the like: the
  formula of the percentage change, without its guard.
\<close>

definition change_formula :: "number \<Rightarrow> number \<Rightarrow> number" where
  "change_formula current previous =
     js_mul (js_div (js_sub current previous) previous) (Finite 100)"

definition calculateRevenue :: "db \<Rightarrow> string \<Rightarrow> timestamp \<Rightarrow> timestamp \<Rightarrow> MetricResult" where
  "calculateRevenue d cid startDate endDate =
     (let currentRevenue = sum_final_amount (paid_between d cid startDate endDate);
          prevStartDate = subDays startDate (daysDiff startDate endDate);
          prevEndDate = subDays endDate (daysDiff startDate endDate);
          previousRevenue = sum_final_amount (paid_between d cid prevStartDate prevEndDate);
          change =
            (if previousRevenue > 0
             then change_formula (Finite currentRevenue) (Finite previousRevenue)
             else Finite 0)
      in \<lparr> mr_value = js_div (Finite currentRevenue) (Finite 100), mr_change = change \<rparr>)"

subsection \<open>Members, churn, ARPU, MRR, CLV\<close>

text \<open>
  A function that reads the clock takes the readings as arguments, one for each
  \<^verbatim>\<open>new Date()\<close> that it evaluates, in the order of evaluation.
\<close>

definition is_active_member :: "string \<Rightarrow> membership_row \<Rightarrow> bool" where
  "is_active_member cid m =
     (m_company_id m = cid \<and> m_valid m \<and> m_status m \<in> {''active'', ''trialing''})"

definition getActiveMemberCount :: "db \<Rightarrow> string \<Rightarrow> timestamp \<Rightarrow> MetricResult" where
  "getActiveMemberCount d cid now =
     (let currentCount = count_rows d (ActiveCount cid) (memberships d) (is_active_member cid);
          thirtyDaysAgo = subDays now 30;
          previousCount =
            count_rows d (ActiveCountBefore cid thirtyDaysAgo) (memberships d)
              (\<lambda>m. is_active_member cid m \<and> lt (m_created_at m) thirtyDaysAgo);
          current = (case currentCount of None \<Rightarrow> 0 | Some c \<Rightarrow> c);
          change =
            (case previousCount of
               None \<Rightarrow> Finite 0
             | Some prev \<Rightarrow>
                 if prev > 0
                 then change_formula (Finite (of_nat current)) (Finite (of_nat prev))
                 else Finite 0)
      in \<lparr> mr_value = Finite (of_nat current), mr_change = change \<rparr>)"

text \<open>
  \<^verbatim>\<open>calculateChurnRate\<close> reads the clock for \<^verbatim>\<open>thirtyDaysAgo\<close> (\<open>now1\<close>) and again in
  the upper bound of the second query (\<open>now2\<close>).
\<close>

definition calculateChurnRate :: "db \<Rightarrow> string \<Rightarrow> timestamp \<Rightarrow> timestamp \<Rightarrow> number" where
  "calculateChurnRate d cid now1 now2 =
     (let thirtyDaysAgo = subDays now1 30;
          activeThirtyDaysAgo =
            count_rows d (ValidCountBefore cid thirtyDaysAgo) (memberships d)
              (\<lambda>m. m_company_id m = cid \<and> m_valid m \<and> lt (m_created_at m) thirtyDaysAgo);
          churned =
            count_rows d (ChurnedCountBetween cid thirtyDaysAgo now2) (memberships d)
              (\<lambda>m. m_company_id m = cid \<and> \<not> m_valid m \<and>
                   m_status m \<in> {''cancelled'', ''expired''} \<and>
                   gte (m_expires_at m) thirtyDaysAgo \<and> lte (m_expires_at m) now2)
      in case activeThirtyDaysAgo of
           None \<Rightarrow> Finite 0
         | Some a \<Rightarrow>
             if a = 0 then Finite 0
             else js_mul
                    (js_div (Finite (of_nat (case churned of None \<Rightarrow> 0 | Some c \<Rightarrow> c)))
                       (Finite (of_nat a)))
                    (Finite 100))"

text \<open>
  \<^verbatim>\<open>calculateARPU\<close> reads the clock in each of its two calls of
  \<^verbatim>\<open>getActiveMemberCount\<close>: \<open>now1\<close> and \<open>now2\<close>. \<open>previous_ARPU\<close> is the local
  \<^verbatim>\<open>prevARPU\<close>.
\<close>

definition previous_ARPU :: "db \<Rightarrow> string \<Rightarrow> timestamp \<Rightarrow> timestamp \<Rightarrow> timestamp \<Rightarrow> number" where
  "previous_ARPU d cid startDate endDate now2 =
     (let prevStart = subDays startDate (daysDiff startDate endDate);
          prevEnd = subDays endDate (daysDiff startDate endDate);
          prevRevenue = calculateRevenue d cid prevStart prevEnd;
          prevMembers = getActiveMemberCount d cid now2
      in if js_gt (mr_value prevMembers) (Finite 0)
         then js_div (mr_value prevRevenue) (mr_value prevMembers)
         else Finite 0)"

definition calculateARPU ::
  "db \<Rightarrow> string \<Rightarrow> timestamp \<Rightarrow> timestamp \<Rightarrow> timestamp \<Rightarrow> timestamp \<Rightarrow> MetricResult" where
  "calculateARPU d cid startDate endDate now1 now2 =
     (let revenue = calculateRevenue d cid startDate endDate;
          members = getActiveMemberCount d cid now1;
          arpu = (if js_gt (mr_value members) (Finite 0)
                  then js_div (mr_value revenue) (mr_value members)
                  else Finite 0);
          prevARPU = previous_ARPU d cid startDate endDate now2;
          change = (if js_gt prevARPU (Finite 0) then change_formula arpu prevARPU else Finite 0)
      in \<lparr> mr_value = arpu, mr_change = change \<rparr>)"

text \<open>
  \<^verbatim>\<open>calculateMRR\<close> reads the clock for \<^verbatim>\<open>thirtyDaysAgo\<close> (\<open>now1\<close>) and again for the
  end of the period (\<open>now2\<close>).
\<close>

definition calculateMRR :: "db \<Rightarrow> string \<Rightarrow> timestamp \<Rightarrow> timestamp \<Rightarrow> MetricResult" where
  "calculateMRR d cid now1 now2 =
     (case select_rows d (ActiveMemberships cid) (memberships d) (is_active_member cid) of
        None \<Rightarrow> \<lparr> mr_value = Finite 0, mr_change = Finite 0 \<rparr>
      | Some data \<Rightarrow>
          if data = [] then \<lparr> mr_value = Finite 0, mr_change = Finite 0 \<rparr>
          else
            let thirtyDaysAgo = subDays now1 30;
                revenue = calculateRevenue d cid thirtyDaysAgo now2;
                mrr = js_mul (js_div (mr_value revenue) (Finite 30)) (Finite 30)
            in \<lparr> mr_value = mrr, mr_change = mr_change revenue \<rparr>)"

text \<open>
  \<^verbatim>\<open>calculateCLV\<close> reads the clock for the start (\<open>t1\<close>) and for the end (\<open>t2\<close>) of the
  period; then come the readings of \<^verbatim>\<open>calculateARPU\<close> (\<open>a1\<close>, \<open>a2\<close>) and of
  \<^verbatim>\<open>calculateChurnRate\<close> (\<open>c1\<close>, \<open>c2\<close>).
\<close>

definition calculateCLV ::
  "db \<Rightarrow> string \<Rightarrow> timestamp \<Rightarrow> timestamp \<Rightarrow> timestamp \<Rightarrow> timestamp \<Rightarrow> timestamp \<Rightarrow> timestamp \<Rightarrow>
   MetricResult" where
  "calculateCLV d cid t1 t2 a1 a2 c1 c2 =
     (let arpu = calculateARPU d cid (subDays t1 90) t2 a1 a2;
          churnRate = calculateChurnRate d cid c1 c2;
          clv = (if js_gt churnRate (Finite 0)
                 then js_div (mr_value arpu) (js_div churnRate (Finite 100))
                 else js_mul (mr_value arpu) (Finite 12))
      in \<lparr> mr_value = clv, mr_change = mr_change arpu \<rparr>)"

subsection \<open>Revenue time series\<close>

text \<open>
  \<open>fmt\<close> is \<^verbatim>\<open>(t) => format(new Date(t), 'yyyy-MM-dd')\<close> of date-fns, the calendar
  date of a timestamp in the server's time zone. \<^verbatim>\<open>localeCompare\<close> on two such
  strings is the lexicographic order of their characters. The query orders by
  \<^verbatim>\<open>paid_at\<close>; rows with equal \<^verbatim>\<open>paid_at\<close> stay in table order.
\<close>

text \<open>\<^verbatim>\<open>(payment.final_amount || 0) / 100\<close>\<close>

definition amount_major :: "payment_row \<Rightarrow> rat" where
  "amount_major payment = binary64 (amount_or_0 payment / 100)"

text \<open>\<^verbatim>\<open>Math.round(value * 100) / 100\<close>\<close>

definition round_2_decimals :: "rat \<Rightarrow> rat" where
  "round_2_decimals v = binary64 (of_int (Math_round (binary64 (v * 100))) / 100)"

text \<open>The reducer that groups by date, and the \<^verbatim>\<open>reduce\<close> from the empty object.\<close>

definition add_to_date ::
  "(timestamp \<Rightarrow> string) \<Rightarrow> payment_row \<Rightarrow> (string \<times> rat) list \<Rightarrow> (string \<times> rat) list" where
  "add_to_date fmt payment acc =
     (case p_paid_at payment of
        None \<Rightarrow> acc
      | Some t \<Rightarrow>
          AList.update (fmt t)
            (binary64 ((case map_of acc (fmt t) of None \<Rightarrow> 0 | Some v \<Rightarrow> v) +
                       amount_major payment)) acc)"

definition group_by_date ::
  "(timestamp \<Rightarrow> string) \<Rightarrow> payment_row list \<Rightarrow> (string \<times> rat) list" where
  "group_by_date fmt data = fold (add_to_date fmt) data []"

definition getRevenueTimeSeries ::
  "(timestamp \<Rightarrow> string) \<Rightarrow> db \<Rightarrow> string \<Rightarrow> int \<Rightarrow> timestamp \<Rightarrow> TimeSeriesPoint list" where
  "getRevenueTimeSeries fmt d cid days now =
     (let startDate = subDays now days in
      case select_rows d (PaidSince cid startDate) (payments d)
             (\<lambda>p. p_company_id p = cid \<and> p_status p = ''paid'' \<and>
                  gte (p_paid_at p) startDate \<and> p_paid_at p \<noteq> None) of
        None \<Rightarrow> []
      | Some rows \<Rightarrow>
          let data = sort_key (\<lambda>p. the (p_paid_at p)) rows in
          if data = [] then []
          else
            sort_key ts_date
              (map (\<lambda>(date, v). \<lparr> ts_date = date, ts_value = round_2_decimals v \<rparr>)
                 (Object_entries (group_by_date fmt data))))"

subsection \<open>Top products\<close>

text \<open>The reducer that groups by product, and the \<^verbatim>\<open>reduce\<close> from the empty object.\<close>

definition add_to_product ::
  "payment_row \<Rightarrow> (string \<times> rat \<times> nat) list \<Rightarrow> (string \<times> rat \<times> nat) list" where
  "add_to_product payment acc =
     (case p_product_id payment of
        None \<Rightarrow> acc
      | Some pid \<Rightarrow>
          if pid = [] then acc
          else
            let stats = (case map_of acc pid of None \<Rightarrow> (0, 0) | Some st \<Rightarrow> st)
            in AList.update pid
                 (binary64 (fst stats + amount_major payment), snd stats + 1) acc)"

definition group_by_product :: "payment_row list \<Rightarrow> (string \<times> rat \<times> nat) list" where
  "group_by_product ps = fold add_to_product ps []"

text \<open>
  \<^verbatim>\<open>new Map(products?.map((p) => [p.id, p.name]) || [])\<close>: a later pair replaces an
  earlier one with the same id.
\<close>

definition productMap :: "product_row list option \<Rightarrow> string \<Rightarrow> string option option" where
  "productMap data =
     (case data of
        None \<Rightarrow> (\<lambda>_. None)
      | Some prs \<Rightarrow> map_of (rev (map (\<lambda>p. (pr_id p, pr_name p)) prs)))"

text \<open>\<^verbatim>\<open>productMap.get(productId) || 'Unknown Product'\<close>\<close>

definition product_name_of :: "(string \<Rightarrow> string option option) \<Rightarrow> string \<Rightarrow> string" where
  "product_name_of pm pid =
     (case pm pid of None \<Rightarrow> ''Unknown Product'' | Some n \<Rightarrow> or_else n ''Unknown Product'')"

text \<open>
  The limit is an integer; the default of 5 (and of 30 days for the time series) is the
  caller's to supply. \<^verbatim>\<open>sort((a, b) => b.revenue - a.revenue)\<close> is a stable sort, and
  the rounded difference of two doubles has the sign of their difference, so the array
  is sorted by the key \<^verbatim>\<open>-revenue\<close>.
\<close>

definition getTopProducts :: "db \<Rightarrow> string \<Rightarrow> int \<Rightarrow> ProductMetric list" where
  "getTopProducts d cid limit =
     (case select_rows d (PaidWithProduct cid) (payments d)
             (\<lambda>p. p_company_id p = cid \<and> p_status p = ''paid'' \<and> p_product_id p \<noteq> None) of
        None \<Rightarrow> []
      | Some ps \<Rightarrow>
          if ps = [] then []
          else
            let grouped = group_by_product ps;
                productIds = map fst (Object_entries grouped);
                pm = productMap
                       (select_rows d (ProductsIn productIds) (products d)
                          (\<lambda>p. pr_id p \<in> set productIds))
            in slice0
                 (sort_key (\<lambda>e. - revenue e)
                    (map (\<lambda>(pid, stats).
                            \<lparr> productId = pid,
                              productName = product_name_of pm pid,
                              revenue = round_2_decimals (fst stats),
                              count = snd stats \<rparr>)
                       (Object_entries grouped)))
                 limit)"

subsection \<open>Customer segmentation\<close>

definition zero_segments :: "CustomerSegment list" where
  "zero_segments =
     [\<lparr> cs_segment = Seg_new, cs_count = 0, cs_percentage = Finite 0,
        cs_color = ''#10b981'' \<rparr>,
      \<lparr> cs_segment = Seg_active, cs_count = 0, cs_percentage = Finite 0,
        cs_color = ''#3b82f6'' \<rparr>,
      \<lparr> cs_segment = Seg_at_risk, cs_count = 0, cs_percentage = Finite 0,
        cs_color = ''#f59e0b'' \<rparr>,
      \<lparr> cs_segment = Seg_churned, cs_count = 0, cs_percentage = Finite 0,
        cs_color = ''#ef4444'' \<rparr>]"

text \<open>\<^verbatim>\<open>[...new Set(payments.map((p) => p.user_id).filter(Boolean))]\<close>\<close>

definition uniqueCustomerIds :: "payment_row list \<Rightarrow> string list" where
  "uniqueCustomerIds ps = Set_values (map the (filter truthy (map p_user_id ps)))"

text \<open>The \<^verbatim>\<open>forEach\<close> that keeps the most recent membership of each user.\<close>

definition more_recent :: "membership_row \<Rightarrow> membership_row \<Rightarrow> bool" where
  "more_recent m existing =
     (case (m_created_at m, m_created_at existing) of
        (Some a, Some b) \<Rightarrow> a > b
      | _ \<Rightarrow> False)"

definition keep_most_recent ::
  "membership_row \<Rightarrow> (string \<times> membership_row) list \<Rightarrow> (string \<times> membership_row) list" where
  "keep_most_recent m acc =
     (case m_user_id m of
        None \<Rightarrow> acc
      | Some u \<Rightarrow>
          if u = [] then acc
          else (case map_of acc u of
                  None \<Rightarrow> AList.update u m acc
                | Some existing \<Rightarrow>
                    if more_recent m existing then AList.update u m acc else acc))"

definition customersByUserId :: "membership_row list \<Rightarrow> (string \<times> membership_row) list" where
  "customersByUserId ms = fold keep_most_recent ms []"

definition is_new :: "timestamp \<Rightarrow> membership_row \<Rightarrow> bool" where
  "is_new thirtyDaysAgo m =
     ((case m_created_at m of None \<Rightarrow> False | Some c \<Rightarrow> c > thirtyDaysAgo) \<and> m_valid m)"

definition is_active :: "timestamp \<Rightarrow> membership_row \<Rightarrow> bool" where
  "is_active thirtyDaysAgo m =
     (m_valid m \<and> m_status m = ''active'' \<and>
      (case m_created_at m of None \<Rightarrow> False | Some c \<Rightarrow> c \<le> thirtyDaysAgo))"

definition is_at_risk :: "timestamp \<Rightarrow> membership_row \<Rightarrow> bool" where
  "is_at_risk now m =
     (m_valid m \<and>
      (case m_expires_at m of None \<Rightarrow> False | Some e \<Rightarrow> e > now \<and> e < subDays now (- 7)))"

definition is_churned :: "membership_row \<Rightarrow> bool" where
  "is_churned m = (\<not> m_valid m \<or> m_status m = ''cancelled'' \<or> m_status m = ''expired'')"

text \<open>\<^verbatim>\<open>total > 0 ? (n / total) * 100 : 0\<close>\<close>

definition percentage_of :: "nat \<Rightarrow> nat \<Rightarrow> number" where
  "percentage_of n totalCount =
     (if totalCount > 0
      then js_mul (js_div (Finite (of_nat n)) (Finite (of_nat totalCount))) (Finite 100)
      else Finite 0)"

definition getCustomerSegmentation :: "db \<Rightarrow> string \<Rightarrow> timestamp \<Rightarrow> CustomerSegment list" where
  "getCustomerSegmentation d cid now =
     (let thirtyDaysAgo = subDays now 30 in
      case select_rows d (PaidPayments cid) (payments d)
             (\<lambda>p. p_company_id p = cid \<and> p_status p = ''paid'') of
        None \<Rightarrow> zero_segments
      | Some ps \<Rightarrow>
          if ps = [] then zero_segments
          else
            let ids = uniqueCustomerIds ps in
            (case select_rows d (MembershipsOfUsers cid ids) (memberships d)
                    (\<lambda>m. m_company_id m = cid \<and>
                         (case m_user_id m of None \<Rightarrow> False | Some u \<Rightarrow> u \<in> set ids)) of
               None \<Rightarrow> zero_segments
             | Some customerMemberships \<Rightarrow>
                 if customerMemberships = [] then zero_segments
                 else
                   let totalCount = length ids;
                       uniqueCustomers = map snd (customersByUserId customerMemberships);
                       newCustomers = length (filter (is_new thirtyDaysAgo) uniqueCustomers);
                       activeCustomers = length (filter (is_active thirtyDaysAgo) uniqueCustomers);
                       atRiskCustomers = length (filter (is_at_risk now) uniqueCustomers);
                       churnedCustomers = length (filter is_churned uniqueCustomers)
                   in [\<lparr> cs_segment = Seg_new, cs_count = newCustomers,
                          cs_percentage = percentage_of newCustomers totalCount,
                          cs_color = ''#10b981'' \<rparr>,
                       \<lparr> cs_segment = Seg_active, cs_count = activeCustomers,
                          cs_percentage = percentage_of activeCustomers totalCount,
                          cs_color = ''#3b82f6'' \<rparr>,
                       \<lparr> cs_segment = Seg_at_risk, cs_count = atRiskCustomers,
                          cs_percentage = percentage_of atRiskCustomers totalCount,
                          cs_color = ''#f59e0b'' \<rparr>,
                       \<lparr> cs_segment = Seg_churned, cs_count = churnedCustomers,
                          cs_percentage = percentage_of churnedCustomers totalCount,
                          cs_color = ''#ef4444'' \<rparr>]))"

section \<open>Notions of the specification and concrete inputs\<close>

text \<open>
  The payment statuses that the specification enumerates.
\<close>

definition payment_statuses :: "string set" where
  "payment_statuses = {''paid'', ''refunded'', ''failed'', ''pending'', ''unknown''}"

text \<open>
  A company never synced, with one receipt of 19.99 and two members, one without id.
\<close>

definition example_pass :: access_pass where
  "example_pass =
     \<lparr> ap_id = Some ''prod_1'', ap_name = Some ''Premium'', ap_visibility = None,
       ap_stock = None, ap_initialStock = None \<rparr>"

definition example_receipt :: receipt where
  "example_receipt =
     \<lparr> r_id = ''pay_1'', r_status = Some ''succeeded'', r_finalAmount = Some (1999 / 100),
       r_currency = Some ''usd'', r_createdAt = Some 1700000000, r_paidAt = Some 1700000000,
       r_refundedAt = None, r_accessPass = Some example_pass, r_membership_id = None,
       r_user_id = Some ''user_1'' \<rparr>"

definition example_member :: member where
  "example_member =
     \<lparr> mb_id = Some ''mem_1'', mb_status = Some ''active'', mb_valid = Some True,
       mb_createdAt = Some 1700000000, mb_expiresAt = None, mb_renewalPeriodStart = None,
       mb_renewalPeriodEnd = None, mb_cancelAtPeriodEnd = None, mb_accessPasses = [example_pass],
       mb_user_id = Some ''user_1'' \<rparr>"

definition example_env :: sync_env where
  "example_env =
     \<lparr> company_lookup = Inr None, upsert_company_error = None,
       receipts_nodes = Some [Some example_receipt],
       members_nodes = Some [Some example_member, Some (example_member\<lparr> mb_id := None \<rparr>)],
       receipts_nodes_products = Some [Some example_receipt],
       upsert_payments_error = None, upsert_memberships_error = None,
       upsert_products_error = None, update_last_sync_error = None,
       t_check = 1700003600000, t_products = 1700003600001, t_update = 1700003600002,
       t_return = 1700003600003 \<rparr>"

definition example_opts :: SyncOptions where
  "example_opts = \<lparr> companyId = ''biz_1'', force = None \<rparr>"

definition example_payment_row :: payment_row where
  "example_payment_row =
     \<lparr> p_id = ''pay_1'', p_company_id = ''biz_1'', p_product_id = Some ''prod_1'',
       p_membership_id = None, p_user_id = Some ''user_1'', p_status = ''paid'',
       p_final_amount = Some 1999, p_currency = ''usd'', p_created_at = Some 1700000000000,
       p_paid_at = Some 1700000000000, p_refunded_at = None \<rparr>"

text \<open>
  Variants of the example: the store refuses the company upsert; the company was synced
  ten minutes before the check; the receipt has the upstream status \<^verbatim>\<open>'draft'\<close>; the
  store has no row for the company; the lookup of the company fails; the company was
  synced two hours before the check; the call is forced.
\<close>

definition store_down_env :: sync_env where
  "store_down_env =
     example_env\<lparr> upsert_company_error :=
       Some \<lparr> pg_code = ''08006'', pg_message = ''connection failure'',
              pg_instanceof_Error = False \<rparr> \<rparr>"

definition fresh_env :: sync_env where
  "fresh_env = example_env\<lparr> company_lookup := Inr (Some 1700003000000) \<rparr>"

definition draft_env :: sync_env where
  "draft_env =
     example_env\<lparr> receipts_nodes := Some [Some (example_receipt\<lparr> r_status := Some ''draft'' \<rparr>)] \<rparr>"

definition not_found_env :: sync_env where
  "not_found_env =
     example_env\<lparr> company_lookup :=
       Inl \<lparr> pg_code = ''PGRST116'', pg_message = ''JSON object requested, multiple (or no) rows returned'',
             pg_instanceof_Error = False \<rparr> \<rparr>"

definition lookup_down_env :: sync_env where
  "lookup_down_env =
     example_env\<lparr> company_lookup :=
       Inl \<lparr> pg_code = ''08006'', pg_message = ''connection failure'',
             pg_instanceof_Error = False \<rparr> \<rparr>"

definition stale_env :: sync_env where
  "stale_env = example_env\<lparr> company_lookup := Inr (Some 1699996400000) \<rparr>"

definition forced_opts :: SyncOptions where
  "forced_opts = \<lparr> companyId = ''biz_1'', force = Some True \<rparr>"

text \<open>
  The notions of the specification of the freshness check, read off the answer of the
  store to the lookup of the company:
  \<^item> the stored timestamp of the last sync, when the lookup returns one;
  \<^item> no prior sync record: the row of the company has no timestamp, or there is no row
    (the store answers a single-row lookup that finds no row with the error code
    \<^verbatim>\<open>PGRST116\<close>);
  \<^item> the lookup fails: any other error;
  \<^item> within one hour: the age of the timestamp at the clock is less than 3600000 ms;
  \<^item> fresh: the call is not forced and a timestamp is stored that is within one hour;
  \<^item> stale: a timestamp is stored that is one hour old or older.
\<close>

definition within_one_hour :: "timestamp \<Rightarrow> timestamp \<Rightarrow> bool" where
  "within_one_hour now t = (now - t < 3600000)"

definition stored_last_sync :: "sync_env \<Rightarrow> timestamp option" where
  "stored_last_sync env = (case company_lookup env of Inl e \<Rightarrow> None | Inr last_sync \<Rightarrow> last_sync)"

definition no_sync_record :: "sync_env \<Rightarrow> bool" where
  "no_sync_record env =
     (case company_lookup env of
        Inl e \<Rightarrow> pg_code e = ''PGRST116''
      | Inr last_sync \<Rightarrow> last_sync = None)"

definition lookup_fails :: "sync_env \<Rightarrow> bool" where
  "lookup_fails env =
     (case company_lookup env of Inl e \<Rightarrow> pg_code e \<noteq> ''PGRST116'' | Inr last_sync \<Rightarrow> False)"

definition is_fresh :: "sync_env \<Rightarrow> SyncOptions \<Rightarrow> bool" where
  "is_fresh env opts =
     (force opts \<noteq> Some True \<and>
      (case stored_last_sync env of None \<Rightarrow> False | Some t \<Rightarrow> within_one_hour (t_check env) t))"

definition is_stale :: "sync_env \<Rightarrow> bool" where
  "is_stale env =
     (case stored_last_sync env of None \<Rightarrow> False | Some t \<Rightarrow> \<not> within_one_hour (t_check env) t)"

text \<open>
  The requests of a call that go to the upstream API, and the number of membership rows in
  its upsert requests.
\<close>

definition is_fetch :: "call \<Rightarrow> bool" where
  "is_fetch c = (case c of ListReceipts _ \<Rightarrow> True | ListMembers _ \<Rightarrow> True | _ \<Rightarrow> False)"

definition upstream_fetches :: "call list \<Rightarrow> call list" where
  "upstream_fetches calls = filter is_fetch calls"

definition memberships_written :: "call list \<Rightarrow> nat" where
  "memberships_written calls =
     sum_list (map (\<lambda>c. case c of UpsertMemberships rows \<Rightarrow> length rows | _ \<Rightarrow> 0) calls)"

definition draft_row :: payment_row where
  "draft_row = example_payment_row\<lparr> p_status := ''draft'' \<rparr>"

definition example_db :: db where
  "example_db =
     \<lparr> payments = [example_payment_row], memberships = [], products = [],
       query_fails = (\<lambda>q. False) \<rparr>"

text \<open>
  A cache with two paid payments one day apart and two active memberships, one of them
  older than thirty days at the clock \<open>1700000000000\<close>; and the same cache when the store
  fails to answer the revenue query for the day of the earlier payment.
\<close>

definition earlier_payment_row :: payment_row where
  "earlier_payment_row =
     example_payment_row\<lparr> p_id := ''pay_0'', p_final_amount := Some 1000,
       p_paid_at := Some 1699913600000 \<rparr>"

definition example_membership_row :: membership_row where
  "example_membership_row =
     \<lparr> m_id = ''mem_1'', m_company_id = ''biz_1'', m_product_id = Some ''prod_1'',
       m_user_id = Some ''user_1'', m_status = ''active'', m_valid = True,
       m_created_at = Some 1699568000000, m_expires_at = Some 1700259200000,
       m_renewal_period_start = None, m_renewal_period_end = None,
       m_cancel_at_period_end = False \<rparr>"

definition old_membership_row :: membership_row where
  "old_membership_row =
     example_membership_row\<lparr> m_id := ''mem_0'', m_user_id := Some ''user_0'',
       m_created_at := Some 1690000000000, m_expires_at := None \<rparr>"

definition two_period_db :: db where
  "two_period_db =
     \<lparr> payments = [earlier_payment_row, example_payment_row],
       memberships = [old_membership_row, example_membership_row],
       products = [], query_fails = (\<lambda>q. False) \<rparr>"

definition previous_absent_db :: db where
  "previous_absent_db =
     two_period_db\<lparr> query_fails :=
       (\<lambda>q. q = PaidBetween ''biz_1'' 1699913599000 1699913601000) \<rparr>"

text \<open>
  Two cache states that differ only in the creation dates of their memberships.
\<close>

definition same_but_created_at :: "db \<Rightarrow> db \<Rightarrow> bool" where
  "same_but_created_at d d' =
     (payments d = payments d' \<and> products d = products d' \<and> query_fails d = query_fails d' \<and>
      map (\<lambda>m. m\<lparr> m_created_at := None \<rparr>) (memberships d) =
      map (\<lambda>m. m\<lparr> m_created_at := None \<rparr>) (memberships d'))"

definition redated_db :: db where
  "redated_db =
     two_period_db\<lparr> memberships :=
       [old_membership_row\<lparr> m_created_at := Some 1699900000000 \<rparr>, example_membership_row] \<rparr>"

text \<open>
  The unique paying customers of a company: the distinct non-empty user ids of its paid
  payments.
\<close>

definition paying_customers :: "db \<Rightarrow> string \<Rightarrow> string list" where
  "paying_customers d cid =
     remdups (map the (filter truthy (map p_user_id
       (filter (\<lambda>p. p_company_id p = cid \<and> p_status p = ''paid'') (payments d)))))"

text \<open>
  A date formatter for the example: the two calendar days (UTC) on which its payments
  were made are told apart from each other and from every other day.
\<close>

definition example_fmt :: "timestamp \<Rightarrow> string" where
  "example_fmt t = (if t div MS_PER_DAY = 19674 then ''2023-11-13''
                    else if t div MS_PER_DAY = 19675 then ''2023-11-14'' else ''other'')"

text \<open>
  A cache with paid payments for two products, only one of which is in the products
  table.
\<close>

definition top_db :: db where
  "top_db =
     \<lparr> payments =
         [example_payment_row\<lparr> p_id := ''pay_2'', p_product_id := Some ''prod_2'',
            p_final_amount := Some 500 \<rparr>,
          example_payment_row],
       memberships = [],
       products =
         [\<lparr> pr_id = ''prod_1'', pr_company_id = ''biz_1'', pr_name = Some ''Premium'',
            pr_created_at = None, pr_visibility = None, pr_stock = None,
            pr_initial_stock = None \<rparr>],
       query_fails = (\<lambda>q. False) \<rparr>"

text \<open>
  The product ids that the paid payments of a company refer to, and the paid payments
  of a company that refer to a product, in table order.
\<close>

definition paid_product_ids :: "db \<Rightarrow> string \<Rightarrow> string set" where
  "paid_product_ids d cid =
     {pid. pid \<noteq> [] \<and>
        (\<exists>p \<in> set (payments d).
           p_company_id p = cid \<and> p_status p = ''paid'' \<and> p_product_id p = Some pid)}"

definition paid_for_product :: "db \<Rightarrow> string \<Rightarrow> string \<Rightarrow> payment_row list" where
  "paid_for_product d cid pid =
     filter (\<lambda>p. p_company_id p = cid \<and> p_status p = ''paid'' \<and> p_product_id p = Some pid)
       (payments d)"

section \<open>Verification\<close>

text \<open>The definitions to unfold when a function is evaluated at a concrete input.\<close>

lemmas sync_defs =
  syncCompanyData_def full_sync_def getLastSync_def upsertCompany_def updateLastSync_def
  bulkInsertPayments_def bulkInsertMemberships_def bulkInsertProducts_def
  fetchAllPayments_def fetchAllMemberships_def fetchAllProducts_def promise_all3_def
  formatPayment_def formatMemberships_def formatMembership_def formatProduct_def has_id_def
  upsert_calls_def sync_failed_def sync_skipped_def error_message_def
  epoch_to_iso_def toISOString_def truthy_def or_null_def or_else_def
  ONE_HOUR_MS_def Let_def

lemmas example_defs =
  example_env_def example_opts_def example_receipt_def example_member_def example_pass_def
  example_payment_row_def

lemmas calc_defs =
  calculateRevenue_def paid_between_def select_rows_def count_rows_def sum_final_amount_def
  amount_or_0_def gte_def lte_def lt_def subDays_def MS_PER_DAY_def
  getActiveMemberCount_def is_active_member_def calculateARPU_def previous_ARPU_def
  calculateMRR_def calculateCLV_def calculateChurnRate_def change_formula_def js_sub_def
  Let_def

lemmas example_db_defs =
  two_period_db_def earlier_payment_row_def example_payment_row_def
  example_membership_row_def old_membership_row_def example_db_def

lemmas segmentation_defs =
  getCustomerSegmentation_def zero_segments_def uniqueCustomerIds_def Set_values_def
  customersByUserId_def keep_most_recent_def more_recent_def is_new_def is_active_def is_at_risk_def
  is_churned_def percentage_of_def select_rows_def truthy_def subDays_def MS_PER_DAY_def
  Let_def

lemmas time_series_defs =
  getRevenueTimeSeries_def group_by_date_def add_to_date_def Object_entries_def
  is_array_index_def is_digit_def digits_val_def select_rows_def gte_def subDays_def
  MS_PER_DAY_def amount_or_0_def amount_major_def round_2_decimals_def example_fmt_def Let_def

subsection \<open>Rounding to the nearest double\<close>

lemma bitlen_powi:
  assumes "0 < n"
  shows "(2::rat) powi (bitlen n - 1) \<le> of_int n" "of_int n < (2::rat) powi (bitlen n)"
proof -
  from bitlen_bounds [OF assms] have a: "2 ^ nat (bitlen n - 1) \<le> n" and b: "n < 2 ^ nat (bitlen n)"
    by auto
  have pos: "0 < bitlen n"
  proof (rule ccontr)
    assume "\<not> 0 < bitlen n"
    then have "nat (bitlen n) = 0" by simp
    with b assms show False by simp
  qed
  have "(2::rat) powi (bitlen n - 1) = 2 ^ nat (bitlen n - 1)"
    using pos by (simp add: power_int_def)
  also have "\<dots> = of_int (2 ^ nat (bitlen n - 1))" by simp
  also have "\<dots> \<le> of_int n" using a by (simp only: of_int_le_iff)
  finally show "(2::rat) powi (bitlen n - 1) \<le> of_int n" .
  have "of_int n < (of_int (2 ^ nat (bitlen n)) :: rat)" using b by (simp only: of_int_less_iff)
  also have "\<dots> = 2 powi (bitlen n)" using pos by (simp add: power_int_def)
  finally show "of_int n < (2::rat) powi (bitlen n)" .
qed

lemma fl_exp_bounds:
  assumes "0 < x"
  shows "2 powi (fl_exp x) \<le> x" "x < 2 powi (fl_exp x + 1)"
proof -
  obtain n d where q: "quotient_of x = (n, d)" by (cases "quotient_of x")
  then have x: "x = of_int n / of_int d" and d: "0 < d"
    by (simp_all add: quotient_of_div quotient_of_denom_pos)
  from assms x d have n: "0 < n" by (simp add: zero_less_divide_iff)
  let ?e0 = "bitlen n - bitlen d"
  have lo: "(2::rat) powi (?e0 - 1) < x"
  proof -
    have "(2::rat) powi (?e0 - 1) = 2 powi (bitlen n - 1) / 2 powi (bitlen d)"
      by (simp add: power_int_diff)
    also have "\<dots> \<le> of_int n / 2 powi (bitlen d)"
      using bitlen_powi(1) [OF n] by (simp add: divide_right_mono)
    also have "\<dots> < of_int n / of_int d"
      using bitlen_powi(2) [OF d] n d by (simp add: divide_strict_left_mono)
    finally show ?thesis by (simp add: x)
  qed
  have hi: "x < (2::rat) powi (?e0 + 1)"
  proof -
    have "x = of_int n / of_int d" by (rule x)
    also have "\<dots> < 2 powi (bitlen n) / of_int d"
      using bitlen_powi(2) [OF n] d by (simp add: divide_strict_right_mono)
    also have "\<dots> \<le> 2 powi (bitlen n) / 2 powi (bitlen d - 1)"
      using bitlen_powi(1) [OF d] d by (simp add: divide_left_mono)
    also have "\<dots> = 2 powi (?e0 + 1)"
      by (simp add: power_int_diff power_int_add)
    finally show ?thesis .
  qed
  show "2 powi (fl_exp x) \<le> x"
    using lo by (simp add: fl_exp_def q Let_def)
  show "x < 2 powi (fl_exp x + 1)"
    using hi by (auto simp: fl_exp_def q Let_def not_le)
qed

lemma round_half_even_of_int [simp]: "round_half_even (of_int k) = k"
  by (simp add: round_half_even_def)

lemma round_half_even_error: "\<bar>of_int (round_half_even m) - m\<bar> \<le> 1 / 2"
proof -
  have "of_int \<lfloor>m\<rfloor> \<le> m" "m < of_int \<lfloor>m\<rfloor> + 1" by linarith+
  then show ?thesis
    by (auto simp: round_half_even_def Let_def abs_le_iff)
qed

lemma round_half_even_ge:
  assumes "of_int k \<le> m"
  shows "k \<le> round_half_even m"
proof -
  from assms have "k \<le> \<lfloor>m\<rfloor>" by (simp add: le_floor_iff)
  then show ?thesis by (auto simp: round_half_even_def Let_def)
qed

lemma significand_bounds:
  assumes "0 < x"
  shows "2 ^ 52 \<le> x / 2 powi (fl_exp x - 52)" "x / 2 powi (fl_exp x - 52) < 2 ^ 53"
proof -
  have q: "(0::rat) < 2 powi (fl_exp x - 52)" by simp
  have "(2::rat) ^ 52 * 2 powi (fl_exp x - 52) = 2 powi (fl_exp x)"
    by (simp add: power_int_diff)
  then show "2 ^ 52 \<le> x / 2 powi (fl_exp x - 52)"
    using fl_exp_bounds(1) [OF assms] q by (simp add: pos_le_divide_eq)
  have "(2::rat) ^ 53 * 2 powi (fl_exp x - 52) = 2 powi (fl_exp x + 1)"
    by (simp add: power_int_diff power_int_add)
  then show "x / 2 powi (fl_exp x - 52) < 2 ^ 53"
    using fl_exp_bounds(2) [OF assms] q by (simp add: pos_divide_less_eq)
qed

lemma binary64_minus: "binary64 (- x) = - binary64 x"
  by (simp add: binary64_def)

lemma binary64_pos_eq:
  assumes "0 < x"
  shows "binary64 x = of_int (round_half_even (x / 2 powi (fl_exp x - 52))) * 2 powi (fl_exp x - 52)"
  using assms by (simp add: binary64_def)

lemma binary64_pos:
  assumes "0 < x"
  shows "0 < binary64 x"
proof -
  have "(2::int) ^ 52 \<le> round_half_even (x / 2 powi (fl_exp x - 52))"
    using significand_bounds(1) [OF assms] by (intro round_half_even_ge) simp
  then have "0 < round_half_even (x / 2 powi (fl_exp x - 52))" by simp
  then show ?thesis by (simp add: binary64_pos_eq [OF assms])
qed

lemma binary64_sign:
  "0 < binary64 x \<longleftrightarrow> 0 < x" "binary64 x < 0 \<longleftrightarrow> x < 0" "binary64 x = 0 \<longleftrightarrow> x = 0"
proof -
  have neg: "binary64 y < 0" if "y < 0" for y
    using binary64_pos [of "- y"] that by (simp add: binary64_minus)
  have zero: "binary64 0 = 0" by (simp add: binary64_def)
  show "0 < binary64 x \<longleftrightarrow> 0 < x"
    using binary64_pos [of x] neg [of x] zero by (cases x "0::rat" rule: linorder_cases) auto
  show "binary64 x < 0 \<longleftrightarrow> x < 0"
    using binary64_pos [of x] neg [of x] zero by (cases x "0::rat" rule: linorder_cases) auto
  show "binary64 x = 0 \<longleftrightarrow> x = 0"
    using binary64_pos [of x] neg [of x] zero by (cases x "0::rat" rule: linorder_cases) auto
qed

lemma binary64_error_pos:
  assumes "0 < x"
  shows "\<bar>binary64 x - x\<bar> \<le> x / 2 ^ 53"
proof -
  let ?q = "(2::rat) powi (fl_exp x - 52)"
  let ?m = "x / ?q"
  have q: "0 < ?q" by simp
  have "binary64 x - x = (of_int (round_half_even ?m) - ?m) * ?q"
    by (simp add: binary64_pos_eq [OF assms] algebra_simps)
  then have "\<bar>binary64 x - x\<bar> = \<bar>of_int (round_half_even ?m) - ?m\<bar> * ?q"
    by (simp add: abs_mult)
  also have "\<dots> \<le> 1 / 2 * ?q"
    using round_half_even_error [of ?m] q by (intro mult_right_mono) simp_all
  also have "\<dots> = 2 powi (fl_exp x) / 2 ^ 53"
    by (simp add: power_int_diff)
  also have "\<dots> \<le> x / 2 ^ 53"
    using fl_exp_bounds(1) [OF assms] by (simp add: divide_right_mono)
  finally show ?thesis .
qed

lemma binary64_error: "\<bar>binary64 x - x\<bar> \<le> \<bar>x\<bar> / 2 ^ 53"
proof (cases x "0::rat" rule: linorder_cases)
  case less
  then show ?thesis using binary64_error_pos [of "- x"] by (simp add: binary64_minus)
next
  case equal
  then show ?thesis by (simp add: binary64_def)
next
  case greater
  then show ?thesis using binary64_error_pos [of x] by simp
qed

lemma powi_nonpos:
  assumes "e \<le> 0"
  shows "(2::rat) powi e = 1 / 2 ^ nat (- e)"
  using assms by (cases "e = 0") (simp_all add: power_int_def power_one_over inverse_eq_divide)

lemma binary64_of_int_below:
  assumes "0 < k" "k < 2 ^ 53"
  shows "binary64 (of_int k) = of_int k"
proof -
  let ?x = "of_int k :: rat"
  have x: "0 < ?x" using assms by simp
  have "?x < of_int (2 ^ 53)" using assms(2) by (simp only: of_int_less_iff)
  then have "?x < 2 powi 53" by simp
  with fl_exp_bounds(1) [OF x] have "(2::rat) powi (fl_exp ?x) < 2 powi 53" by (rule le_less_trans)
  then have "fl_exp ?x < 53" by (rule power_int_le_imp_less_exp [rotated]) simp_all
  then have e: "fl_exp ?x - 52 \<le> 0" by simp
  define s where "s = nat (- (fl_exp ?x - 52))"
  have q: "(2::rat) powi (fl_exp ?x - 52) = 1 / 2 ^ s"
    unfolding s_def by (rule powi_nonpos [OF e])
  have "?x / (1 / 2 ^ s) = of_int (k * 2 ^ s)" by simp
  then have r: "round_half_even (?x / (1 / 2 ^ s)) = k * 2 ^ s"
    by (simp only: round_half_even_of_int)
  show ?thesis
    unfolding binary64_pos_eq [OF x] q r by simp
qed

lemma binary64_2_53: "binary64 (2 ^ 53) = 2 ^ 53"
  by code_simp

lemma binary64_of_int:
  assumes "\<bar>k\<bar> \<le> 2 ^ 53"
  shows "binary64 (of_int k) = of_int k"
proof -
  have pos: "binary64 (of_int j) = of_int j" if "0 < j" "j \<le> 2 ^ 53" for j
  proof (cases "j = 2 ^ 53")
    case True
    then show ?thesis using binary64_2_53 by simp
  next
    case False
    with that show ?thesis by (intro binary64_of_int_below) simp_all
  qed
  show ?thesis
  proof (cases k "0::int" rule: linorder_cases)
    case less
    with assms pos [of "- k"] show ?thesis by (simp add: binary64_minus)
  next
    case equal
    then show ?thesis by (simp add: binary64_def)
  next
    case greater
    with assms pos [of k] show ?thesis by simp
  qed
qed

lemma Math_round_near:
  assumes "\<bar>y - of_int k\<bar> < 1 / 2"
  shows "Math_round y = k"
proof -
  from assms have "of_int k \<le> y + 1 / 2" "y + 1 / 2 < of_int k + 1"
    by linarith+
  then show ?thesis unfolding Math_round_def by (rule floor_unique)
qed

lemma cents_exact:
  assumes "\<bar>k\<bar> \<le> 2 ^ 50"
  shows "Math_round (binary64 (binary64 (of_int k / 100) * 100)) = k"
proof -
  let ?x = "of_int k / 100 :: rat"
  let ?u = "1 / 2 ^ 53 :: rat"
  have K: "\<bar>of_int k :: rat\<bar> \<le> 2 ^ 50"
    using assms by (metis of_int_abs of_int_le_iff of_int_numeral of_int_power)
  have e1: "\<bar>binary64 ?x - ?x\<bar> \<le> \<bar>?x\<bar> * ?u"
    using binary64_error [of ?x] by simp
  let ?y = "binary64 ?x * 100"
  have d1: "\<bar>?y - of_int k\<bar> \<le> \<bar>of_int k\<bar> * ?u"
  proof -
    have "?y - of_int k = (binary64 ?x - ?x) * 100" by (simp add: algebra_simps)
    then have "\<bar>?y - of_int k\<bar> = \<bar>(binary64 ?x - ?x) * 100\<bar>" by (simp only:)
    also have "\<dots> = \<bar>binary64 ?x - ?x\<bar> * 100" by (simp only: abs_mult abs_numeral)
    also have "\<dots> \<le> \<bar>?x\<bar> * ?u * 100" using e1 by simp
    also have "\<dots> = \<bar>of_int k\<bar> * ?u" by (simp add: abs_divide)
    finally show ?thesis .
  qed
  have y: "\<bar>?y\<bar> \<le> \<bar>of_int k\<bar> * (1 + ?u)"
  proof -
    have "\<bar>?y\<bar> \<le> \<bar>?y - of_int k\<bar> + \<bar>of_int k\<bar>" by simp
    also have "\<dots> \<le> \<bar>of_int k\<bar> * ?u + \<bar>of_int k\<bar>" using d1 by simp
    finally show ?thesis by (simp add: algebra_simps)
  qed
  have e2: "\<bar>binary64 ?y - ?y\<bar> \<le> \<bar>of_int k\<bar> * (1 + ?u) * ?u"
  proof -
    have "\<bar>binary64 ?y - ?y\<bar> \<le> \<bar>?y\<bar> * ?u" using binary64_error [of ?y] by simp
    also have "\<dots> \<le> \<bar>of_int k\<bar> * (1 + ?u) * ?u" using y by (intro mult_right_mono) simp_all
    finally show ?thesis .
  qed
  have "\<bar>binary64 ?y - of_int k\<bar> \<le> \<bar>binary64 ?y - ?y\<bar> + \<bar>?y - of_int k\<bar>" by simp
  also have "\<dots> \<le> \<bar>of_int k\<bar> * (1 + ?u) * ?u + \<bar>of_int k\<bar> * ?u" using e2 d1 by simp
  also have "\<dots> = \<bar>of_int k\<bar> * ((2 + ?u) * ?u)" by (simp add: algebra_simps)
  also have "\<dots> \<le> 2 ^ 50 * ((2 + ?u) * ?u)" using K by (intro mult_right_mono) simp_all
  also have "\<dots> < 1 / 2" by simp
  finally show ?thesis by (rule Math_round_near)
qed

subsection \<open>Evaluation helpers\<close>

lemma binary64_0 [simp]: "binary64 0 = 0"
  by (simp add: binary64_def)

lemma binary64_numeral [simp]:
  "(numeral k :: int) \<le> 2 ^ 53 \<Longrightarrow> binary64 (numeral k) = numeral k"
  using binary64_of_int [of "numeral k"] by simp

lemma binary64_1 [simp]: "binary64 1 = 1"
  using binary64_of_int [of 1] by simp

lemma cents_exact_numeral [simp]:
  "(numeral k :: int) \<le> 2 ^ 50 \<Longrightarrow>
   Math_round (binary64 (binary64 (numeral k / 100) * 100)) = numeral k"
  using cents_exact [of "numeral k"] by simp

lemma Math_round_0 [simp]: "Math_round 0 = 0"
  using Math_round_near [of 0 0] by simp

lemma floor_rat_numeral [simp]:
  "\<lfloor>(numeral a / numeral b :: rat)\<rfloor> = numeral a div numeral b"
  by (metis floor_divide_of_int_eq of_int_numeral)

subsection \<open>The freshness check\<close>

lemma upstream_fetches_upsert_calls [simp]: "upstream_fetches (upsert_calls a b c) = []"
  by (simp add: upstream_fetches_def upsert_calls_def is_fetch_def)

lemma memberships_written_upsert_calls [simp]:
  "memberships_written (upsert_calls a b c) = length b"
  by (simp add: memberships_written_def upsert_calls_def)

lemma getLastSync_cases:
  "getLastSync env cid =
     (if lookup_fails env then Inl (PgThrown (projl (company_lookup env)))
      else Inr (stored_last_sync env))"
  by (simp add: getLastSync_def lookup_fails_def stored_last_sync_def split: sum.splits)

lemma sync_when_fresh:
  assumes "is_fresh env opts"
  shows "syncCompanyData env opts =
           (sync_skipped (the (stored_last_sync env)), [SelectLastSync (companyId opts)])"
proof -
  from assms obtain t where t: "stored_last_sync env = Some t"
    and f: "force opts \<noteq> Some True" and w: "t > t_check env - ONE_HOUR_MS"
    by (auto simp: is_fresh_def within_one_hour_def ONE_HOUR_MS_def split: option.splits)
  from t have "\<not> lookup_fails env"
    by (auto simp: stored_last_sync_def lookup_fails_def split: sum.splits)
  with t have "getLastSync env (companyId opts) = Inr (Some t)"
    by (simp add: getLastSync_cases)
  with f w t show ?thesis
    by (cases "force opts") (auto simp: syncCompanyData_def Let_def)
qed

lemma sync_when_not_fresh:
  assumes "\<not> is_fresh env opts" "\<not> lookup_fails env"
  shows "syncCompanyData env opts =
           (fst (full_sync env (companyId opts)),
            SelectLastSync (companyId opts) # snd (full_sync env (companyId opts)))"
proof -
  from assms(2) have g: "getLastSync env (companyId opts) = Inr (stored_last_sync env)"
    by (simp add: getLastSync_cases)
  show ?thesis
  proof (cases "force opts = Some True")
    case True
    then show ?thesis using g by (simp add: syncCompanyData_def Let_def)
  next
    case False
    with assms(1) have "\<And>t. stored_last_sync env = Some t \<Longrightarrow> \<not> t > t_check env - ONE_HOUR_MS"
      by (auto simp: is_fresh_def within_one_hour_def ONE_HOUR_MS_def split: option.splits)
    then show ?thesis
      using g by (cases "stored_last_sync env") (auto simp: syncCompanyData_def Let_def)
  qed
qed

lemma sync_when_lookup_fails:
  assumes "lookup_fails env"
  shows "syncCompanyData env opts =
           (sync_failed env (PgThrown (projl (company_lookup env))),
            [SelectLastSync (companyId opts)])"
  using assms by (simp add: syncCompanyData_def Let_def getLastSync_cases)

lemma sync_when_lookup_throws:
  assumes "getLastSync env (companyId opts) = Inl e"
  shows "syncCompanyData env opts = (sync_failed env e, [SelectLastSync (companyId opts)])"
  using assms by (simp add: syncCompanyData_def Let_def)

lemma filter_is_fetch_upsert_calls [simp]: "filter is_fetch (upsert_calls a b c) = []"
  by (simp add: upsert_calls_def is_fetch_def)

lemma full_sync_calls_ok:
  assumes "upsert_company_error env = None"
  shows "\<exists>ws. snd (full_sync env cid) =
           UpsertCompany cid # [ListReceipts cid, ListMembers cid, ListReceipts cid] @ ws \<and>
           filter is_fetch ws = []"
  using assms
  by (simp add: full_sync_def Let_def upsertCompany_def is_fetch_def
      split: sum.splits option.splits prod.splits)

lemma full_sync_calls:
  "\<exists>rest. snd (full_sync env cid) = UpsertCompany cid # rest \<and>
     (upsert_company_error env = None \<longrightarrow>
        upstream_fetches rest = [ListReceipts cid, ListMembers cid, ListReceipts cid]) \<and>
     (upsert_company_error env \<noteq> None \<longrightarrow> rest = [] \<and> \<not> success (fst (full_sync env cid)))"
proof (cases "upsert_company_error env")
  case None
  from full_sync_calls_ok [OF this, of cid] obtain ws where
    "snd (full_sync env cid) =
       UpsertCompany cid # [ListReceipts cid, ListMembers cid, ListReceipts cid] @ ws"
    "filter is_fetch ws = []"
    by blast
  with None show ?thesis by (simp add: upstream_fetches_def is_fetch_def)
next
  case (Some e)
  then show ?thesis by (simp add: full_sync_def upsertCompany_def sync_failed_def)
qed

lemma full_sync_no_failure:
  assumes "upsert_company_error env = None"
    "receipts_nodes env = Some rnodes" "members_nodes env = Some mnodes"
    "receipts_nodes_products env = Some pnodes"
    "formatPayments cid rnodes = Inr pf" "formatMemberships cid mnodes = Inr mf"
    "upsert_payments_error env = None" "upsert_memberships_error env = None"
    "upsert_products_error env = None" "update_last_sync_error env = None"
  shows "full_sync env cid =
             (\<lparr> success = True, paymentsCount = length rnodes,
                membershipsCount = length mnodes,
                productsCount = length (extract_products [] pnodes),
                syncedAt = t_return env, error = None \<rparr>,
              [UpsertCompany cid, ListReceipts cid, ListMembers cid, ListReceipts cid] @
              upsert_calls pf mf (map (formatProduct cid (t_products env)) (extract_products [] pnodes)) @
              [UpdateLastSync cid (t_update env)])"
  using assms
  by (simp add: full_sync_def promise_all3_def fetchAllPayments_def upsertCompany_def
      fetchAllMemberships_def fetchAllProducts_def Let_def bulkInsertPayments_def
      bulkInsertMemberships_def bulkInsertProducts_def updateLastSync_def)

lemma sync_cases_exhaustive:
  "is_fresh env opts \<or> lookup_fails env \<or> force opts = Some True \<or> no_sync_record env \<or>
   is_stale env"
  by (auto simp: is_fresh_def lookup_fails_def no_sync_record_def is_stale_def
      stored_last_sync_def split: sum.splits option.splits)

lemma not_fresh_cases:
  "(force opts = Some True \<or> no_sync_record env \<or> is_stale env) \<and> \<not> lookup_fails env
   \<longleftrightarrow> \<not> is_fresh env opts \<and> \<not> lookup_fails env"
  by (auto simp: is_fresh_def lookup_fails_def no_sync_record_def is_stale_def
      stored_last_sync_def split: sum.splits option.splits)

text \<open>
  Claim C1, amended. The answer of the store to the lookup of the company is a stored
  timestamp, no sync record (no timestamp in the row, or no row) or a failure. The call is
  \<^emph>\<open>fresh\<close> when \<open>force\<close> is false or omitted and a timestamp is stored whose age at the
  clock is less than 3600000 ms (the code tests \<^verbatim>\<open>lastSync > oneHourAgo\<close>). Then:
  \<^item> a fresh call returns success with zero counts and the stored timestamp as
    \<open>syncedAt\<close>, and issues no request but the lookup;
  \<^item> the call succeeds without any upstream fetch if and only if it is fresh;
  \<^item> when the lookup does not fail, in every other case (\<open>force\<close> true, no sync record,
    or a timestamp one hour old or older) the company upsert is issued next and, once
    it has succeeded, exactly the three upstream fetches are issued;
  \<^item> in these cases, when no step fails, the result is success with the numbers of
    fetched records, after the three fetches, the upserts of the non-empty batches and
    the update of the timestamp;
  \<^item> when the lookup fails, the call returns a failure and issues no request but the
    lookup, whether it is forced or not.
\<close>

theorem sync_skips_iff_fresh:
  "(is_fresh env opts \<longrightarrow>
      syncCompanyData env opts =
        (\<lparr> success = True, paymentsCount = 0, membershipsCount = 0, productsCount = 0,
           syncedAt = the (stored_last_sync env), error = None \<rparr>,
         [SelectLastSync (companyId opts)])) \<and>
   (success (fst (syncCompanyData env opts)) \<and>
    upstream_fetches (snd (syncCompanyData env opts)) = []
      \<longleftrightarrow> is_fresh env opts) \<and>
   ((force opts = Some True \<or> no_sync_record env \<or> is_stale env) \<and> \<not> lookup_fails env \<longrightarrow>
      (\<exists>rest. snd (syncCompanyData env opts) =
                SelectLastSync (companyId opts) # UpsertCompany (companyId opts) # rest) \<and>
      (upsert_company_error env = None \<longrightarrow>
         upstream_fetches (snd (syncCompanyData env opts)) =
           [ListReceipts (companyId opts), ListMembers (companyId opts),
            ListReceipts (companyId opts)])) \<and>
   ((force opts = Some True \<or> no_sync_record env \<or> is_stale env) \<and> \<not> lookup_fails env \<and>
    upsert_company_error env = None \<and>
    receipts_nodes env = Some rnodes \<and> members_nodes env = Some mnodes \<and>
    receipts_nodes_products env = Some pnodes \<and>
    formatPayments (companyId opts) rnodes = Inr pf \<and>
    formatMemberships (companyId opts) mnodes = Inr mf \<and>
    upsert_payments_error env = None \<and> upsert_memberships_error env = None \<and>
    upsert_products_error env = None \<and> update_last_sync_error env = None \<longrightarrow>
      syncCompanyData env opts =
        (\<lparr> success = True, paymentsCount = length rnodes,
           membershipsCount = length mnodes,
           productsCount = length (extract_products [] pnodes),
           syncedAt = t_return env, error = None \<rparr>,
         [SelectLastSync (companyId opts), UpsertCompany (companyId opts),
          ListReceipts (companyId opts), ListMembers (companyId opts),
          ListReceipts (companyId opts)] @
         upsert_calls pf mf
           (map (formatProduct (companyId opts) (t_products env))
              (extract_products [] pnodes)) @
         [UpdateLastSync (companyId opts) (t_update env)])) \<and>
   (lookup_fails env \<longrightarrow>
      \<not> success (fst (syncCompanyData env opts)) \<and>
      snd (syncCompanyData env opts) = [SelectLastSync (companyId opts)]) \<and>
   (is_fresh env opts \<or> lookup_fails env \<or> force opts = Some True \<or> no_sync_record env \<or>
    is_stale env)"
proof -
  have c1: "syncCompanyData env opts =
        (\<lparr> success = True, paymentsCount = 0, membershipsCount = 0, productsCount = 0,
           syncedAt = the (stored_last_sync env), error = None \<rparr>,
         [SelectLastSync (companyId opts)])"
    if "is_fresh env opts"
    using sync_when_fresh [OF that] by (simp add: sync_skipped_def)
  have c5: "\<not> success (fst (syncCompanyData env opts)) \<and>
      snd (syncCompanyData env opts) = [SelectLastSync (companyId opts)]"
    if "lookup_fails env"
    using sync_when_lookup_fails [OF that] by (simp add: sync_failed_def)
  have not_both: "\<not> (is_fresh env opts \<and> lookup_fails env)"
    by (auto simp: is_fresh_def lookup_fails_def stored_last_sync_def split: sum.splits)
  obtain rest where rest: "snd (full_sync env (companyId opts)) = UpsertCompany (companyId opts) # rest"
    and fetched: "upsert_company_error env = None \<longrightarrow>
        upstream_fetches rest =
          [ListReceipts (companyId opts), ListMembers (companyId opts), ListReceipts (companyId opts)]"
    and aborted: "upsert_company_error env \<noteq> None \<longrightarrow>
        rest = [] \<and> \<not> success (fst (full_sync env (companyId opts)))"
    using full_sync_calls [of env "companyId opts"] by (elim exE conjE)
  have full: "\<not> (success (fst (syncCompanyData env opts)) \<and>
          upstream_fetches (snd (syncCompanyData env opts)) = []) \<and>
      (\<exists>rest. snd (syncCompanyData env opts) =
                SelectLastSync (companyId opts) # UpsertCompany (companyId opts) # rest) \<and>
      (upsert_company_error env = None \<longrightarrow>
         upstream_fetches (snd (syncCompanyData env opts)) =
           [ListReceipts (companyId opts), ListMembers (companyId opts),
            ListReceipts (companyId opts)])"
    if nf: "\<not> is_fresh env opts" "\<not> lookup_fails env"
  proof -
    note stale = sync_when_not_fresh [OF nf]
    have fetches: "upstream_fetches (snd (syncCompanyData env opts)) = upstream_fetches rest"
      by (simp add: stale rest upstream_fetches_def is_fetch_def)
    have "\<not> (success (fst (syncCompanyData env opts)) \<and>
        upstream_fetches (snd (syncCompanyData env opts)) = [])"
      using fetched aborted fetches by (cases "upsert_company_error env = None") (auto simp: stale)
    moreover have "\<exists>rest. snd (syncCompanyData env opts) =
                    SelectLastSync (companyId opts) # UpsertCompany (companyId opts) # rest"
      by (simp add: stale rest)
    moreover have "upsert_company_error env = None \<longrightarrow>
             upstream_fetches (snd (syncCompanyData env opts)) =
               [ListReceipts (companyId opts), ListMembers (companyId opts),
                ListReceipts (companyId opts)]"
      using fetched by (simp add: fetches)
    ultimately show ?thesis by blast
  qed
  have c2: "success (fst (syncCompanyData env opts)) \<and>
    upstream_fetches (snd (syncCompanyData env opts)) = [] \<longleftrightarrow> is_fresh env opts"
  proof (cases "is_fresh env opts")
    case True
    with c1 show ?thesis by (simp add: upstream_fetches_def is_fetch_def)
  next
    case False
    show ?thesis
    proof (cases "lookup_fails env")
      case True
      with c5 False show ?thesis by simp
    next
      case nl: False
      with full False show ?thesis by blast
    qed
  qed
  have c3: "(\<exists>rest. snd (syncCompanyData env opts) =
                SelectLastSync (companyId opts) # UpsertCompany (companyId opts) # rest) \<and>
      (upsert_company_error env = None \<longrightarrow>
         upstream_fetches (snd (syncCompanyData env opts)) =
           [ListReceipts (companyId opts), ListMembers (companyId opts),
            ListReceipts (companyId opts)])"
    if "(force opts = Some True \<or> no_sync_record env \<or> is_stale env) \<and> \<not> lookup_fails env"
    using full that not_fresh_cases [of opts env] by blast
  have c4: "syncCompanyData env opts =
          (\<lparr> success = True, paymentsCount = length rnodes,
             membershipsCount = length mnodes,
             productsCount = length (extract_products [] pnodes),
             syncedAt = t_return env, error = None \<rparr>,
           [SelectLastSync (companyId opts), UpsertCompany (companyId opts),
            ListReceipts (companyId opts), ListMembers (companyId opts),
            ListReceipts (companyId opts)] @
           upsert_calls pf mf
             (map (formatProduct (companyId opts) (t_products env))
                (extract_products [] pnodes)) @
           [UpdateLastSync (companyId opts) (t_update env)])"
    if h: "(force opts = Some True \<or> no_sync_record env \<or> is_stale env) \<and> \<not> lookup_fails env"
      and ok: "upsert_company_error env = None" "receipts_nodes env = Some rnodes"
      "members_nodes env = Some mnodes" "receipts_nodes_products env = Some pnodes"
      "formatPayments (companyId opts) rnodes = Inr pf"
      "formatMemberships (companyId opts) mnodes = Inr mf"
      "upsert_payments_error env = None" "upsert_memberships_error env = None"
      "upsert_products_error env = None" "update_last_sync_error env = None"
  proof -
    from h not_fresh_cases [of opts env] have "\<not> is_fresh env opts" "\<not> lookup_fails env"
      by blast+
    from sync_when_not_fresh [OF this] full_sync_no_failure [OF ok] show ?thesis by simp
  qed
  show ?thesis
    using c1 c2 c3 c4 c5 sync_cases_exhaustive [of env opts] by blast
qed

text \<open>
  A fresh call (synced ten minutes before); a call for a company without a row in the
  store, which completes the cycle; a forced call ten minutes after the last sync and a
  call two hours after it, which fetch; and a call whose lookup fails.
\<close>

theorem sync_skips_iff_fresh_witness:
  "is_fresh fresh_env example_opts \<and>
   syncCompanyData fresh_env example_opts =
     (\<lparr> success = True, paymentsCount = 0, membershipsCount = 0, productsCount = 0,
        syncedAt = 1700003000000, error = None \<rparr>, [SelectLastSync ''biz_1'']) \<and>
   no_sync_record not_found_env \<and> \<not> lookup_fails not_found_env \<and>
   syncCompanyData not_found_env example_opts =
     (\<lparr> success = True, paymentsCount = 1, membershipsCount = 2, productsCount = 1,
        syncedAt = 1700003600003, error = None \<rparr>,
      [SelectLastSync ''biz_1'', UpsertCompany ''biz_1'', ListReceipts ''biz_1'',
       ListMembers ''biz_1'', ListReceipts ''biz_1''] @
      upsert_calls [example_payment_row]
        [\<lparr> m_id = ''mem_1'', m_company_id = ''biz_1'', m_product_id = Some ''prod_1'',
           m_user_id = Some ''user_1'', m_status = ''active'', m_valid = True,
           m_created_at = Some 1700000000000, m_expires_at = None,
           m_renewal_period_start = None, m_renewal_period_end = None,
           m_cancel_at_period_end = False \<rparr>]
        [\<lparr> pr_id = ''prod_1'', pr_company_id = ''biz_1'', pr_name = Some ''Premium'',
           pr_created_at = Some 1700003600001, pr_visibility = None, pr_stock = None,
           pr_initial_stock = None \<rparr>] @
      [UpdateLastSync ''biz_1'' 1700003600002]) \<and>
   force forced_opts = Some True \<and> \<not> lookup_fails fresh_env \<and>
   upstream_fetches (snd (syncCompanyData fresh_env forced_opts)) =
     [ListReceipts ''biz_1'', ListMembers ''biz_1'', ListReceipts ''biz_1''] \<and>
   is_stale stale_env \<and> \<not> lookup_fails stale_env \<and>
   upstream_fetches (snd (syncCompanyData stale_env example_opts)) =
     [ListReceipts ''biz_1'', ListMembers ''biz_1'', ListReceipts ''biz_1''] \<and>
   lookup_fails lookup_down_env \<and>
   \<not> success (fst (syncCompanyData lookup_down_env forced_opts)) \<and>
   snd (syncCompanyData lookup_down_env forced_opts) = [SelectLastSync ''biz_1'']"
proof -
  have fp: "formatPayments ''biz_1'' [Some example_receipt] = Inr [example_payment_row]"
    by (simp add: example_defs formatPayment_def epoch_to_iso_def toISOString_def or_null_def
        or_else_def truthy_def)
  have fm: "formatMemberships ''biz_1'' [Some example_member, Some (example_member\<lparr> mb_id := None \<rparr>)] =
      Inr [\<lparr> m_id = ''mem_1'', m_company_id = ''biz_1'', m_product_id = Some ''prod_1'',
           m_user_id = Some ''user_1'', m_status = ''active'', m_valid = True,
           m_created_at = Some 1700000000000, m_expires_at = None,
           m_renewal_period_start = None, m_renewal_period_end = None,
           m_cancel_at_period_end = False \<rparr>]"
    by (simp add: example_defs formatMemberships_def formatMembership_def has_id_def
        epoch_to_iso_def toISOString_def or_null_def or_else_def truthy_def)
  have ids: "companyId example_opts = ''biz_1''" "companyId forced_opts = ''biz_1''"
    "force forced_opts = Some True"
    by (simp_all add: example_opts_def forced_opts_def)
  have fresh: "is_fresh fresh_env example_opts" "stored_last_sync fresh_env = Some 1700003000000"
    "\<not> lookup_fails fresh_env" "upsert_company_error fresh_env = None"
    by (simp_all add: is_fresh_def stored_last_sync_def lookup_fails_def within_one_hour_def
        fresh_env_def example_env_def example_opts_def)
  have nf: "no_sync_record not_found_env" "\<not> lookup_fails not_found_env"
    by (simp_all add: no_sync_record_def lookup_fails_def not_found_env_def)
  have nf_env: "upsert_company_error not_found_env = None"
    "receipts_nodes not_found_env = Some [Some example_receipt]"
    "members_nodes not_found_env =
       Some [Some example_member, Some (example_member\<lparr> mb_id := None \<rparr>)]"
    "receipts_nodes_products not_found_env = Some [Some example_receipt]"
    "upsert_payments_error not_found_env = None" "upsert_memberships_error not_found_env = None"
    "upsert_products_error not_found_env = None" "update_last_sync_error not_found_env = None"
    "t_products not_found_env = 1700003600001" "t_update not_found_env = 1700003600002"
    "t_return not_found_env = 1700003600003"
    by (simp_all add: not_found_env_def example_env_def)
  have prods: "extract_products [] [Some example_receipt] =
      [\<lparr> up_id = ''prod_1'', up_name = ''Premium'', up_visibility = None, up_stock = None,
         up_initialStock = None \<rparr>]"
    by (simp add: example_receipt_def example_pass_def or_else_def truthy_def)
  have stale: "is_stale stale_env" "\<not> lookup_fails stale_env" "upsert_company_error stale_env = None"
    by (simp_all add: is_stale_def stored_last_sync_def lookup_fails_def within_one_hour_def
        stale_env_def example_env_def)
  have down: "lookup_fails lookup_down_env"
    by (simp add: lookup_fails_def lookup_down_env_def)
  from sync_skips_iff_fresh [of fresh_env example_opts] fresh
  have w1: "syncCompanyData fresh_env example_opts =
     (\<lparr> success = True, paymentsCount = 0, membershipsCount = 0, productsCount = 0,
        syncedAt = 1700003000000, error = None \<rparr>, [SelectLastSync ''biz_1''])"
    by (simp add: ids)
  from sync_skips_iff_fresh [of not_found_env example_opts "[Some example_receipt]"
      "[Some example_member, Some (example_member\<lparr> mb_id := None \<rparr>)]" "[Some example_receipt]"
      "[example_payment_row]"
      "[\<lparr> m_id = ''mem_1'', m_company_id = ''biz_1'', m_product_id = Some ''prod_1'',
           m_user_id = Some ''user_1'', m_status = ''active'', m_valid = True,
           m_created_at = Some 1700000000000, m_expires_at = None,
           m_renewal_period_start = None, m_renewal_period_end = None,
           m_cancel_at_period_end = False \<rparr>]"] nf nf_env fp fm
  have w2: "syncCompanyData not_found_env example_opts =
     (\<lparr> success = True, paymentsCount = 1, membershipsCount = 2, productsCount = 1,
        syncedAt = 1700003600003, error = None \<rparr>,
      [SelectLastSync ''biz_1'', UpsertCompany ''biz_1'', ListReceipts ''biz_1'',
       ListMembers ''biz_1'', ListReceipts ''biz_1''] @
      upsert_calls [example_payment_row]
        [\<lparr> m_id = ''mem_1'', m_company_id = ''biz_1'', m_product_id = Some ''prod_1'',
           m_user_id = Some ''user_1'', m_status = ''active'', m_valid = True,
           m_created_at = Some 1700000000000, m_expires_at = None,
           m_renewal_period_start = None, m_renewal_period_end = None,
           m_cancel_at_period_end = False \<rparr>]
        [\<lparr> pr_id = ''prod_1'', pr_company_id = ''biz_1'', pr_name = Some ''Premium'',
           pr_created_at = Some 1700003600001, pr_visibility = None, pr_stock = None,
           pr_initial_stock = None \<rparr>] @
      [UpdateLastSync ''biz_1'' 1700003600002])"
    by (simp add: ids prods formatProduct_def or_else_def del: extract_products.simps)
  from sync_skips_iff_fresh [of fresh_env forced_opts] fresh
  have w3: "upstream_fetches (snd (syncCompanyData fresh_env forced_opts)) =
     [ListReceipts ''biz_1'', ListMembers ''biz_1'', ListReceipts ''biz_1'']"
    by (simp add: ids)
  from sync_skips_iff_fresh [of stale_env example_opts] stale
  have w4: "upstream_fetches (snd (syncCompanyData stale_env example_opts)) =
     [ListReceipts ''biz_1'', ListMembers ''biz_1'', ListReceipts ''biz_1'']"
    by (simp add: ids)
  from sync_skips_iff_fresh [of lookup_down_env forced_opts] down
  have w5: "\<not> success (fst (syncCompanyData lookup_down_env forced_opts))"
    "snd (syncCompanyData lookup_down_env forced_opts) = [SelectLastSync ''biz_1'']"
    by (simp_all add: ids)
  show ?thesis
    using fresh nf stale down ids w1 w2 w3 w4 w5 by simp
qed

text \<open>
  Claim C1 as stated fails: a forced call whose lookup of the last sync fails (the store
  is unreachable) does not perform the cycle. It returns a failure and issues no
  upstream fetch.
\<close>

theorem sync_forced_lookup_failure_counterexample:
  "force forced_opts = Some True \<and>
   \<not> success (fst (syncCompanyData lookup_down_env forced_opts)) \<and>
   upstream_fetches (snd (syncCompanyData lookup_down_env forced_opts)) = [] \<and>
   snd (syncCompanyData lookup_down_env forced_opts) = [SelectLastSync ''biz_1'']"
  by (simp add: syncCompanyData_def getLastSync_def sync_failed_def lookup_down_env_def
      forced_opts_def example_env_def upstream_fetches_def is_fetch_def)

subsection \<open>The outcomes of a full sync\<close>

lemma full_sync_cases:
  obtains
    (company_failed) e where "upsertCompany env cid = Inl e"
      "full_sync env cid = (sync_failed env e, [UpsertCompany cid])"
  | (fetch_failed) e where
      "promise_all3 (fetchAllPayments env cid) (fetchAllMemberships env cid)
         (fetchAllProducts env cid) = Inl e"
      "full_sync env cid =
         (sync_failed env e,
          [UpsertCompany cid, ListReceipts cid, ListMembers cid, ListReceipts cid])"
  | (transform_failed) e rn mn pn where
      "promise_all3 (fetchAllPayments env cid) (fetchAllMemberships env cid)
         (fetchAllProducts env cid) = Inr (rn, mn, pn)"
      "formatPayments cid rn = Inl e \<or> formatMemberships cid mn = Inl e"
      "full_sync env cid =
         (sync_failed env e,
          [UpsertCompany cid, ListReceipts cid, ListMembers cid, ListReceipts cid])"
  | (write_failed) e rn mn pn pf mf where
      "promise_all3 (fetchAllPayments env cid) (fetchAllMemberships env cid)
         (fetchAllProducts env cid) = Inr (rn, mn, pn)"
      "formatPayments cid rn = Inr pf" "formatMemberships cid mn = Inr mf"
      "promise_all3 (bulkInsertPayments env pf) (bulkInsertMemberships env mf)
         (bulkInsertProducts env (map (formatProduct cid (t_products env)) pn)) = Inl e"
      "full_sync env cid =
         (sync_failed env e,
          [UpsertCompany cid, ListReceipts cid, ListMembers cid, ListReceipts cid] @
          upsert_calls pf mf (map (formatProduct cid (t_products env)) pn))"
  | (update_failed) e rn mn pn pf mf u where
      "promise_all3 (fetchAllPayments env cid) (fetchAllMemberships env cid)
         (fetchAllProducts env cid) = Inr (rn, mn, pn)"
      "formatPayments cid rn = Inr pf" "formatMemberships cid mn = Inr mf"
      "promise_all3 (bulkInsertPayments env pf) (bulkInsertMemberships env mf)
         (bulkInsertProducts env (map (formatProduct cid (t_products env)) pn)) = Inr u"
      "updateLastSync env cid = Inl e"
      "full_sync env cid =
         (sync_failed env e,
          [UpsertCompany cid, ListReceipts cid, ListMembers cid, ListReceipts cid] @
          upsert_calls pf mf (map (formatProduct cid (t_products env)) pn) @
          [UpdateLastSync cid (t_update env)])"
  | (ok) rn mn pn pf mf u where
      "upsertCompany env cid = Inr ()"
      "promise_all3 (fetchAllPayments env cid) (fetchAllMemberships env cid)
         (fetchAllProducts env cid) = Inr (rn, mn, pn)"
      "formatPayments cid rn = Inr pf" "formatMemberships cid mn = Inr mf"
      "promise_all3 (bulkInsertPayments env pf) (bulkInsertMemberships env mf)
         (bulkInsertProducts env (map (formatProduct cid (t_products env)) pn)) = Inr u"
      "updateLastSync env cid = Inr ()"
      "full_sync env cid =
         (\<lparr> success = True, paymentsCount = length rn, membershipsCount = length mn,
            productsCount = length pn, syncedAt = t_return env, error = None \<rparr>,
          [UpsertCompany cid, ListReceipts cid, ListMembers cid, ListReceipts cid] @
          upsert_calls pf mf (map (formatProduct cid (t_products env)) pn) @
          [UpdateLastSync cid (t_update env)])"
proof (cases "upsertCompany env cid")
  case (Inl e)
  then show ?thesis using company_failed by (simp add: full_sync_def)
next
  case c: (Inr u0)
  show ?thesis
  proof (cases "promise_all3 (fetchAllPayments env cid) (fetchAllMemberships env cid)
         (fetchAllProducts env cid)")
    case (Inl e)
    then show ?thesis using c fetch_failed by (simp add: full_sync_def)
  next
    case (Inr fetched)
    obtain rn mn pn where f: "fetched = (rn, mn, pn)" by (cases fetched)
    note fetched = Inr [unfolded f]
    show ?thesis
    proof (cases "formatPayments cid rn")
      case (Inl e)
      then show ?thesis using c fetched transform_failed [of rn mn pn e] by (simp add: full_sync_def)
    next
      case pf: (Inr pf)
      show ?thesis
      proof (cases "formatMemberships cid mn")
        case (Inl e)
        then show ?thesis
          using c fetched pf transform_failed [of rn mn pn e] by (simp add: full_sync_def)
      next
        case mf: (Inr mf)
        show ?thesis
        proof (cases "promise_all3 (bulkInsertPayments env pf) (bulkInsertMemberships env mf)
           (bulkInsertProducts env (map (formatProduct cid (t_products env)) pn))")
          case (Inl e)
          then show ?thesis
            using c fetched pf mf write_failed [of rn mn pn pf mf e] by (simp add: full_sync_def)
        next
          case w: (Inr u)
          show ?thesis
          proof (cases "updateLastSync env cid")
            case (Inl e)
            then show ?thesis
              using c fetched pf mf w update_failed [of rn mn pn pf mf u e]
              by (simp add: full_sync_def)
          next
            case (Inr u1)
            then show ?thesis
              using c fetched pf mf w ok [of rn mn pn pf mf u]
              by (simp add: full_sync_def)
          qed
        qed
      qed
    qed
  qed
qed

lemma fetch_failed_message:
  assumes "promise_all3 (fetchAllPayments env cid) (fetchAllMemberships env cid)
         (fetchAllProducts env cid) = Inl e"
  shows "(receipts_nodes env = None \<or> members_nodes env = None \<or>
          receipts_nodes_products env = None) \<and>
         (\<exists>m \<in> {''Failed to fetch receipts from Whop API'',
                  ''Failed to fetch members from Whop API'',
                  ''Failed to fetch products from Whop API''}. e = JsError m)"
  using assms
  by (auto simp: promise_all3_def fetchAllPayments_def fetchAllMemberships_def
      fetchAllProducts_def split: option.splits sum.splits)

lemma fetch_ok_nodes:
  assumes "promise_all3 (fetchAllPayments env cid) (fetchAllMemberships env cid)
         (fetchAllProducts env cid) = Inr (rn, mn, pn)"
  shows "receipts_nodes env = Some rn \<and> members_nodes env = Some mn \<and>
         (\<exists>rs. receipts_nodes_products env = Some rs \<and> pn = extract_products [] rs)"
  using assms
  by (auto simp: promise_all3_def fetchAllPayments_def fetchAllMemberships_def
      fetchAllProducts_def split: option.splits sum.splits)

lemma bulk_failed_error:
  assumes "promise_all3 (bulkInsertPayments env pf) (bulkInsertMemberships env mf)
         (bulkInsertProducts env prf) = Inl e"
  shows "\<exists>p. e = PgThrown p \<and>
           Some p \<in> {upsert_payments_error env, upsert_memberships_error env,
                      upsert_products_error env}"
  using assms
  by (auto simp: promise_all3_def bulkInsertPayments_def bulkInsertMemberships_def
      bulkInsertProducts_def split: option.splits sum.splits if_splits)

lemma bulk_ok_no_error:
  assumes "promise_all3 (bulkInsertPayments env pf) (bulkInsertMemberships env mf)
         (bulkInsertProducts env prf) = Inr u"
  shows "(pf \<noteq> [] \<longrightarrow> upsert_payments_error env = None) \<and>
         (mf \<noteq> [] \<longrightarrow> upsert_memberships_error env = None) \<and>
         (prf \<noteq> [] \<longrightarrow> upsert_products_error env = None)"
  using assms
  by (auto simp: promise_all3_def bulkInsertPayments_def bulkInsertMemberships_def
      bulkInsertProducts_def split: option.splits sum.splits if_splits)

lemma mem_upsert_calls:
  "c \<in> set (upsert_calls ps ms prs) \<longleftrightarrow>
     (c = UpsertPayments ps \<and> ps \<noteq> []) \<or> (c = UpsertMemberships ms \<and> ms \<noteq> []) \<or>
     (c = UpsertProducts prs \<and> prs \<noteq> [])"
  by (auto simp: upsert_calls_def)

lemma full_sync_outcome:
  "success (fst (full_sync env cid)) \<or> (\<exists>e. fst (full_sync env cid) = sync_failed env e)"
  by (cases rule: full_sync_cases [of env cid]) auto

lemma sync_outcome:
  "success (fst (syncCompanyData env opts)) \<or>
   (\<exists>e. fst (syncCompanyData env opts) = sync_failed env e)"
proof (cases "lookup_fails env")
  case True
  then show ?thesis by (auto simp: sync_when_lookup_fails)
next
  case False
  show ?thesis
  proof (cases "is_fresh env opts")
    case True
    then show ?thesis by (simp add: sync_when_fresh sync_skipped_def)
  next
    case nf: False
    with False show ?thesis
      using full_sync_outcome [of env "companyId opts"] by (simp add: sync_when_not_fresh)
  qed
qed

lemma sync_calls_subset:
  "set (snd (syncCompanyData env opts)) \<subseteq>
     insert (SelectLastSync (companyId opts)) (set (snd (full_sync env (companyId opts))))"
  by (auto simp: syncCompanyData_def Let_def split: sum.splits if_splits)

lemma sync_reaches_full:
  assumes "c \<in> set (snd (syncCompanyData env opts))" "c \<noteq> SelectLastSync (companyId opts)"
  shows "syncCompanyData env opts =
           (fst (full_sync env (companyId opts)),
            SelectLastSync (companyId opts) # snd (full_sync env (companyId opts)))"
  using assms by (auto simp: syncCompanyData_def Let_def split: sum.splits if_splits)

lemma full_sync_company_fails:
  assumes "upsertCompany env cid = Inl e"
  shows "fst (full_sync env cid) = sync_failed env e"
  using assms by (simp add: full_sync_def)

lemma full_sync_fetch_fails:
  assumes "ListReceipts cid \<in> set (snd (full_sync env cid))"
    "receipts_nodes env = None \<or> members_nodes env = None \<or> receipts_nodes_products env = None"
  shows "\<exists>m \<in> {''Failed to fetch receipts from Whop API'',
                 ''Failed to fetch members from Whop API'',
                 ''Failed to fetch products from Whop API''}.
           fst (full_sync env cid) = sync_failed env (JsError m)"
proof (cases rule: full_sync_cases [of env cid])
  case (company_failed e)
  with assms(1) show ?thesis by simp
next
  case (fetch_failed e)
  with fetch_failed_message [OF fetch_failed(1)] show ?thesis by auto
next
  case (transform_failed e rn mn pn)
  with fetch_ok_nodes [OF transform_failed(1)] assms(2) show ?thesis by auto
next
  case (write_failed e rn mn pn pf mf)
  with fetch_ok_nodes [OF write_failed(1)] assms(2) show ?thesis by auto
next
  case (update_failed e rn mn pn pf mf u)
  with fetch_ok_nodes [OF update_failed(1)] assms(2) show ?thesis by auto
next
  case (ok rn mn pn pf mf u)
  with fetch_ok_nodes [OF ok(2)] assms(2) show ?thesis by auto
qed

lemma full_sync_upsert_fails:
  assumes "(UpsertPayments ps \<in> set (snd (full_sync env cid)) \<and> upsert_payments_error env \<noteq> None) \<or>
           (UpsertMemberships ms \<in> set (snd (full_sync env cid)) \<and> upsert_memberships_error env \<noteq> None) \<or>
           (UpsertProducts prs \<in> set (snd (full_sync env cid)) \<and> upsert_products_error env \<noteq> None)"
  shows "\<exists>p. fst (full_sync env cid) = sync_failed env (PgThrown p) \<and>
             Some p \<in> {upsert_payments_error env, upsert_memberships_error env,
                        upsert_products_error env}"
proof (cases rule: full_sync_cases [of env cid])
  case (company_failed e)
  with assms show ?thesis by simp
next
  case (fetch_failed e)
  with assms show ?thesis by simp
next
  case (transform_failed e rn mn pn)
  with assms show ?thesis by simp
next
  case (write_failed e rn mn pn pf mf)
  with bulk_failed_error [OF write_failed(4)] show ?thesis by auto
next
  case (update_failed e rn mn pn pf mf u)
  with bulk_ok_no_error [OF update_failed(4)] assms show ?thesis
    by (auto simp: mem_upsert_calls)
next
  case (ok rn mn pn pf mf u)
  with bulk_ok_no_error [OF ok(5)] assms show ?thesis
    by (auto simp: mem_upsert_calls)
qed

lemma full_sync_update_fails:
  assumes "UpdateLastSync cid t \<in> set (snd (full_sync env cid))"
    "update_last_sync_error env = Some p"
  shows "fst (full_sync env cid) = sync_failed env (PgThrown p)"
proof (cases rule: full_sync_cases [of env cid])
  case (company_failed e)
  with assms show ?thesis by simp
next
  case (fetch_failed e)
  with assms show ?thesis by simp
next
  case (transform_failed e rn mn pn)
  with assms show ?thesis by simp
next
  case (write_failed e rn mn pn pf mf)
  with assms show ?thesis by (auto simp: mem_upsert_calls)
next
  case (update_failed e rn mn pn pf mf u)
  with assms(2) show ?thesis by (simp add: updateLastSync_def)
next
  case (ok rn mn pn pf mf u)
  with assms(2) show ?thesis by (simp add: updateLastSync_def)
qed

subsection \<open>What a successful sync reports and writes\<close>

lemma formatMemberships_map_length:
  "formatMemberships_map cid ms = Inr rows \<Longrightarrow> length rows = length ms"
  by (induction cid ms arbitrary: rows rule: formatMemberships_map.induct)
    (auto split: sum.splits)

lemma formatPayments_Inr:
  "formatPayments cid nodes = Inr rows \<Longrightarrow>
   list_all2 (\<lambda>n row. \<exists>p. n = Some p \<and> formatPayment cid p = Inr row) nodes rows"
  by (induction cid nodes arbitrary: rows rule: formatPayments.induct)
    (auto split: sum.splits)

lemma full_sync_success:
  assumes "success (fst (full_sync env cid))"
  shows "\<exists>rnodes mnodes pnodes pf mf.
           receipts_nodes env = Some rnodes \<and> members_nodes env = Some mnodes \<and>
           receipts_nodes_products env = Some pnodes \<and>
           formatPayments cid rnodes = Inr pf \<and> formatMemberships cid mnodes = Inr mf \<and>
           full_sync env cid =
             (\<lparr> success = True, paymentsCount = length rnodes,
                membershipsCount = length mnodes,
                productsCount = length (extract_products [] pnodes),
                syncedAt = t_return env, error = None \<rparr>,
              [UpsertCompany cid, ListReceipts cid, ListMembers cid, ListReceipts cid] @
              upsert_calls pf mf (map (formatProduct cid (t_products env)) (extract_products [] pnodes)) @
              [UpdateLastSync cid (t_update env)])"
proof (cases rule: full_sync_cases [of env cid])
  case (ok rn mn pn pf mf u)
  with fetch_ok_nodes [OF ok(2)] show ?thesis by auto
qed (use assms in \<open>simp_all add: sync_failed_def\<close>)

lemma full_sync_payments_written:
  assumes "UpsertPayments rows \<in> set (snd (full_sync env cid))"
  shows "\<exists>nodes. receipts_nodes env = Some nodes \<and> formatPayments cid nodes = Inr rows"
proof (cases rule: full_sync_cases [of env cid])
  case (write_failed e rn mn pn pf mf)
  with fetch_ok_nodes [OF write_failed(1)] assms show ?thesis
    by (auto simp: mem_upsert_calls)
next
  case (update_failed e rn mn pn pf mf u)
  with fetch_ok_nodes [OF update_failed(1)] assms show ?thesis
    by (auto simp: mem_upsert_calls)
next
  case (ok rn mn pn pf mf u)
  with fetch_ok_nodes [OF ok(2)] assms show ?thesis
    by (auto simp: mem_upsert_calls)
qed (use assms in simp_all)

lemma sync_payments_written:
  assumes "UpsertPayments rows \<in> set (snd (syncCompanyData env opts))"
  shows "\<exists>nodes. receipts_nodes env = Some nodes \<and>
           list_all2 (\<lambda>n row. \<exists>p. n = Some p \<and> formatPayment (companyId opts) p = Inr row) nodes rows"
proof -
  have "UpsertPayments rows \<in> set (snd (full_sync env (companyId opts)))"
    using assms sync_calls_subset [of env opts] by auto
  then show ?thesis
    using full_sync_payments_written formatPayments_Inr by blast
qed

lemma upstream_fetches_nonempty:
  assumes "upstream_fetches (snd (syncCompanyData env opts)) \<noteq> []"
  shows "syncCompanyData env opts =
           (fst (full_sync env (companyId opts)),
            SelectLastSync (companyId opts) # snd (full_sync env (companyId opts)))"
proof -
  from assms obtain c where "c \<in> set (snd (syncCompanyData env opts))" "is_fetch c"
    by (auto simp: upstream_fetches_def filter_empty_conv)
  moreover from this have "c \<noteq> SelectLastSync (companyId opts)"
    by (auto simp: is_fetch_def)
  ultimately show ?thesis using sync_reaches_full by blast
qed

lemma full_sync_success_memberships:
  assumes "success (fst (full_sync env cid))"
  shows "\<exists>mnodes mf. members_nodes env = Some mnodes \<and>
           formatMemberships cid mnodes = Inr mf \<and>
           membershipsCount (fst (full_sync env cid)) = length mnodes \<and>
           memberships_written (snd (full_sync env cid)) = length mf"
proof -
  from full_sync_success [OF assms] show ?thesis
    using memberships_written_upsert_calls
    by (fastforce simp: memberships_written_def)
qed

text \<open>
  Claim C10. On a successful full sync (a success that fetched from upstream),
  \<open>membershipsCount\<close> is the number of member nodes fetched, the membership rows sent
  to the cache are as many as the nodes with an id, and so, when some node has no id
  (or is \<^verbatim>\<open>null\<close>), the reported count is strictly greater than the number of rows
  written.
\<close>

theorem membershipsCount_counts_fetched:
  assumes "success (fst (syncCompanyData env opts))"
    and "upstream_fetches (snd (syncCompanyData env opts)) \<noteq> []"
  shows "\<exists>mnodes. members_nodes env = Some mnodes \<and>
           membershipsCount (fst (syncCompanyData env opts)) = length mnodes \<and>
           memberships_written (snd (syncCompanyData env opts)) = length (filter has_id mnodes) \<and>
           ((\<exists>m \<in> set mnodes. \<not> has_id m) \<longrightarrow>
              memberships_written (snd (syncCompanyData env opts))
                < membershipsCount (fst (syncCompanyData env opts)))"
proof -
  note full = upstream_fetches_nonempty [OF assms(2)]
  with assms(1) have "success (fst (full_sync env (companyId opts)))" by simp
  from full_sync_success_memberships [OF this] obtain mnodes mf where
    m: "members_nodes env = Some mnodes"
    and mf: "formatMemberships (companyId opts) mnodes = Inr mf"
    and count': "membershipsCount (fst (full_sync env (companyId opts))) = length mnodes"
    and written': "memberships_written (snd (full_sync env (companyId opts))) = length mf"
    by blast
  have len: "length mf = length (filter has_id mnodes)"
    using mf by (simp add: formatMemberships_def formatMemberships_map_length)
  have written: "memberships_written (snd (syncCompanyData env opts)) = length mf"
    using written' by (simp add: full memberships_written_def)
  have count: "membershipsCount (fst (syncCompanyData env opts)) = length mnodes"
    using count' by (simp add: full)
  have "length (filter has_id mnodes) < length mnodes" if "\<exists>m \<in> set mnodes. \<not> has_id m"
    using that length_filter_less [of _ mnodes has_id] by blast
  with m len written count show ?thesis by auto
qed

text \<open>
  Two members fetched, one of them without id: the count is 2, one row is written.
\<close>

theorem membershipsCount_counts_fetched_witness:
  "success (fst (syncCompanyData example_env example_opts)) \<and>
   upstream_fetches (snd (syncCompanyData example_env example_opts)) \<noteq> [] \<and>
   (\<exists>m \<in> set (the (members_nodes example_env)). \<not> has_id m) \<and>
   membershipsCount (fst (syncCompanyData example_env example_opts)) = 2 \<and>
   memberships_written (snd (syncCompanyData example_env example_opts)) = 1"
  using membershipsCount_counts_fetched [of example_env example_opts]
  by (simp add: sync_defs example_defs upstream_fetches_def is_fetch_def memberships_written_def)

subsection \<open>Failures become results\<close>

text \<open>
  Claim C7, amended. \<^verbatim>\<open>syncCompanyData\<close> always returns a result (every throw of the
  model is caught by the \<^verbatim>\<open>catch\<close> block). A result is a success or has
  \<open>success = false\<close> and an error text. A failure of the last-sync lookup, of the
  company upsert, of an upstream fetch, of a bulk upsert or of the timestamp update, in
  a call that reaches that step, gives \<open>success = false\<close>; the error text is the
  message of the thrown value when that is an \<^verbatim>\<open>Error\<close> instance, and
  \<^verbatim>\<open>'Unknown error'\<close> when it is not (the error objects of the store are thrown as they
  are). When several operations of one \<^verbatim>\<open>Promise.all\<close> fail, the text is that of one of
  them.
\<close>

theorem sync_failures_become_results:
  assumes "syncCompanyData env opts = (r, calls)"
  shows
    "(success r \<or> (\<exists>e. \<not> success r \<and> error r = Some (error_message e))) \<and>
     (\<forall>e. getLastSync env (companyId opts) = Inl e \<longrightarrow>
          \<not> success r \<and> error r = Some (error_message e)) \<and>
     (\<forall>e. UpsertCompany (companyId opts) \<in> set calls \<and>
          upsertCompany env (companyId opts) = Inl e \<longrightarrow>
          \<not> success r \<and> error r = Some (error_message e)) \<and>
     (ListReceipts (companyId opts) \<in> set calls \<and>
      (receipts_nodes env = None \<or> members_nodes env = None \<or>
       receipts_nodes_products env = None) \<longrightarrow>
        \<not> success r \<and>
        (\<exists>m \<in> {''Failed to fetch receipts from Whop API'',
                 ''Failed to fetch members from Whop API'',
                 ''Failed to fetch products from Whop API''}. error r = Some m)) \<and>
     (\<forall>ps ms prs.
        (UpsertPayments ps \<in> set calls \<and> upsert_payments_error env \<noteq> None) \<or>
        (UpsertMemberships ms \<in> set calls \<and> upsert_memberships_error env \<noteq> None) \<or>
        (UpsertProducts prs \<in> set calls \<and> upsert_products_error env \<noteq> None) \<longrightarrow>
        \<not> success r \<and>
        (\<exists>p. Some p \<in> {upsert_payments_error env, upsert_memberships_error env,
                         upsert_products_error env} \<and>
             error r = Some (error_message (PgThrown p)))) \<and>
     (\<forall>t p. UpdateLastSync (companyId opts) t \<in> set calls \<and>
            update_last_sync_error env = Some p \<longrightarrow>
            \<not> success r \<and> error r = Some (error_message (PgThrown p))) \<and>
     (\<forall>m. error_message (JsError m) = m) \<and>
     (\<forall>p. error_message (PgThrown p) =
            (if pg_instanceof_Error p then pg_message p else ''Unknown error''))"
proof -
  have r: "r = fst (syncCompanyData env opts)" and calls: "calls = snd (syncCompanyData env opts)"
    using assms by simp_all
  have failed: "\<not> success (sync_failed env e) \<and> error (sync_failed env e) = Some (error_message e)"
    for e by (simp add: sync_failed_def)
  have full: "r = fst (full_sync env (companyId opts)) \<and>
      set calls \<subseteq> insert (SelectLastSync (companyId opts)) (set (snd (full_sync env (companyId opts))))"
    if "c \<in> set calls" "c \<noteq> SelectLastSync (companyId opts)" for c
    using sync_reaches_full [of c env opts] that by (auto simp: r calls)
  have c1: "success r \<or> (\<exists>e. \<not> success r \<and> error r = Some (error_message e))"
    using sync_outcome [of env opts] failed by (auto simp: r)
  have c2: "\<not> success r \<and> error r = Some (error_message e)"
    if "getLastSync env (companyId opts) = Inl e" for e
    using sync_when_lookup_throws [OF that] failed by (simp add: r)
  have c3: "\<not> success r \<and> error r = Some (error_message e)"
    if "UpsertCompany (companyId opts) \<in> set calls"
      "upsertCompany env (companyId opts) = Inl e" for e
    using full [OF that(1)] full_sync_company_fails [OF that(2)] failed by simp
  have c4: "\<not> success r \<and>
        (\<exists>m \<in> {''Failed to fetch receipts from Whop API'',
                 ''Failed to fetch members from Whop API'',
                 ''Failed to fetch products from Whop API''}. error r = Some m)"
    if "ListReceipts (companyId opts) \<in> set calls"
      "receipts_nodes env = None \<or> members_nodes env = None \<or> receipts_nodes_products env = None"
  proof -
    from full [OF that(1)] that(1)
    have "r = fst (full_sync env (companyId opts))"
      "ListReceipts (companyId opts) \<in> set (snd (full_sync env (companyId opts)))"
      by auto
    with full_sync_fetch_fails [OF this(2) that(2)] show ?thesis
      by (auto simp: sync_failed_def error_message_def)
  qed
  have c5: "\<not> success r \<and>
        (\<exists>p. Some p \<in> {upsert_payments_error env, upsert_memberships_error env,
                         upsert_products_error env} \<and>
             error r = Some (error_message (PgThrown p)))"
    if "(UpsertPayments ps \<in> set calls \<and> upsert_payments_error env \<noteq> None) \<or>
        (UpsertMemberships ms \<in> set calls \<and> upsert_memberships_error env \<noteq> None) \<or>
        (UpsertProducts prs \<in> set calls \<and> upsert_products_error env \<noteq> None)" for ps ms prs
  proof -
    from that obtain c where "c \<in> set calls" "c \<noteq> SelectLastSync (companyId opts)"
      by auto
    from full [OF this] have rr: "r = fst (full_sync env (companyId opts))"
      and sub: "set calls \<subseteq> insert (SelectLastSync (companyId opts))
                  (set (snd (full_sync env (companyId opts))))"
      by simp_all
    from that sub have
      "(UpsertPayments ps \<in> set (snd (full_sync env (companyId opts))) \<and> upsert_payments_error env \<noteq> None) \<or>
       (UpsertMemberships ms \<in> set (snd (full_sync env (companyId opts))) \<and> upsert_memberships_error env \<noteq> None) \<or>
       (UpsertProducts prs \<in> set (snd (full_sync env (companyId opts))) \<and> upsert_products_error env \<noteq> None)"
      by auto
    from full_sync_upsert_fails [OF this] show ?thesis
      using failed by (auto simp: rr)
  qed
  have c6: "\<not> success r \<and> error r = Some (error_message (PgThrown p))"
    if "UpdateLastSync (companyId opts) t \<in> set calls" "update_last_sync_error env = Some p"
    for t p
  proof -
    from full [OF that(1)] that(1)
    have "r = fst (full_sync env (companyId opts))"
      "UpdateLastSync (companyId opts) t \<in> set (snd (full_sync env (companyId opts)))"
      by auto
    with full_sync_update_fails [OF this(2) that(2)] failed show ?thesis by simp
  qed
  have c7: "error_message (JsError m) = m" for m by (simp add: error_message_def)
  have c8: "error_message (PgThrown p) =
            (if pg_instanceof_Error p then pg_message p else ''Unknown error'')" for p
    by (simp add: error_message_def)
  show ?thesis
    using c1 c2 c3 c4 c5 c6 c7 c8 by blast
qed

text \<open>
  The company upsert fails with an error object that is not an \<^verbatim>\<open>Error\<close> instance.
\<close>

theorem sync_failures_become_results_witness:
  "syncCompanyData store_down_env example_opts =
     (\<lparr> success = False, paymentsCount = 0, membershipsCount = 0, productsCount = 0,
        syncedAt = 1700003600003, error = Some ''Unknown error'' \<rparr>,
      [SelectLastSync ''biz_1'', UpsertCompany ''biz_1'']) \<and>
   upsertCompany store_down_env (companyId example_opts) =
     Inl (PgThrown \<lparr> pg_code = ''08006'', pg_message = ''connection failure'',
                     pg_instanceof_Error = False \<rparr>)"
  using sync_failures_become_results [of store_down_env example_opts
      "fst (syncCompanyData store_down_env example_opts)"
      "snd (syncCompanyData store_down_env example_opts)"]
  by (simp add: sync_defs example_defs store_down_env_def)

text \<open>
  Claim C7 as stated fails: the store reports \<^verbatim>\<open>'connection failure'\<close> for the company
  upsert, and the error field of the result is \<^verbatim>\<open>'Unknown error'\<close>.
\<close>

theorem sync_error_message_counterexample:
  "upsertCompany store_down_env ''biz_1'' =
     Inl (PgThrown \<lparr> pg_code = ''08006'', pg_message = ''connection failure'',
                     pg_instanceof_Error = False \<rparr>) \<and>
   error (fst (syncCompanyData store_down_env example_opts)) = Some ''Unknown error'' \<and>
   error (fst (syncCompanyData store_down_env example_opts)) \<noteq> Some ''connection failure''"
  by (simp add: sync_defs example_defs store_down_env_def)

subsection \<open>Normalised payments and the revenue round trip\<close>

lemma list_all2_in_set2:
  "list_all2 P xs ys \<Longrightarrow> y \<in> set ys \<Longrightarrow> \<exists>x \<in> set xs. P x y"
  by (induction rule: list_all2_induct) auto

lemma formatPayment_status:
  "formatPayment cid p = Inr row \<Longrightarrow>
   p_status row =
     (if r_status p = Some ''succeeded'' then ''paid'' else or_else (r_status p) ''unknown'')"
  by (auto simp: formatPayment_def split: sum.splits)

lemma formatPayment_amount:
  "formatPayment cid p = Inr row \<Longrightarrow>
   p_final_amount row =
     Some (Math_round
       (binary64 ((case r_finalAmount p of None \<Rightarrow> 0 | Some a \<Rightarrow> binary64 a) * 100)))"
  by (auto simp: formatPayment_def split: sum.splits)

lemma status_in_set_iff:
  "(if s = Some ''succeeded'' then ''paid'' else or_else s ''unknown'') \<in> payment_statuses
     \<longleftrightarrow> s \<in> {None, Some [], Some ''succeeded''} \<union> Some ` payment_statuses"
  by (cases s) (auto simp: or_else_def payment_statuses_def)

text \<open>
  Claim C6, amended. Every payment row that the sync sends to the cache comes from a
  fetched receipt, and its status is \<^verbatim>\<open>'paid'\<close> when the upstream status is
  \<^verbatim>\<open>'succeeded'\<close>, \<^verbatim>\<open>'unknown'\<close> when the upstream status is missing or empty, and the
  upstream status unchanged otherwise. Hence the stored status is one of paid, refunded,
  failed, pending, unknown exactly when the upstream status is \<^verbatim>\<open>'succeeded'\<close>, missing,
  empty, or already one of these five.
\<close>

theorem payment_status_passthrough:
  assumes "UpsertPayments rows \<in> set (snd (syncCompanyData env opts))" and "row \<in> set rows"
  shows "\<exists>nodes p. receipts_nodes env = Some nodes \<and> Some p \<in> set nodes \<and>
           formatPayment (companyId opts) p = Inr row \<and>
           p_status row =
             (if r_status p = Some ''succeeded'' then ''paid''
              else if r_status p = None \<or> r_status p = Some [] then ''unknown''
              else the (r_status p)) \<and>
           (p_status row \<in> payment_statuses \<longleftrightarrow>
              r_status p \<in> {None, Some [], Some ''succeeded''} \<union> Some ` payment_statuses)"
proof -
  from sync_payments_written [OF assms(1)] obtain nodes where
    nodes: "receipts_nodes env = Some nodes"
    and all: "list_all2 (\<lambda>n row. \<exists>p. n = Some p \<and> formatPayment (companyId opts) p = Inr row)
                nodes rows"
    by blast
  from list_all2_in_set2 [OF all assms(2)] obtain p where
    p: "Some p \<in> set nodes" "formatPayment (companyId opts) p = Inr row"
    by blast
  note st = formatPayment_status [OF p(2)]
  have "p_status row =
             (if r_status p = Some ''succeeded'' then ''paid''
              else if r_status p = None \<or> r_status p = Some [] then ''unknown''
              else the (r_status p))"
    by (cases "r_status p") (simp_all add: st or_else_def)
  moreover have "p_status row \<in> payment_statuses \<longleftrightarrow>
              r_status p \<in> {None, Some [], Some ''succeeded''} \<union> Some ` payment_statuses"
    unfolding st by (rule status_in_set_iff)
  ultimately show ?thesis using nodes p by blast
qed

text \<open>
  The receipt with status \<^verbatim>\<open>'succeeded'\<close> is written with status \<^verbatim>\<open>'paid'\<close>.
\<close>

theorem payment_status_passthrough_witness:
  "UpsertPayments [example_payment_row] \<in> set (snd (syncCompanyData example_env example_opts)) \<and>
   example_payment_row \<in> set [example_payment_row] \<and>
   p_status example_payment_row \<in> payment_statuses"
  using payment_status_passthrough
    [of "[example_payment_row]" example_env example_opts example_payment_row]
  by (simp add: sync_defs example_defs payment_statuses_def)

text \<open>
  Claim C6 as stated fails: a receipt with the upstream status \<^verbatim>\<open>'draft'\<close> is written
  to the cache with the status \<^verbatim>\<open>'draft'\<close>.
\<close>

theorem payment_status_counterexample:
  "UpsertPayments [draft_row] \<in> set (snd (syncCompanyData draft_env example_opts)) \<and>
   p_status draft_row = ''draft'' \<and> ''draft'' \<notin> payment_statuses"
  by (simp add: sync_defs example_defs draft_env_def draft_row_def payment_statuses_def)

lemma Math_round_error: "\<bar>of_int (Math_round y) - y\<bar> \<le> 1 / 2"
proof -
  have "of_int \<lfloor>y + 1 / 2\<rfloor> \<le> y + 1 / 2" "y + 1 / 2 < of_int \<lfloor>y + 1 / 2\<rfloor> + 1"
    by linarith+
  then show ?thesis unfolding Math_round_def by linarith
qed

lemma times_100_error:
  "\<bar>binary64 (binary64 a * 100) - a * 100\<bar> \<le> \<bar>a * 100\<bar> / 2 ^ 51"
proof -
  let ?u = "1 / 2 ^ 53 :: rat"
  let ?y = "binary64 a * 100"
  have e1: "\<bar>?y - a * 100\<bar> \<le> \<bar>a * 100\<bar> * ?u"
  proof -
    have "?y - a * 100 = (binary64 a - a) * 100" by (simp add: algebra_simps)
    then have "\<bar>?y - a * 100\<bar> = \<bar>(binary64 a - a) * 100\<bar>" by (simp only:)
    also have "\<dots> = \<bar>binary64 a - a\<bar> * 100" by (simp only: abs_mult abs_numeral)
    also have "\<dots> \<le> \<bar>a\<bar> / 2 ^ 53 * 100" using binary64_error [of a] by simp
    also have "\<dots> = \<bar>a * 100\<bar> * ?u" by (simp add: abs_mult)
    finally show ?thesis .
  qed
  have y: "\<bar>?y\<bar> \<le> \<bar>a * 100\<bar> * (1 + ?u)"
  proof -
    have "\<bar>?y\<bar> \<le> \<bar>?y - a * 100\<bar> + \<bar>a * 100\<bar>" by simp
    also have "\<dots> \<le> \<bar>a * 100\<bar> * ?u + \<bar>a * 100\<bar>" using e1 by simp
    finally show ?thesis by (simp add: algebra_simps)
  qed
  have e2: "\<bar>binary64 ?y - ?y\<bar> \<le> \<bar>a * 100\<bar> * (1 + ?u) * ?u"
  proof -
    have "\<bar>binary64 ?y - ?y\<bar> \<le> \<bar>?y\<bar> * ?u" using binary64_error [of ?y] by simp
    also have "\<dots> \<le> \<bar>a * 100\<bar> * (1 + ?u) * ?u" using y by (intro mult_right_mono) simp_all
    finally show ?thesis .
  qed
  have "\<bar>binary64 ?y - a * 100\<bar> \<le> \<bar>binary64 ?y - ?y\<bar> + \<bar>?y - a * 100\<bar>" by simp
  also have "\<dots> \<le> \<bar>a * 100\<bar> * (1 + ?u) * ?u + \<bar>a * 100\<bar> * ?u" using e2 e1 by simp
  also have "\<dots> = \<bar>a * 100\<bar> * ((2 + ?u) * ?u)" by (simp add: algebra_simps)
  also have "\<dots> \<le> \<bar>a * 100\<bar> * (1 / 2 ^ 51)" by (intro mult_left_mono) simp_all
  finally show ?thesis by simp
qed

lemma minor_units_error:
  "\<bar>of_int (Math_round (binary64 (binary64 a * 100))) - a * 100\<bar>
     \<le> 1 / 2 + \<bar>a * 100\<bar> / 2 ^ 51"
proof -
  let ?y = "binary64 (binary64 a * 100)"
  have "\<bar>of_int (Math_round ?y) - a * 100\<bar> \<le> \<bar>of_int (Math_round ?y) - ?y\<bar> + \<bar>?y - a * 100\<bar>"
    by simp
  also have "\<dots> \<le> 1 / 2 + \<bar>a * 100\<bar> / 2 ^ 51"
    using Math_round_error [of ?y] times_100_error [of a] by simp
  finally show ?thesis .
qed

lemma fold_double_sum:
  assumes "\<bar>A\<bar> + (\<Sum>p\<leftarrow>ps. \<bar>case p_final_amount p of None \<Rightarrow> 0 | Some a \<Rightarrow> a\<bar>) \<le> 2 ^ 53"
  shows "fold (\<lambda>p sum. binary64 (sum + amount_or_0 p)) ps (of_int A) =
         of_int (A + (\<Sum>p\<leftarrow>ps. case p_final_amount p of None \<Rightarrow> 0 | Some a \<Rightarrow> a))"
  using assms
proof (induction ps arbitrary: A)
  case Nil
  then show ?case by simp
next
  case (Cons p ps)
  let ?a = "case p_final_amount p of None \<Rightarrow> 0 | Some a \<Rightarrow> a"
  from Cons.prems have bound: "\<bar>A\<bar> + \<bar>?a\<bar> + (\<Sum>p\<leftarrow>ps. \<bar>case p_final_amount p of None \<Rightarrow> 0 | Some a \<Rightarrow> a\<bar>) \<le> 2 ^ 53"
    by simp
  have nonneg: "0 \<le> (\<Sum>p\<leftarrow>ps. \<bar>case p_final_amount p of None \<Rightarrow> 0 | Some a \<Rightarrow> a\<bar>)"
    by (rule sum_list_nonneg) auto
  from bound nonneg have a: "\<bar>?a\<bar> \<le> 2 ^ 53" and s: "\<bar>A + ?a\<bar> \<le> 2 ^ 53" by linarith+
  have am: "amount_or_0 p = of_int ?a"
    using a by (cases "p_final_amount p") (simp_all add: amount_or_0_def binary64_of_int)
  have step: "binary64 (of_int A + amount_or_0 p) = of_int (A + ?a)"
    using binary64_of_int [OF s] by (simp add: am)
  have "\<bar>A + ?a\<bar> + (\<Sum>p\<leftarrow>ps. \<bar>case p_final_amount p of None \<Rightarrow> 0 | Some a \<Rightarrow> a\<bar>) \<le> 2 ^ 53"
    using bound by linarith
  from Cons.IH [OF this] show ?case
    by (simp add: step add.assoc)
qed

lemma sum_final_amount_exact:
  assumes "(\<Sum>p\<leftarrow>ps. \<bar>case p_final_amount p of None \<Rightarrow> 0 | Some a \<Rightarrow> a\<bar>) \<le> 2 ^ 53"
  shows "sum_final_amount (Some ps) =
         of_int (\<Sum>p\<leftarrow>ps. case p_final_amount p of None \<Rightarrow> 0 | Some a \<Rightarrow> a)"
  using fold_double_sum [of 0 ps] assms by (simp add: sum_final_amount_def)

lemma calculateRevenue_value:
  "mr_value (calculateRevenue d cid s e) =
     Finite (binary64 (sum_final_amount (paid_between d cid s e) / 100))"
  by (simp add: calculateRevenue_def Let_def)

lemma paid_in_period:
  "(\<lambda>p. p_company_id p = cid \<and> p_status p = ''paid'' \<and>
        gte (p_paid_at p) s \<and> lte (p_paid_at p) e) =
   (\<lambda>p. p_company_id p = cid \<and> p_status p = ''paid'' \<and>
        (\<exists>t. p_paid_at p = Some t \<and> s \<le> t \<and> t \<le> e))"
  by (auto simp: gte_def lte_def fun_eq_iff split: option.splits)

text \<open>
  Claim C2. Amounts are doubles: the program sees the double nearest to the decimal
  \<open>finalAmount\<close> of the response, and every product or quotient is rounded to a double.
  \<^item> Normalisation stores \<^verbatim>\<open>Math.round((finalAmount || 0) * 100)\<close>, an integer that
    differs from \<open>finalAmount \<times> 100\<close> by at most a half and the rounding error of the
    product, for one receipt and for every row that the sync sends to the cache.
  \<^item> An amount of \<open>k\<close> whole cents, \<open>finalAmount = k / 100\<close> with \<open>\<bar>k\<bar> \<le> 2\<^sup>5\<^sup>0\<close>, is
    stored as exactly \<open>k\<close>, although the product of the two doubles need not be \<open>k\<close>.
  \<^item> \<^verbatim>\<open>calculateRevenue\<close> reports the sum of the stored amounts of the paid payments
    of the company in the range, divided by 100 (when the query succeeds and the
    amounts add up exactly, which they do up to \<open>2\<^sup>5\<^sup>3\<close>).
  \<^item> So a payment of \<open>k\<close> whole cents that is the only one selected is reported with
    the double nearest to \<open>k / 100\<close>, the number that came from upstream: 19.99 is
    stored as 1999 and reported as 19.99.
\<close>

theorem monetary_round_trip:
  "(formatPayment cid p = Inr row \<longrightarrow>
      (\<exists>stored. p_final_amount row = Some stored \<and>
         stored =
           Math_round
             (binary64 ((case r_finalAmount p of None \<Rightarrow> 0 | Some a \<Rightarrow> binary64 a) * 100)) \<and>
         \<bar>of_int stored - (case r_finalAmount p of None \<Rightarrow> 0 | Some a \<Rightarrow> a) * 100\<bar>
           \<le> 1 / 2 + \<bar>(case r_finalAmount p of None \<Rightarrow> 0 | Some a \<Rightarrow> a) * 100\<bar> / 2 ^ 51)) \<and>
   (formatPayment cid p = Inr row \<and> r_finalAmount p = Some (of_int k / 100) \<and> \<bar>k\<bar> \<le> 2 ^ 50 \<longrightarrow>
      p_final_amount row = Some k) \<and>
   (UpsertPayments rows \<in> set (snd (syncCompanyData env opts)) \<longrightarrow>
      (\<exists>nodes. receipts_nodes env = Some nodes \<and>
         list_all2
           (\<lambda>n row. \<exists>p. n = Some p \<and>
              p_final_amount row =
                Some (Math_round
                  (binary64 ((case r_finalAmount p of None \<Rightarrow> 0 | Some a \<Rightarrow> binary64 a) * 100))) \<and>
              (\<forall>j. r_finalAmount p = Some (of_int j / 100) \<and> \<bar>j\<bar> \<le> 2 ^ 50 \<longrightarrow>
                   p_final_amount row = Some j))
           nodes rows)) \<and>
   (\<not> query_fails d (PaidBetween cid' s e) \<and>
    selected = filter (\<lambda>p. p_company_id p = cid' \<and> p_status p = ''paid'' \<and>
                           (\<exists>t. p_paid_at p = Some t \<and> s \<le> t \<and> t \<le> e)) (payments d) \<and>
    (\<Sum>row\<leftarrow>selected. \<bar>case p_final_amount row of None \<Rightarrow> 0 | Some a \<Rightarrow> a\<bar>) \<le> 2 ^ 53 \<longrightarrow>
      mr_value (calculateRevenue d cid' s e) =
        Finite (binary64
          (of_int (\<Sum>row\<leftarrow>selected. case p_final_amount row of None \<Rightarrow> 0 | Some a \<Rightarrow> a) / 100))) \<and>
   (formatPayment cid p = Inr row \<and> r_finalAmount p = Some (of_int k / 100) \<and> \<bar>k\<bar> \<le> 2 ^ 50 \<and>
    paid_between d cid' s e = Some [row] \<longrightarrow>
      mr_value (calculateRevenue d cid' s e) = Finite (binary64 (of_int k / 100))) \<and>
   (formatPayment cid p = Inr row \<and> r_finalAmount p = Some (1999 / 100) \<and>
    paid_between d cid' s e = Some [row] \<longrightarrow>
      p_final_amount row = Some 1999 \<and>
      mr_value (calculateRevenue d cid' s e) = Finite (binary64 (1999 / 100)))"
proof -
  have a: "\<exists>stored. p_final_amount row = Some stored \<and>
         stored =
           Math_round
             (binary64 ((case r_finalAmount p of None \<Rightarrow> 0 | Some a \<Rightarrow> binary64 a) * 100)) \<and>
         \<bar>of_int stored - (case r_finalAmount p of None \<Rightarrow> 0 | Some a \<Rightarrow> a) * 100\<bar>
           \<le> 1 / 2 + \<bar>(case r_finalAmount p of None \<Rightarrow> 0 | Some a \<Rightarrow> a) * 100\<bar> / 2 ^ 51"
    if "formatPayment cid p = Inr row"
  proof (cases "r_finalAmount p")
    case None
    with formatPayment_amount [OF that] show ?thesis by simp
  next
    case (Some a)
    with formatPayment_amount [OF that] minor_units_error [of a] show ?thesis by simp
  qed
  have b: "p_final_amount row = Some j"
    if "formatPayment c p = Inr row" "r_finalAmount p = Some (of_int j / 100)" "\<bar>j\<bar> \<le> 2 ^ 50"
    for c p row j
    using formatPayment_amount [OF that(1)] cents_exact [OF that(3)] by (simp add: that(2))
  have c: "\<exists>nodes. receipts_nodes env = Some nodes \<and>
         list_all2
           (\<lambda>n row. \<exists>p. n = Some p \<and>
              p_final_amount row =
                Some (Math_round
                  (binary64 ((case r_finalAmount p of None \<Rightarrow> 0 | Some a \<Rightarrow> binary64 a) * 100))) \<and>
              (\<forall>j. r_finalAmount p = Some (of_int j / 100) \<and> \<bar>j\<bar> \<le> 2 ^ 50 \<longrightarrow>
                   p_final_amount row = Some j))
           nodes rows"
    if "UpsertPayments rows \<in> set (snd (syncCompanyData env opts))"
  proof -
    from sync_payments_written [OF that] obtain nodes where
      n: "receipts_nodes env = Some nodes"
      and l: "list_all2 (\<lambda>n row. \<exists>p. n = Some p \<and> formatPayment (companyId opts) p = Inr row)
                nodes rows"
      by blast
    have "list_all2
           (\<lambda>n row. \<exists>p. n = Some p \<and>
              p_final_amount row =
                Some (Math_round
                  (binary64 ((case r_finalAmount p of None \<Rightarrow> 0 | Some a \<Rightarrow> binary64 a) * 100))) \<and>
              (\<forall>j. r_finalAmount p = Some (of_int j / 100) \<and> \<bar>j\<bar> \<le> 2 ^ 50 \<longrightarrow>
                   p_final_amount row = Some j))
           nodes rows"
      using l
    proof (rule list_all2_mono)
      fix x y
      assume "\<exists>p. x = Some p \<and> formatPayment (companyId opts) p = Inr y"
      then obtain p where p: "x = Some p" "formatPayment (companyId opts) p = Inr y" by blast
      from formatPayment_amount [OF p(2)] b [OF p(2)] p(1)
      show "\<exists>p. x = Some p \<and>
              p_final_amount y =
                Some (Math_round
                  (binary64 ((case r_finalAmount p of None \<Rightarrow> 0 | Some a \<Rightarrow> binary64 a) * 100))) \<and>
              (\<forall>j. r_finalAmount p = Some (of_int j / 100) \<and> \<bar>j\<bar> \<le> 2 ^ 50 \<longrightarrow>
                   p_final_amount y = Some j)"
        by blast
    qed
    with n show ?thesis by blast
  qed
  have d: "mr_value (calculateRevenue d cid' s e) =
        Finite (binary64
          (of_int (\<Sum>row\<leftarrow>selected. case p_final_amount row of None \<Rightarrow> 0 | Some a \<Rightarrow> a) / 100))"
    if "\<not> query_fails d (PaidBetween cid' s e)"
      "selected = filter (\<lambda>p. p_company_id p = cid' \<and> p_status p = ''paid'' \<and>
                           (\<exists>t. p_paid_at p = Some t \<and> s \<le> t \<and> t \<le> e)) (payments d)"
      "(\<Sum>row\<leftarrow>selected. \<bar>case p_final_amount row of None \<Rightarrow> 0 | Some a \<Rightarrow> a\<bar>) \<le> 2 ^ 53"
  proof -
    have "paid_between d cid' s e = Some selected"
      using that(1) by (simp add: paid_between_def select_rows_def paid_in_period that(2))
    with sum_final_amount_exact [OF that(3)] show ?thesis
      by (simp add: calculateRevenue_value)
  qed
  have e: "mr_value (calculateRevenue d cid' s e) = Finite (binary64 (of_int j / 100))"
    if "formatPayment cid p = Inr row" "r_finalAmount p = Some (of_int j / 100)" "\<bar>j\<bar> \<le> 2 ^ 50"
      "paid_between d cid' s e = Some [row]" for j
  proof -
    from b [OF that(1-3)] have st: "p_final_amount row = Some j" .
    from that(3) have "\<bar>j\<bar> \<le> 2 ^ 53" by simp
    with st have "(\<Sum>p\<leftarrow>[row]. \<bar>case p_final_amount p of None \<Rightarrow> 0 | Some a \<Rightarrow> a\<bar>) \<le> 2 ^ 53"
      by simp
    from sum_final_amount_exact [OF this] st show ?thesis
      by (simp add: calculateRevenue_value that(4))
  qed
  have f: "p_final_amount row = Some 1999 \<and>
      mr_value (calculateRevenue d cid' s e) = Finite (binary64 (1999 / 100))"
    if "formatPayment cid p = Inr row" "r_finalAmount p = Some (1999 / 100)"
      "paid_between d cid' s e = Some [row]"
    using b [OF that(1), of 1999] e [OF that(1), of 1999] that(2,3) by simp
  show ?thesis
    using a b [of cid p row k] c d e [of k] f by blast
qed

text \<open>
  The receipt of 19.99 through normalisation, sync and revenue. The product of the
  doubles 19.99 and 100 is the double 1998.9999999999998, below 1999.
\<close>

theorem monetary_round_trip_witness:
  "formatPayment ''biz_1'' example_receipt = Inr example_payment_row \<and>
   r_finalAmount example_receipt = Some (of_int 1999 / 100) \<and> \<bar>1999 :: int\<bar> \<le> 2 ^ 50 \<and>
   binary64 (binary64 (1999 / 100) * 100) < 1999 \<and>
   UpsertPayments [example_payment_row] \<in> set (snd (syncCompanyData example_env example_opts)) \<and>
   \<not> query_fails example_db (PaidBetween ''biz_1'' 1699999999000 1700000001000) \<and>
   paid_between example_db ''biz_1'' 1699999999000 1700000001000 = Some [example_payment_row] \<and>
   p_final_amount example_payment_row = Some 1999 \<and>
   mr_value (calculateRevenue example_db ''biz_1'' 1699999999000 1700000001000) =
     Finite (binary64 (1999 / 100))"
proof -
  have fp: "formatPayment ''biz_1'' example_receipt = Inr example_payment_row"
    by (simp add: example_defs formatPayment_def epoch_to_iso_def toISOString_def or_null_def
        or_else_def truthy_def)
  have am: "r_finalAmount example_receipt = Some (1999 / 100)"
    by (simp add: example_receipt_def)
  have below: "binary64 (binary64 (1999 / 100) * 100) < 1999"
    by code_simp
  have up: "UpsertPayments [example_payment_row] \<in> set (snd (syncCompanyData example_env example_opts))"
    by (simp add: sync_defs example_defs)
  have q: "\<not> query_fails example_db (PaidBetween ''biz_1'' 1699999999000 1700000001000)"
    by (simp add: example_db_def)
  have pb: "paid_between example_db ''biz_1'' 1699999999000 1700000001000 = Some [example_payment_row]"
    by (simp add: example_db_def example_payment_row_def paid_between_def select_rows_def
        gte_def lte_def)
  from monetary_round_trip [of "''biz_1''" example_receipt example_payment_row 1999
      "[example_payment_row]" example_env example_opts example_db "''biz_1''"
      1699999999000 1700000001000 "[example_payment_row]"] fp am pb
  have "p_final_amount example_payment_row = Some 1999"
    "mr_value (calculateRevenue example_db ''biz_1'' 1699999999000 1700000001000) =
       Finite (binary64 (1999 / 100))"
    by simp_all
  with fp am below up q pb show ?thesis by simp
qed

text \<open>
  An amount with half a cent: the double nearest to 1.005 is below it, the product with
  100 is the double 100.49999999999999, and the amount is stored as 100.
\<close>

lemma half_cent_example:
  "Math_round (binary64 (binary64 (1005 / 1000) * 100)) = 100"
  by code_simp

subsection \<open>Percentage change\<close>

lemma ceiling_rat_numeral [simp]:
  "\<lceil>(numeral a / numeral b :: rat)\<rceil> = - (- numeral a div numeral b)"
  by (metis ceiling_divide_eq_div of_int_numeral)

lemma ceiling_rat_one_divide [simp]:
  "\<lceil>(1 / numeral b :: rat)\<rceil> = - (- 1 div numeral b)"
  by (metis ceiling_divide_eq_div of_int_1 of_int_numeral)

lemma change_formula_Finite:
  "y \<noteq> 0 \<Longrightarrow>
   change_formula (Finite x) (Finite y) = Finite (binary64 (binary64 (binary64 (x - y) / y) * 100))"
  by (simp add: change_formula_def js_sub_def)

text \<open>Without its guard the formula is not a finite number when the previous value is 0.\<close>

lemma change_formula_zero:
  "change_formula (Finite x) (Finite 0) =
     (if x = 0 then NaN else if 0 < x then Infinity else NegInfinity)"
  by (simp add: change_formula_def js_sub_def binary64_sign)

lemma calculateRevenue_change:
  "mr_change (calculateRevenue d cid s e) =
     (if 0 < sum_final_amount (paid_between d cid (subDays s (daysDiff s e))
                 (subDays e (daysDiff s e)))
      then change_formula (Finite (sum_final_amount (paid_between d cid s e)))
             (Finite (sum_final_amount (paid_between d cid (subDays s (daysDiff s e))
                 (subDays e (daysDiff s e)))))
      else Finite 0)"
  by (simp add: calculateRevenue_def Let_def)

lemma no_previous_payment:
  assumes "query_fails d (PaidBetween cid s e) \<or>
    (\<forall>row \<in> set (payments d).
       \<not> (p_company_id row = cid \<and> p_status row = ''paid'' \<and>
          (\<exists>t. p_paid_at row = Some t \<and> s \<le> t \<and> t \<le> e)))"
  shows "sum_final_amount (paid_between d cid s e) = 0"
proof (cases "query_fails d (PaidBetween cid s e)")
  case True
  then show ?thesis by (simp add: paid_between_def select_rows_def sum_final_amount_def)
next
  case False
  with assms have "filter (\<lambda>p. p_company_id p = cid \<and> p_status p = ''paid'' \<and>
        (\<exists>t. p_paid_at p = Some t \<and> s \<le> t \<and> t \<le> e)) (payments d) = []"
    by (auto simp: filter_empty_conv)
  with False show ?thesis
    by (simp add: paid_between_def select_rows_def sum_final_amount_def paid_in_period)
qed

lemma getActiveMemberCount_value:
  "mr_value (getActiveMemberCount d cid now) =
     Finite (if query_fails d (ActiveCount cid) then 0
             else of_nat (length (filter (is_active_member cid) (memberships d))))"
  by (simp add: getActiveMemberCount_def count_rows_def Let_def)

lemma getActiveMemberCount_change:
  "mr_change (getActiveMemberCount d cid now) =
     (if query_fails d (ActiveCountBefore cid (subDays now 30)) then Finite 0
      else let c = (if query_fails d (ActiveCount cid) then 0
                    else length (filter (is_active_member cid) (memberships d)));
               p = length (filter (\<lambda>m. is_active_member cid m \<and>
                                       lt (m_created_at m) (subDays now 30)) (memberships d))
           in if p > 0 then change_formula (Finite (of_nat c)) (Finite (of_nat p)) else Finite 0)"
  by (simp add: getActiveMemberCount_def count_rows_def Let_def)

lemma ARPU_finite:
  "\<exists>x. (if js_gt (mr_value (getActiveMemberCount d cid now)) (Finite 0)
         then js_div (mr_value (calculateRevenue d cid s e)) (mr_value (getActiveMemberCount d cid now))
         else Finite 0) = Finite x"
  by (simp add: getActiveMemberCount_value calculateRevenue_value)

lemma previous_ARPU_finite: "\<exists>y. previous_ARPU d cid s e now2 = Finite y"
  unfolding previous_ARPU_def Let_def by (rule ARPU_finite)

lemma calculateARPU_finite: "\<exists>x. mr_value (calculateARPU d cid s e now1 now2) = Finite x"
  using ARPU_finite [of d cid now1 s e] by (simp add: calculateARPU_def Let_def)

text \<open>
  Claim C3. Numbers are doubles, and a quotient by 0 is \<^verbatim>\<open>Infinity\<close>, \<^verbatim>\<open>-Infinity\<close> or
  \<^verbatim>\<open>NaN\<close>. For revenue, let \<open>c\<close> be the sum of the period (in cents) and \<open>p\<close> the sum of
  the preceding period of equal length, each 0 when its query fails; the function
  reports \<open>c / 100\<close> for the period and \<open>p / 100\<close> for the preceding period, so the
  previous value is positive, or 0, exactly when \<open>p\<close> is. Then:
  \<^item> when \<open>p > 0\<close> the change is \<open>(c - p) / p * 100\<close>, each operation rounded;
  \<^item> when \<open>p = 0\<close> the change is 0, whatever \<open>c\<close> is, where the formula itself is
    \<^verbatim>\<open>Infinity\<close>, \<^verbatim>\<open>-Infinity\<close> or \<^verbatim>\<open>NaN\<close>; the change is also 0 when \<open>p < 0\<close>;
  \<^item> when the data of the preceding period is absent (its query fails) or no paid
    payment of the company falls into it, the change is 0.
  The same holds for the member count (the current count against the count of the
  memberships created more than thirty days ago, absent when that query fails) and for
  ARPU (against \<^verbatim>\<open>prevARPU\<close>; both are finite numbers); MRR copies the change of the
  revenue of its period, or reports 0 without active memberships, and CLV copies the
  change of the ARPU of its period.
\<close>

theorem percentage_change_rule:
  "(c = sum_final_amount (paid_between d cid s e) \<and>
    p = sum_final_amount
          (paid_between d cid (subDays s (daysDiff s e)) (subDays e (daysDiff s e))) \<longrightarrow>
      mr_value (calculateRevenue d cid s e) = Finite (binary64 (c / 100)) \<and>
      mr_value (calculateRevenue d cid (subDays s (daysDiff s e)) (subDays e (daysDiff s e))) =
        Finite (binary64 (p / 100)) \<and>
      (0 < binary64 (p / 100) \<longleftrightarrow> 0 < p) \<and> (binary64 (p / 100) = 0 \<longleftrightarrow> p = 0) \<and>
      (0 < p \<longrightarrow>
         mr_change (calculateRevenue d cid s e) =
           Finite (binary64 (binary64 (binary64 (c - p) / p) * 100))) \<and>
      (p = 0 \<longrightarrow>
         mr_change (calculateRevenue d cid s e) = Finite 0 \<and>
         change_formula (Finite c) (Finite p) \<in> {Infinity, NegInfinity, NaN}) \<and>
      (p < 0 \<longrightarrow> mr_change (calculateRevenue d cid s e) = Finite 0)) \<and>
   (query_fails d (PaidBetween cid (subDays s (daysDiff s e)) (subDays e (daysDiff s e))) \<or>
    (\<forall>row \<in> set (payments d).
       \<not> (p_company_id row = cid \<and> p_status row = ''paid'' \<and>
          (\<exists>t. p_paid_at row = Some t \<and> subDays s (daysDiff s e) \<le> t \<and>
              t \<le> subDays e (daysDiff s e)))) \<longrightarrow>
      mr_change (calculateRevenue d cid s e) = Finite 0) \<and>
   (cnt = (if query_fails d (ActiveCount cid) then 0
           else length (filter (is_active_member cid) (memberships d))) \<and>
    prev = length (filter (\<lambda>m. is_active_member cid m \<and> lt (m_created_at m) (subDays now 30))
                     (memberships d)) \<longrightarrow>
      mr_value (getActiveMemberCount d cid now) = Finite (of_nat cnt) \<and>
      (\<not> query_fails d (ActiveCountBefore cid (subDays now 30)) \<and> 0 < prev \<longrightarrow>
         mr_change (getActiveMemberCount d cid now) =
           Finite (binary64 (binary64 (binary64 (of_nat cnt - of_nat prev) / of_nat prev) * 100))) \<and>
      (query_fails d (ActiveCountBefore cid (subDays now 30)) \<or> prev = 0 \<longrightarrow>
         mr_change (getActiveMemberCount d cid now) = Finite 0)) \<and>
   (\<exists>x y. mr_value (calculateARPU d cid s e now1 now2) = Finite x \<and>
          previous_ARPU d cid s e now2 = Finite y \<and>
          mr_change (calculateARPU d cid s e now1 now2) =
            (if 0 < y then Finite (binary64 (binary64 (binary64 (x - y) / y) * 100))
             else Finite 0)) \<and>
   mr_change (calculateMRR d cid n1 n2) =
     (if query_fails d (ActiveMemberships cid) \<or>
         filter (is_active_member cid) (memberships d) = []
      then Finite 0
      else mr_change (calculateRevenue d cid (subDays n1 30) n2)) \<and>
   mr_change (calculateCLV d cid t1 t2 a1 a2 c1 c2) =
     mr_change (calculateARPU d cid (subDays t1 90) t2 a1 a2)"
proof -
  let ?ps = "subDays s (daysDiff s e)" and ?pe = "subDays e (daysDiff s e)"
  have r: "mr_value (calculateRevenue d cid s e) = Finite (binary64 (c / 100)) \<and>
      mr_value (calculateRevenue d cid ?ps ?pe) = Finite (binary64 (p / 100)) \<and>
      (0 < binary64 (p / 100) \<longleftrightarrow> 0 < p) \<and> (binary64 (p / 100) = 0 \<longleftrightarrow> p = 0) \<and>
      (0 < p \<longrightarrow>
         mr_change (calculateRevenue d cid s e) =
           Finite (binary64 (binary64 (binary64 (c - p) / p) * 100))) \<and>
      (p = 0 \<longrightarrow>
         mr_change (calculateRevenue d cid s e) = Finite 0 \<and>
         change_formula (Finite c) (Finite p) \<in> {Infinity, NegInfinity, NaN}) \<and>
      (p < 0 \<longrightarrow> mr_change (calculateRevenue d cid s e) = Finite 0)"
    if "c = sum_final_amount (paid_between d cid s e)"
      "p = sum_final_amount (paid_between d cid ?ps ?pe)"
  proof -
    have v: "mr_value (calculateRevenue d cid s e) = Finite (binary64 (c / 100))"
      "mr_value (calculateRevenue d cid ?ps ?pe) = Finite (binary64 (p / 100))"
      by (simp_all add: calculateRevenue_value that)
    have sg: "(0 < binary64 (p / 100) \<longleftrightarrow> 0 < p)" "(binary64 (p / 100) = 0 \<longleftrightarrow> p = 0)"
      by (simp_all add: binary64_sign)
    have ch: "mr_change (calculateRevenue d cid s e) =
        (if 0 < p then change_formula (Finite c) (Finite p) else Finite 0)"
      by (simp add: calculateRevenue_change that)
    have pos: "mr_change (calculateRevenue d cid s e) =
           Finite (binary64 (binary64 (binary64 (c - p) / p) * 100))" if "0 < p"
      using that by (simp add: ch change_formula_Finite)
    have zero: "mr_change (calculateRevenue d cid s e) = Finite 0 \<and>
         change_formula (Finite c) (Finite p) \<in> {Infinity, NegInfinity, NaN}" if "p = 0"
      using that by (simp add: ch change_formula_zero)
    have neg: "mr_change (calculateRevenue d cid s e) = Finite 0" if "p < 0"
      using that by (simp add: ch)
    show ?thesis using v sg pos zero neg by blast
  qed
  have absent: "mr_change (calculateRevenue d cid s e) = Finite 0"
    if "query_fails d (PaidBetween cid ?ps ?pe) \<or>
        (\<forall>row \<in> set (payments d).
           \<not> (p_company_id row = cid \<and> p_status row = ''paid'' \<and>
              (\<exists>t. p_paid_at row = Some t \<and> ?ps \<le> t \<and> t \<le> ?pe)))"
    using no_previous_payment [OF that] by (simp add: calculateRevenue_change)
  have m: "mr_value (getActiveMemberCount d cid now) = Finite (of_nat cnt) \<and>
      (\<not> query_fails d (ActiveCountBefore cid (subDays now 30)) \<and> 0 < prev \<longrightarrow>
         mr_change (getActiveMemberCount d cid now) =
           Finite (binary64 (binary64 (binary64 (of_nat cnt - of_nat prev) / of_nat prev) * 100))) \<and>
      (query_fails d (ActiveCountBefore cid (subDays now 30)) \<or> prev = 0 \<longrightarrow>
         mr_change (getActiveMemberCount d cid now) = Finite 0)"
    if "cnt = (if query_fails d (ActiveCount cid) then 0
               else length (filter (is_active_member cid) (memberships d)))"
      "prev = length (filter (\<lambda>m. is_active_member cid m \<and> lt (m_created_at m) (subDays now 30))
                     (memberships d))"
  proof -
    have v: "mr_value (getActiveMemberCount d cid now) = Finite (of_nat cnt)"
      by (simp add: getActiveMemberCount_value that(1))
    have ch: "mr_change (getActiveMemberCount d cid now) =
        (if query_fails d (ActiveCountBefore cid (subDays now 30)) then Finite 0
         else if 0 < prev then change_formula (Finite (of_nat cnt)) (Finite (of_nat prev))
         else Finite 0)"
      by (simp add: getActiveMemberCount_change Let_def that)
    have pos: "mr_change (getActiveMemberCount d cid now) =
           Finite (binary64 (binary64 (binary64 (of_nat cnt - of_nat prev) / of_nat prev) * 100))"
      if "\<not> query_fails d (ActiveCountBefore cid (subDays now 30))" "0 < prev"
      using that by (simp add: ch change_formula_Finite)
    have zero: "mr_change (getActiveMemberCount d cid now) = Finite 0"
      if "query_fails d (ActiveCountBefore cid (subDays now 30)) \<or> prev = 0"
      using that by (auto simp: ch)
    show ?thesis using v pos zero by blast
  qed
  have a: "\<exists>x y. mr_value (calculateARPU d cid s e now1 now2) = Finite x \<and>
          previous_ARPU d cid s e now2 = Finite y \<and>
          mr_change (calculateARPU d cid s e now1 now2) =
            (if 0 < y then Finite (binary64 (binary64 (binary64 (x - y) / y) * 100))
             else Finite 0)"
  proof -
    from calculateARPU_finite obtain x where
      x: "mr_value (calculateARPU d cid s e now1 now2) = Finite x" by blast
    from previous_ARPU_finite obtain y where y: "previous_ARPU d cid s e now2 = Finite y"
      by blast
    have "mr_change (calculateARPU d cid s e now1 now2) =
        (if js_gt (previous_ARPU d cid s e now2) (Finite 0)
         then change_formula (mr_value (calculateARPU d cid s e now1 now2))
                (previous_ARPU d cid s e now2)
         else Finite 0)"
      by (simp add: calculateARPU_def Let_def)
    then have "mr_change (calculateARPU d cid s e now1 now2) =
            (if 0 < y then Finite (binary64 (binary64 (binary64 (x - y) / y) * 100))
             else Finite 0)"
      by (simp add: x y change_formula_Finite)
    with x y show ?thesis by blast
  qed
  have mrr: "mr_change (calculateMRR d cid n1 n2) =
     (if query_fails d (ActiveMemberships cid) \<or>
         filter (is_active_member cid) (memberships d) = []
      then Finite 0
      else mr_change (calculateRevenue d cid (subDays n1 30) n2))"
    by (simp add: calculateMRR_def select_rows_def Let_def)
  have clv: "mr_change (calculateCLV d cid t1 t2 a1 a2 c1 c2) =
     mr_change (calculateARPU d cid (subDays t1 90) t2 a1 a2)"
    by (simp add: calculateCLV_def Let_def)
  show ?thesis
    using r absent m a mrr clv by blast
qed

text \<open>
  Revenue 19.99 after 10.00 the day before: a change of 99.9 percent. Revenue 10.00
  after no payment at all the day before: a change of 0, where the formula is
  \<^verbatim>\<open>Infinity\<close>. Revenue 19.99 when the store does not answer the query for the day
  before: a change of 0. Two active members, one of them older than thirty days: a
  change of 100 percent.
\<close>

theorem percentage_change_rule_witness:
  "sum_final_amount (paid_between two_period_db ''biz_1'' 1699999999000 1700000001000) = 1999 \<and>
   sum_final_amount (paid_between two_period_db ''biz_1''
     (subDays 1699999999000 (daysDiff 1699999999000 1700000001000))
     (subDays 1700000001000 (daysDiff 1699999999000 1700000001000))) = 1000 \<and>
   mr_change (calculateRevenue two_period_db ''biz_1'' 1699999999000 1700000001000) =
     Finite (binary64 (999 / 10)) \<and>
   sum_final_amount (paid_between two_period_db ''biz_1'' 1699913599000 1699913601000) = 1000 \<and>
   sum_final_amount (paid_between two_period_db ''biz_1''
     (subDays 1699913599000 (daysDiff 1699913599000 1699913601000))
     (subDays 1699913601000 (daysDiff 1699913599000 1699913601000))) = 0 \<and>
   mr_change (calculateRevenue two_period_db ''biz_1'' 1699913599000 1699913601000) = Finite 0 \<and>
   change_formula (Finite 1000) (Finite 0) = Infinity \<and>
   query_fails previous_absent_db
     (PaidBetween ''biz_1'' (subDays 1699999999000 (daysDiff 1699999999000 1700000001000))
        (subDays 1700000001000 (daysDiff 1699999999000 1700000001000))) \<and>
   calculateRevenue previous_absent_db ''biz_1'' 1699999999000 1700000001000 =
     \<lparr> mr_value = Finite (binary64 (1999 / 100)), mr_change = Finite 0 \<rparr> \<and>
   \<not> query_fails two_period_db (ActiveCountBefore ''biz_1'' (subDays 1700000000000 30)) \<and>
   getActiveMemberCount two_period_db ''biz_1'' 1700000000000 =
     \<lparr> mr_value = Finite 2, mr_change = Finite 100 \<rparr>"
proof -
  have dd: "daysDiff 1699999999000 1700000001000 = 1" "daysDiff 1699913599000 1699913601000 = 1"
    by code_simp+
  have sd: "subDays 1699999999000 1 = 1699913599000" "subDays 1700000001000 1 = 1699913601000"
    "subDays 1699913599000 1 = 1699827199000" "subDays 1699913601000 1 = 1699827201000"
    "subDays 1700000000000 30 = 1697408000000"
    by (simp_all add: subDays_def MS_PER_DAY_def)
  have s1: "sum_final_amount (paid_between two_period_db ''biz_1'' 1699999999000 1700000001000) = 1999"
    "sum_final_amount (paid_between two_period_db ''biz_1'' 1699913599000 1699913601000) = 1000"
    "sum_final_amount (paid_between two_period_db ''biz_1'' 1699827199000 1699827201000) = 0"
    "sum_final_amount (paid_between previous_absent_db ''biz_1'' 1699999999000 1700000001000) = 1999"
    "sum_final_amount (paid_between previous_absent_db ''biz_1'' 1699913599000 1699913601000) = 0"
    by (simp_all add: paid_between_def select_rows_def sum_final_amount_def amount_or_0_def
        gte_def lte_def example_db_defs previous_absent_db_def)
  have qf: "query_fails previous_absent_db (PaidBetween ''biz_1'' 1699913599000 1699913601000)"
    "\<not> query_fails two_period_db (ActiveCountBefore ''biz_1'' 1697408000000)"
    "\<not> query_fails two_period_db (ActiveCount ''biz_1'')"
    by (simp_all add: previous_absent_db_def two_period_db_def)
  have ev: "binary64 (binary64 (999 / 1000) * 100) = binary64 (999 / 10)"
    by code_simp
  have ms: "filter (is_active_member ''biz_1'') (memberships two_period_db) =
      [old_membership_row, example_membership_row]"
    "filter (\<lambda>m. is_active_member ''biz_1'' m \<and> lt (m_created_at m) 1697408000000)
       (memberships two_period_db) = [old_membership_row]"
    by (simp_all add: is_active_member_def lt_def example_db_defs)
  note w1 = percentage_change_rule [of 1999 two_period_db "''biz_1''" 1699999999000 1700000001000
      1000 2 1 1700000000000]
  note w2 = percentage_change_rule [of 1000 two_period_db "''biz_1''" 1699913599000 1699913601000
      0 2 1 1700000000000]
  note w3 = percentage_change_rule [of 1999 previous_absent_db "''biz_1''" 1699999999000
      1700000001000 0 2 1 1700000000000]
  from w1 have r1: "mr_change (calculateRevenue two_period_db ''biz_1'' 1699999999000 1700000001000) =
     Finite (binary64 (999 / 10))"
    by (simp add: dd sd s1 ev)
  from w2 have r2: "mr_change (calculateRevenue two_period_db ''biz_1'' 1699913599000 1699913601000) =
     Finite 0"
    "change_formula (Finite 1000) (Finite 0) = Infinity"
    by (simp_all add: dd sd s1 change_formula_zero)
  from w3 have r3: "calculateRevenue previous_absent_db ''biz_1'' 1699999999000 1700000001000 =
     \<lparr> mr_value = Finite (binary64 (1999 / 100)), mr_change = Finite 0 \<rparr>"
    by (cases "calculateRevenue previous_absent_db ''biz_1'' 1699999999000 1700000001000")
      (simp add: dd sd s1 qf)
  from w1 have r4: "getActiveMemberCount two_period_db ''biz_1'' 1700000000000 =
     \<lparr> mr_value = Finite 2, mr_change = Finite 100 \<rparr>"
    by (cases "getActiveMemberCount two_period_db ''biz_1'' 1700000000000")
      (simp add: sd ms qf)
  show ?thesis
    using r1 r2 r3 r4 s1 qf by (simp add: dd sd)
qed

subsection \<open>The denominator of ARPU\<close>

lemma active_count_created_at:
  assumes "map (\<lambda>m. m\<lparr> m_created_at := None \<rparr>) ms = map (\<lambda>m. m\<lparr> m_created_at := None \<rparr>) ms'"
  shows "length (filter (is_active_member cid) ms) = length (filter (is_active_member cid) ms')"
proof -
  have "length (filter (is_active_member cid) xs) =
        length (filter (is_active_member cid) (map (\<lambda>m. m\<lparr> m_created_at := None \<rparr>) xs))" for xs
    by (induction xs) (simp_all add: is_active_member_def)
  from this [of ms] this [of ms'] assms show ?thesis by simp
qed

lemma same_but_created_at_count:
  assumes "same_but_created_at d d'"
  shows "mr_value (getActiveMemberCount d cid now) = mr_value (getActiveMemberCount d' cid now')"
  using assms active_count_created_at [of "memberships d" "memberships d'" cid]
  by (simp add: getActiveMemberCount_value same_but_created_at_def)

lemma same_but_created_at_revenue:
  assumes "same_but_created_at d d'"
  shows "calculateRevenue d cid s e = calculateRevenue d' cid s e"
  using assms
  by (simp add: calculateRevenue_def paid_between_def select_rows_def same_but_created_at_def)

text \<open>
  Claim C5. The value of \<^verbatim>\<open>getActiveMemberCount\<close> is the present count \<open>n\<close> of valid
  active or trialing memberships, at whatever time it is called (0 when the query
  fails). \<^verbatim>\<open>calculateARPU\<close> divides the revenue of the period by \<open>n\<close> and the revenue of
  the preceding period by the same \<open>n\<close>. So two cache states that differ only in the
  creation dates of their memberships have the same previous ARPU and the same ARPU
  result.
\<close>

theorem arpu_reuses_current_member_count:
  "(n = (if query_fails d (ActiveCount cid) then 0
         else of_nat (length (filter (is_active_member cid) (memberships d)))) \<longrightarrow>
      mr_value (getActiveMemberCount d cid now1) = Finite n \<and>
      mr_value (getActiveMemberCount d cid now2) = Finite n \<and>
      mr_value (calculateARPU d cid s e now1 now2) =
        (if n > 0 then js_div (mr_value (calculateRevenue d cid s e)) (Finite n) else Finite 0) \<and>
      previous_ARPU d cid s e now2 =
        (if n > 0
         then js_div (mr_value (calculateRevenue d cid (subDays s (daysDiff s e))
                          (subDays e (daysDiff s e)))) (Finite n)
         else Finite 0) \<and>
      (\<forall>r. mr_value (calculateRevenue d cid s e) = Finite r \<and> n > 0 \<longrightarrow>
           mr_value (calculateARPU d cid s e now1 now2) = Finite (binary64 (r / n))) \<and>
      (\<forall>r. mr_value (calculateRevenue d cid (subDays s (daysDiff s e))
                       (subDays e (daysDiff s e))) = Finite r \<and> n > 0 \<longrightarrow>
           previous_ARPU d cid s e now2 = Finite (binary64 (r / n)))) \<and>
   (same_but_created_at d d' \<longrightarrow>
      previous_ARPU d cid s e now2 = previous_ARPU d' cid s e now2 \<and>
      calculateARPU d cid s e now1 now2 = calculateARPU d' cid s e now1 now2)"
proof -
  have v: "mr_value (getActiveMemberCount d cid t) =
      Finite (if query_fails d (ActiveCount cid) then 0
       else of_nat (length (filter (is_active_member cid) (memberships d))))" for t
    by (rule getActiveMemberCount_value)
  have a: "mr_value (calculateARPU d cid s e now1 now2) =
        (if n > 0 then js_div (mr_value (calculateRevenue d cid s e)) (Finite n) else Finite 0) \<and>
      previous_ARPU d cid s e now2 =
        (if n > 0
         then js_div (mr_value (calculateRevenue d cid (subDays s (daysDiff s e))
                          (subDays e (daysDiff s e)))) (Finite n)
         else Finite 0)"
    if "n = (if query_fails d (ActiveCount cid) then 0
             else of_nat (length (filter (is_active_member cid) (memberships d))))"
    unfolding calculateARPU_def previous_ARPU_def Let_def v that by simp
  have a': "(\<forall>r. mr_value (calculateRevenue d cid s e) = Finite r \<and> n > 0 \<longrightarrow>
           mr_value (calculateARPU d cid s e now1 now2) = Finite (binary64 (r / n))) \<and>
      (\<forall>r. mr_value (calculateRevenue d cid (subDays s (daysDiff s e))
                       (subDays e (daysDiff s e))) = Finite r \<and> n > 0 \<longrightarrow>
           previous_ARPU d cid s e now2 = Finite (binary64 (r / n)))"
    if "n = (if query_fails d (ActiveCount cid) then 0
             else of_nat (length (filter (is_active_member cid) (memberships d))))"
    using a [OF that] by auto
  have b: "previous_ARPU d cid s e now2 = previous_ARPU d' cid s e now2 \<and>
      calculateARPU d cid s e now1 now2 = calculateARPU d' cid s e now1 now2"
    if "same_but_created_at d d'"
  proof -
    have p: "previous_ARPU d cid s e now2 = previous_ARPU d' cid s e now2"
      unfolding previous_ARPU_def Let_def
      by (simp add: same_but_created_at_revenue [OF that]
          same_but_created_at_count [OF that, of cid now2 now2])
    show ?thesis
      unfolding calculateARPU_def Let_def p
      by (simp add: same_but_created_at_revenue [OF that]
          same_but_created_at_count [OF that, of cid now1 now1])
  qed
  show ?thesis using v a a' b by blast
qed

text \<open>
  Moving the creation date of the older membership into the last thirty days changes the
  baseline of the member count but not the previous ARPU: 10.00 over two members.
\<close>

theorem arpu_reuses_current_member_count_witness:
  "same_but_created_at two_period_db redated_db \<and>
   mr_value (getActiveMemberCount two_period_db ''biz_1'' 1700000000000) = Finite 2 \<and>
   previous_ARPU two_period_db ''biz_1'' 1699999999000 1700000001000 1700000000000 = Finite 5 \<and>
   previous_ARPU redated_db ''biz_1'' 1699999999000 1700000001000 1700000000000 = Finite 5 \<and>
   mr_change (getActiveMemberCount two_period_db ''biz_1'' 1700000000000) \<noteq>
   mr_change (getActiveMemberCount redated_db ''biz_1'' 1700000000000)"
proof -
  have same: "same_but_created_at two_period_db redated_db"
    by (simp add: same_but_created_at_def redated_db_def example_db_defs)
  have n: "(2::rat) = (if query_fails two_period_db (ActiveCount ''biz_1'') then 0
         else of_nat (length (filter (is_active_member ''biz_1'') (memberships two_period_db))))"
    by (simp add: is_active_member_def example_db_defs)
  have dd: "daysDiff 1699999999000 1700000001000 = 1"
    by code_simp
  have prev: "mr_value (calculateRevenue two_period_db ''biz_1''
      (subDays 1699999999000 (daysDiff 1699999999000 1700000001000))
      (subDays 1700000001000 (daysDiff 1699999999000 1700000001000))) = Finite 10"
    unfolding dd by code_simp
  note w = arpu_reuses_current_member_count [of 2 two_period_db "''biz_1''" 1700000000000
      1700000000000 1699999999000 1700000001000 redated_db]
  note w1 = w [THEN conjunct1, rule_format, OF n]
  from w1 have v: "mr_value (getActiveMemberCount two_period_db ''biz_1'' 1700000000000) = Finite 2"
    by blast
  from w1 prev have p1: "previous_ARPU two_period_db ''biz_1'' 1699999999000 1700000001000
      1700000000000 = Finite 5"
    by simp
  from w [THEN conjunct2, rule_format, OF same] p1
  have p2: "previous_ARPU redated_db ''biz_1'' 1699999999000 1700000001000
      1700000000000 = Finite 5"
    by simp
  have ch: "mr_change (getActiveMemberCount two_period_db ''biz_1'' 1700000000000) \<noteq>
   mr_change (getActiveMemberCount redated_db ''biz_1'' 1700000000000)"
    by code_simp
  show ?thesis
    using same v p1 p2 ch by simp
qed

subsection \<open>Customer segmentation\<close>

lemma Set_values_distinct [simp]: "distinct (Set_values xs)"
  by (simp add: Set_values_def)

lemma Set_values_set [simp]: "set (Set_values xs) = set xs"
  by (simp add: Set_values_def)

lemma length_Set_values: "length (Set_values xs) = length (remdups xs)"
proof -
  have "length (Set_values xs) = card (set xs)"
    using distinct_card [of "Set_values xs"] by simp
  then show ?thesis by (simp add: length_remdups_card_conv)
qed

lemma keep_most_recent_distinct:
  "distinct (map fst acc) \<Longrightarrow> distinct (map fst (keep_most_recent m acc))"
  by (simp add: keep_most_recent_def distinct_update split: option.splits)

lemma keep_most_recent_keys:
  "fst ` set (keep_most_recent m acc) \<subseteq> fst ` set acc \<union> {u. m_user_id m = Some u}"
  by (auto simp: keep_most_recent_def dom_update split: option.splits if_splits)

lemma customers_fold_distinct:
  "distinct (map fst acc) \<Longrightarrow> distinct (map fst (fold keep_most_recent ms acc))"
  by (induction ms arbitrary: acc) (simp_all add: keep_most_recent_distinct)

lemma customers_fold_keys:
  "fst ` set (fold keep_most_recent ms acc)
   \<subseteq> fst ` set acc \<union> {u. \<exists>m \<in> set ms. m_user_id m = Some u}"
proof (induction ms arbitrary: acc)
  case Nil
  then show ?case by simp
next
  case (Cons m ms)
  have "fst ` set (fold keep_most_recent ms (keep_most_recent m acc))
        \<subseteq> fst ` set (keep_most_recent m acc) \<union> {u. \<exists>m \<in> set ms. m_user_id m = Some u}"
    by (rule Cons.IH)
  also have "\<dots> \<subseteq> (fst ` set acc \<union> {u. m_user_id m = Some u}) \<union>
                   {u. \<exists>m \<in> set ms. m_user_id m = Some u}"
    using keep_most_recent_keys [of m acc] by blast
  finally show ?case by auto
qed

lemma customersByUserId_length:
  assumes "\<forall>m \<in> set ms. \<forall>u. m_user_id m = Some u \<longrightarrow> u \<in> set ids"
  shows "length (customersByUserId ms) \<le> card (set ids)"
proof -
  have d: "distinct (map fst (customersByUserId ms))"
    unfolding customersByUserId_def by (rule customers_fold_distinct) simp
  have "fst ` set (customersByUserId ms) \<subseteq> {u. \<exists>m \<in> set ms. m_user_id m = Some u}"
    unfolding customersByUserId_def using customers_fold_keys [of ms "[]"] by simp
  also have "\<dots> \<subseteq> set ids" using assms by auto
  finally have "card (fst ` set (customersByUserId ms)) \<le> card (set ids)"
    by (simp add: card_mono)
  moreover have "card (fst ` set (customersByUserId ms)) = length (customersByUserId ms)"
    using distinct_card [OF d] by simp
  ultimately show ?thesis by simp
qed

lemma segments_at_most_three:
  assumes "\<And>m. \<not> (N m \<and> A m)"
  shows "length (filter N xs) + length (filter A xs) + length (filter R xs) +
         length (filter C xs) \<le> 3 * length xs"
  using assms by (induction xs) auto

lemma new_not_active: "\<not> (is_new t m \<and> is_active t m)"
  by (auto simp: is_new_def is_active_def split: option.splits)

lemma paying_customers_total:
  "length (uniqueCustomerIds
     (filter (\<lambda>p. p_company_id p = cid \<and> p_status p = ''paid'') (payments d))) =
   length (paying_customers d cid)"
  by (simp add: uniqueCustomerIds_def paying_customers_def length_Set_values)

lemma segmentation_shape:
  "getCustomerSegmentation d cid now = zero_segments \<or>
   (\<exists>us. length us \<le> length (paying_customers d cid) \<and>
      getCustomerSegmentation d cid now =
        [\<lparr> cs_segment = Seg_new,
            cs_count = length (filter (is_new (subDays now 30)) us),
            cs_percentage =
              percentage_of (length (filter (is_new (subDays now 30)) us))
                (length (paying_customers d cid)),
            cs_color = ''#10b981'' \<rparr>,
         \<lparr> cs_segment = Seg_active,
            cs_count = length (filter (is_active (subDays now 30)) us),
            cs_percentage =
              percentage_of (length (filter (is_active (subDays now 30)) us))
                (length (paying_customers d cid)),
            cs_color = ''#3b82f6'' \<rparr>,
         \<lparr> cs_segment = Seg_at_risk,
            cs_count = length (filter (is_at_risk now) us),
            cs_percentage =
              percentage_of (length (filter (is_at_risk now) us))
                (length (paying_customers d cid)),
            cs_color = ''#f59e0b'' \<rparr>,
         \<lparr> cs_segment = Seg_churned,
            cs_count = length (filter is_churned us),
            cs_percentage =
              percentage_of (length (filter is_churned us)) (length (paying_customers d cid)),
            cs_color = ''#ef4444'' \<rparr>])"
proof -
  let ?ps = "filter (\<lambda>p. p_company_id p = cid \<and> p_status p = ''paid'') (payments d)"
  let ?ids = "uniqueCustomerIds ?ps"
  let ?cm = "filter (\<lambda>m. m_company_id m = cid \<and>
                 (case m_user_id m of None \<Rightarrow> False | Some u \<Rightarrow> u \<in> set ?ids)) (memberships d)"
  let ?us = "map snd (customersByUserId ?cm)"
  have "length (customersByUserId ?cm) \<le> card (set ?ids)"
    by (rule customersByUserId_length) auto
  also have "card (set ?ids) = length ?ids"
    by (rule distinct_card) (simp add: uniqueCustomerIds_def)
  finally have len: "length ?us \<le> length (paying_customers d cid)"
    by (simp add: paying_customers_total)
  show ?thesis
  proof (cases "query_fails d (PaidPayments cid) \<or> ?ps = [] \<or>
      query_fails d (MembershipsOfUsers cid ?ids) \<or> ?cm = []")
    case True
    then show ?thesis
      by (auto simp: getCustomerSegmentation_def select_rows_def Let_def)
  next
    case False
    then have "getCustomerSegmentation d cid now =
        [\<lparr> cs_segment = Seg_new,
            cs_count = length (filter (is_new (subDays now 30)) ?us),
            cs_percentage =
              percentage_of (length (filter (is_new (subDays now 30)) ?us))
                (length (paying_customers d cid)),
            cs_color = ''#10b981'' \<rparr>,
         \<lparr> cs_segment = Seg_active,
            cs_count = length (filter (is_active (subDays now 30)) ?us),
            cs_percentage =
              percentage_of (length (filter (is_active (subDays now 30)) ?us))
                (length (paying_customers d cid)),
            cs_color = ''#3b82f6'' \<rparr>,
         \<lparr> cs_segment = Seg_at_risk,
            cs_count = length (filter (is_at_risk now) ?us),
            cs_percentage =
              percentage_of (length (filter (is_at_risk now) ?us))
                (length (paying_customers d cid)),
            cs_color = ''#f59e0b'' \<rparr>,
         \<lparr> cs_segment = Seg_churned,
            cs_count = length (filter is_churned ?us),
            cs_percentage =
              percentage_of (length (filter is_churned ?us)) (length (paying_customers d cid)),
            cs_color = ''#ef4444'' \<rparr>]"
      by (simp add: getCustomerSegmentation_def select_rows_def Let_def paying_customers_total)
    with len show ?thesis by blast
  qed
qed

text \<open>
  Claim C4, amended. \<^verbatim>\<open>getCustomerSegmentation\<close> returns four entries, in the order
  new, active, at_risk, churned; without paid payments of the company (or when the query
  for them fails) the four entries have count 0 and percentage 0; each of the four counts is at
  most the number of unique paying customers, and their sum is at most three times that
  number (a customer can be counted in several segments, but not in both new and
  active).
\<close>

theorem segmentation_four_entries:
  "map cs_segment (getCustomerSegmentation d cid now) =
     [Seg_new, Seg_active, Seg_at_risk, Seg_churned] \<and>
   (query_fails d (PaidPayments cid) \<or>
    (\<forall>p \<in> set (payments d). \<not> (p_company_id p = cid \<and> p_status p = ''paid'')) \<longrightarrow>
      map (\<lambda>s. (cs_count s, cs_percentage s)) (getCustomerSegmentation d cid now) =
        [(0, Finite 0), (0, Finite 0), (0, Finite 0), (0, Finite 0)]) \<and>
   (\<forall>s \<in> set (getCustomerSegmentation d cid now).
      cs_count s \<le> length (paying_customers d cid)) \<and>
   sum_list (map cs_count (getCustomerSegmentation d cid now))
     \<le> 3 * length (paying_customers d cid)"
proof -
  have none: "getCustomerSegmentation d cid now = zero_segments"
    if "query_fails d (PaidPayments cid) \<or>
        (\<forall>p \<in> set (payments d). \<not> (p_company_id p = cid \<and> p_status p = ''paid''))"
  proof -
    from that have "query_fails d (PaidPayments cid) \<or>
        filter (\<lambda>p. p_company_id p = cid \<and> p_status p = ''paid'') (payments d) = []"
      by (auto simp: filter_empty_conv)
    then show ?thesis
      by (auto simp: getCustomerSegmentation_def select_rows_def Let_def)
  qed
  from segmentation_shape [of d cid now] show ?thesis
  proof
    assume z: "getCustomerSegmentation d cid now = zero_segments"
    then show ?thesis by (simp add: zero_segments_def)
  next
    assume "\<exists>us. length us \<le> length (paying_customers d cid) \<and>
      getCustomerSegmentation d cid now =
        [\<lparr> cs_segment = Seg_new,
            cs_count = length (filter (is_new (subDays now 30)) us),
            cs_percentage =
              percentage_of (length (filter (is_new (subDays now 30)) us))
                (length (paying_customers d cid)),
            cs_color = ''#10b981'' \<rparr>,
         \<lparr> cs_segment = Seg_active,
            cs_count = length (filter (is_active (subDays now 30)) us),
            cs_percentage =
              percentage_of (length (filter (is_active (subDays now 30)) us))
                (length (paying_customers d cid)),
            cs_color = ''#3b82f6'' \<rparr>,
         \<lparr> cs_segment = Seg_at_risk,
            cs_count = length (filter (is_at_risk now) us),
            cs_percentage =
              percentage_of (length (filter (is_at_risk now) us))
                (length (paying_customers d cid)),
            cs_color = ''#f59e0b'' \<rparr>,
         \<lparr> cs_segment = Seg_churned,
            cs_count = length (filter is_churned us),
            cs_percentage =
              percentage_of (length (filter is_churned us)) (length (paying_customers d cid)),
            cs_color = ''#ef4444'' \<rparr>]"
    then obtain us where len: "length us \<le> length (paying_customers d cid)"
      and eq: "map cs_segment (getCustomerSegmentation d cid now) =
                 [Seg_new, Seg_active, Seg_at_risk, Seg_churned]"
        "map cs_count (getCustomerSegmentation d cid now) =
           [length (filter (is_new (subDays now 30)) us),
            length (filter (is_active (subDays now 30)) us),
            length (filter (is_at_risk now) us),
            length (filter is_churned us)]"
      by auto
    have each: "length (filter P us) \<le> length (paying_customers d cid)" for P
      using len length_filter_le [of P us] by linarith
    have "\<forall>n \<in> set (map cs_count (getCustomerSegmentation d cid now)).
            n \<le> length (paying_customers d cid)"
      unfolding eq(2) using each by simp
    then have bound: "\<forall>s \<in> set (getCustomerSegmentation d cid now).
      cs_count s \<le> length (paying_customers d cid)"
      by simp
    have "sum_list (map cs_count (getCustomerSegmentation d cid now)) \<le> 3 * length us"
      unfolding eq(2)
      using segments_at_most_three [of "is_new (subDays now 30)" "is_active (subDays now 30)" us
          "is_at_risk now" is_churned] new_not_active
      by simp
    with len have total: "sum_list (map cs_count (getCustomerSegmentation d cid now))
       \<le> 3 * length (paying_customers d cid)"
      by linarith
    show ?thesis
      using eq(1) bound total none by (auto simp: zero_segments_def)
  qed
qed

text \<open>
  A cache without paid payments of the company: the status of its only payment is
  \<^verbatim>\<open>'draft'\<close>.
\<close>

theorem segmentation_four_entries_witness:
  "payments (example_db\<lparr> payments := [draft_row] \<rparr>) = [draft_row] \<and>
   p_status draft_row = ''draft'' \<and>
   map (\<lambda>s. (cs_count s, cs_percentage s))
     (getCustomerSegmentation (example_db\<lparr> payments := [draft_row] \<rparr>) ''biz_1'' 1700000000000) =
     [(0, Finite 0), (0, Finite 0), (0, Finite 0), (0, Finite 0)]"
  using segmentation_four_entries
    [of "example_db\<lparr> payments := [draft_row] \<rparr>" "''biz_1''" 1700000000000]
  by (simp add: example_db_def draft_row_def example_payment_row_def)

text \<open>
  Claim C4 as stated fails: the one paying customer, whose membership was created five
  days ago and expires in three days, is counted as new and as at risk; the counts sum
  to 2 with 1 unique paying customer.
\<close>

theorem segmentation_sum_counterexample:
  "map cs_count (getCustomerSegmentation two_period_db ''biz_1'' 1700000000000) = [1, 0, 1, 0] \<and>
   length (paying_customers two_period_db ''biz_1'') = 1 \<and>
   \<not> sum_list (map cs_count (getCustomerSegmentation two_period_db ''biz_1'' 1700000000000))
       \<le> length (paying_customers two_period_db ''biz_1'')"
  by (simp add: segmentation_defs example_db_defs paying_customers_def)

subsection \<open>Revenue time series\<close>

lemma Object_entries_set [simp]: "set (Object_entries obj) = set obj"
  by (auto simp: Object_entries_def)

lemma Object_entries_length [simp]: "length (Object_entries obj) = length obj"
  using sum_length_filter_compl [of "\<lambda>kv. is_array_index (fst kv)" obj]
  by (simp add: Object_entries_def)

lemma Object_entries_distinct:
  assumes "distinct (map fst obj)"
  shows "distinct (map fst (Object_entries obj))"
proof -
  from assms have d: "distinct obj" and i: "inj_on fst (set obj)"
    by (simp_all add: distinct_map)
  have "distinct (Object_entries obj)"
    using d by (auto simp: Object_entries_def)
  with i show ?thesis by (simp add: distinct_map)
qed

lemma distinct_map_sort_key:
  "distinct (map f (sort_key g xs)) = distinct (map f xs)"
  by (simp add: distinct_map)

lemma add_to_date_distinct:
  "distinct (map fst acc) \<Longrightarrow> distinct (map fst (add_to_date fmt p acc))"
  by (simp add: add_to_date_def distinct_update split: option.splits)

lemma add_to_date_keys:
  "fst ` set (add_to_date fmt p acc) =
     fst ` set acc \<union> (case p_paid_at p of None \<Rightarrow> {} | Some t \<Rightarrow> {fmt t})"
  by (auto simp: add_to_date_def dom_update split: option.splits)

lemma fold_add_to_date_distinct:
  "distinct (map fst acc) \<Longrightarrow> distinct (map fst (fold (add_to_date fmt) ps acc))"
  by (induction ps arbitrary: acc) (simp_all add: add_to_date_distinct)

lemma fold_add_to_date_keys:
  "fst ` set (fold (add_to_date fmt) ps acc) =
     fst ` set acc \<union> {fmt t |t. \<exists>p \<in> set ps. p_paid_at p = Some t}"
proof (induction ps arbitrary: acc)
  case Nil
  then show ?case by simp
next
  case (Cons p ps)
  show ?case
    by (cases "p_paid_at p") (auto simp: Cons.IH add_to_date_keys)
qed

lemma group_by_date_distinct: "distinct (map fst (group_by_date fmt ps))"
  by (simp add: group_by_date_def fold_add_to_date_distinct)

lemma group_by_date_keys:
  "fst ` set (group_by_date fmt ps) = {fmt t |t. \<exists>p \<in> set ps. p_paid_at p = Some t}"
  by (simp add: group_by_date_def fold_add_to_date_keys)

lemma time_series_shape:
  assumes "\<not> query_fails d (PaidSince cid (subDays now days))"
  shows "\<exists>xs. getRevenueTimeSeries fmt d cid days now = sort_key ts_date xs \<and>
           map ts_date xs =
             map fst (Object_entries (group_by_date fmt
                (sort_key (\<lambda>p. the (p_paid_at p))
                   (filter (\<lambda>p. p_company_id p = cid \<and> p_status p = ''paid'' \<and>
                                gte (p_paid_at p) (subDays now days) \<and> p_paid_at p \<noteq> None)
                      (payments d)))))"
proof -
  let ?rows = "filter (\<lambda>p. p_company_id p = cid \<and> p_status p = ''paid'' \<and>
                                gte (p_paid_at p) (subDays now days) \<and> p_paid_at p \<noteq> None)
                      (payments d)"
  let ?data = "sort_key (\<lambda>p. the (p_paid_at p)) ?rows"
  let ?xs = "map (\<lambda>(date, v). \<lparr> ts_date = date, ts_value = round_2_decimals v \<rparr>)
                 (Object_entries (group_by_date fmt ?data))"
  have dates: "map ts_date ?xs = map fst (Object_entries (group_by_date fmt ?data))"
    by (simp add: case_prod_beta)
  show ?thesis
  proof (cases "?data = []")
    case True
    then have "group_by_date fmt ?data = []" by (simp add: group_by_date_def)
    then have "?xs = []" by (simp add: Object_entries_def)
    moreover have "getRevenueTimeSeries fmt d cid days now = []"
      using True assms by (simp add: getRevenueTimeSeries_def select_rows_def Let_def)
    ultimately show ?thesis using dates by (intro exI [of _ ?xs]) simp
  next
    case False
    then have "getRevenueTimeSeries fmt d cid days now = sort_key ts_date ?xs"
      using assms by (simp add: getRevenueTimeSeries_def select_rows_def Let_def)
    with dates show ?thesis by blast
  qed
qed

text \<open>
  Claim C9. Let the window be the paid payments of the company with \<^verbatim>\<open>paid_at\<close> at or
  after \<^verbatim>\<open>subDays(now, days)\<close>. When the query succeeds, the dates of the entries of
  \<^verbatim>\<open>getRevenueTimeSeries\<close> are exactly the calendar dates of the payments of the window
  (a date without payment has no entry), each date has one entry, the number of entries
  is the number of distinct dates (two entries for two dates), and the entries are in
  ascending order of date.
\<close>

theorem time_series_sparse_sorted:
  "sorted (map ts_date (getRevenueTimeSeries fmt d cid days now)) \<and>
   (\<not> query_fails d (PaidSince cid (subDays now days)) \<and>
    dates = (\<lambda>p. fmt (the (p_paid_at p))) `
              {p \<in> set (payments d). p_company_id p = cid \<and> p_status p = ''paid'' \<and>
                 (\<exists>t. p_paid_at p = Some t \<and> subDays now days \<le> t)} \<longrightarrow>
      set (map ts_date (getRevenueTimeSeries fmt d cid days now)) = dates \<and>
      distinct (map ts_date (getRevenueTimeSeries fmt d cid days now)) \<and>
      length (getRevenueTimeSeries fmt d cid days now) = card dates \<and>
      (card dates = 2 \<longrightarrow> length (getRevenueTimeSeries fmt d cid days now) = 2))"
proof -
  let ?rows = "filter (\<lambda>p. p_company_id p = cid \<and> p_status p = ''paid'' \<and>
                                gte (p_paid_at p) (subDays now days) \<and> p_paid_at p \<noteq> None)
                      (payments d)"
  let ?data = "sort_key (\<lambda>p. the (p_paid_at p)) ?rows"
  let ?dates = "(\<lambda>p. fmt (the (p_paid_at p))) `
              {p \<in> set (payments d). p_company_id p = cid \<and> p_status p = ''paid'' \<and>
                 (\<exists>t. p_paid_at p = Some t \<and> subDays now days \<le> t)}"
  have sorted: "sorted (map ts_date (getRevenueTimeSeries fmt d cid days now))"
  proof (cases "query_fails d (PaidSince cid (subDays now days))")
    case True
    then show ?thesis by (simp add: getRevenueTimeSeries_def select_rows_def)
  next
    case False
    from time_series_shape [OF this, of fmt] show ?thesis by auto
  qed
  have rest: "set (map ts_date (getRevenueTimeSeries fmt d cid days now)) = ?dates \<and>
      distinct (map ts_date (getRevenueTimeSeries fmt d cid days now)) \<and>
      length (getRevenueTimeSeries fmt d cid days now) = card ?dates"
    if ok: "\<not> query_fails d (PaidSince cid (subDays now days))"
  proof -
    from time_series_shape [OF ok, of fmt] obtain xs where
      r: "getRevenueTimeSeries fmt d cid days now = sort_key ts_date xs"
      and xs: "map ts_date xs = map fst (Object_entries (group_by_date fmt ?data))"
      by blast
    have keys: "set (map fst (Object_entries (group_by_date fmt ?data))) = ?dates"
    proof -
      have "set (map fst (Object_entries (group_by_date fmt ?data))) =
            {fmt t |t. \<exists>p \<in> set ?rows. p_paid_at p = Some t}"
        by (simp add: group_by_date_keys)
      also have "\<dots> = ?dates"
      proof (intro set_eqI iffI)
        fix x
        assume "x \<in> {fmt t |t. \<exists>p \<in> set ?rows. p_paid_at p = Some t}"
        then obtain t p where "x = fmt t" "p \<in> set ?rows" "p_paid_at p = Some t" by blast
        then have "p \<in> {p \<in> set (payments d). p_company_id p = cid \<and> p_status p = ''paid'' \<and>
                     (\<exists>t. p_paid_at p = Some t \<and> subDays now days \<le> t)}"
          and "x = fmt (the (p_paid_at p))"
          by (simp_all add: gte_def)
        then show "x \<in> ?dates" by blast
      next
        fix x
        assume "x \<in> ?dates"
        then obtain p t where "x = fmt (the (p_paid_at p))" "p \<in> set (payments d)"
          "p_company_id p = cid" "p_status p = ''paid''" "p_paid_at p = Some t"
          "subDays now days \<le> t"
          by blast
        then have "p \<in> set ?rows" "p_paid_at p = Some t" "x = fmt t"
          by (simp_all add: gte_def)
        then show "x \<in> {fmt t |t. \<exists>p \<in> set ?rows. p_paid_at p = Some t}" by blast
      qed
      finally show ?thesis .
    qed
    have dist: "distinct (map fst (Object_entries (group_by_date fmt ?data)))"
      by (rule Object_entries_distinct) (rule group_by_date_distinct)
    have "set (map ts_date (sort_key ts_date xs)) = set (map ts_date xs)"
      by simp
    also have "\<dots> = ?dates"
      unfolding xs by (rule keys)
    finally have s: "set (map ts_date (getRevenueTimeSeries fmt d cid days now)) = ?dates"
      unfolding r .
    have "distinct (map ts_date (sort_key ts_date xs))"
      unfolding distinct_map_sort_key xs by (rule dist)
    then have dd: "distinct (map ts_date (getRevenueTimeSeries fmt d cid days now))"
      unfolding r .
    have "card (set (map ts_date (getRevenueTimeSeries fmt d cid days now))) =
          length (map ts_date (getRevenueTimeSeries fmt d cid days now))"
      using dd by (rule distinct_card)
    then have "length (getRevenueTimeSeries fmt d cid days now) = card ?dates"
      unfolding s by simp
    with s dd show ?thesis by blast
  qed
  have final: "set (map ts_date (getRevenueTimeSeries fmt d cid days now)) = dates \<and>
      distinct (map ts_date (getRevenueTimeSeries fmt d cid days now)) \<and>
      length (getRevenueTimeSeries fmt d cid days now) = card dates \<and>
      (card dates = 2 \<longrightarrow> length (getRevenueTimeSeries fmt d cid days now) = 2)"
    if "\<not> query_fails d (PaidSince cid (subDays now days))" "dates = ?dates"
    using rest [OF that(1)] unfolding that(2) by presburger
  show ?thesis
    using sorted final by blast
qed

text \<open>
  Two paid payments on two consecutive days, thirty days of window: two entries, in
  ascending order.
\<close>

theorem time_series_sparse_sorted_witness:
  "\<not> query_fails two_period_db (PaidSince ''biz_1'' (subDays 1700000000000 30)) \<and>
   getRevenueTimeSeries example_fmt two_period_db ''biz_1'' 30 1700000000000 =
     [\<lparr> ts_date = ''2023-11-13'', ts_value = 10 \<rparr>,
      \<lparr> ts_date = ''2023-11-14'', ts_value = binary64 (1999 / 100) \<rparr>] \<and>
   card ((\<lambda>p. example_fmt (the (p_paid_at p))) `
           {p \<in> set (payments two_period_db). p_company_id p = ''biz_1'' \<and>
              p_status p = ''paid'' \<and>
              (\<exists>t. p_paid_at p = Some t \<and> subDays 1700000000000 30 \<le> t)}) = 2"
proof -
  note w = time_series_sparse_sorted [of example_fmt two_period_db "''biz_1''" 30 1700000000000
      "(\<lambda>p. example_fmt (the (p_paid_at p))) `
           {p \<in> set (payments two_period_db). p_company_id p = ''biz_1'' \<and>
              p_status p = ''paid'' \<and>
              (\<exists>t. p_paid_at p = Some t \<and> subDays 1700000000000 30 \<le> t)}"]
  have q: "\<not> query_fails two_period_db (PaidSince ''biz_1'' (subDays 1700000000000 30))"
    by (simp add: two_period_db_def)
  have r: "getRevenueTimeSeries example_fmt two_period_db ''biz_1'' 30 1700000000000 =
     [\<lparr> ts_date = ''2023-11-13'', ts_value = 10 \<rparr>,
      \<lparr> ts_date = ''2023-11-14'', ts_value = binary64 (1999 / 100) \<rparr>]"
    by code_simp
  from w q have "length (getRevenueTimeSeries example_fmt two_period_db ''biz_1'' 30 1700000000000) =
      card ((\<lambda>p. example_fmt (the (p_paid_at p))) `
           {p \<in> set (payments two_period_db). p_company_id p = ''biz_1'' \<and>
              p_status p = ''paid'' \<and>
              (\<exists>t. p_paid_at p = Some t \<and> subDays 1700000000000 30 \<le> t)})"
    by blast
  with q r show ?thesis by simp
qed

subsection \<open>Top products\<close>

lemma add_to_product_distinct:
  "distinct (map fst acc) \<Longrightarrow> distinct (map fst (add_to_product p acc))"
  by (simp add: add_to_product_def distinct_update Let_def split: option.splits)

lemma fold_add_to_product_distinct:
  "distinct (map fst acc) \<Longrightarrow> distinct (map fst (fold add_to_product ps acc))"
  by (induction ps arbitrary: acc) (simp_all add: add_to_product_distinct)

lemma group_by_product_distinct: "distinct (map fst (group_by_product ps))"
  by (simp add: group_by_product_def fold_add_to_product_distinct)

text \<open>
  What the reducer has accumulated for one product id: the sum, in the order of the
  payments, and the number of the payments that refer to it.
\<close>

lemma fold_add_to_product_lookup:
  assumes "pid \<noteq> []"
  shows "map_of (fold add_to_product ps acc) pid =
     (if filter (\<lambda>p. p_product_id p = Some pid) ps = [] then map_of acc pid
      else Some
        (fold (\<lambda>p sum. binary64 (sum + amount_major p))
           (filter (\<lambda>p. p_product_id p = Some pid) ps)
           (fst (case map_of acc pid of None \<Rightarrow> (0, 0) | Some st \<Rightarrow> st)),
         snd (case map_of acc pid of None \<Rightarrow> (0, 0) | Some st \<Rightarrow> st) +
           length (filter (\<lambda>p. p_product_id p = Some pid) ps)))"
proof (induction ps arbitrary: acc)
  case Nil
  then show ?case by simp
next
  case (Cons p ps)
  show ?case
  proof (cases "p_product_id p = Some pid")
    case True
    then have step: "map_of (add_to_product p acc) pid =
        Some (binary64 (fst (case map_of acc pid of None \<Rightarrow> (0, 0) | Some st \<Rightarrow> st) +
                amount_major p),
              snd (case map_of acc pid of None \<Rightarrow> (0, 0) | Some st \<Rightarrow> st) + 1)"
      using assms by (simp add: add_to_product_def update_conv' Let_def)
    show ?thesis
      using True by (simp add: Cons.IH step)
  next
    case False
    then have step: "map_of (add_to_product p acc) pid = map_of acc pid"
      by (auto simp: add_to_product_def update_conv' Let_def split: option.splits)
    show ?thesis
      using False by (simp add: Cons.IH step)
  qed
qed

lemma add_to_product_keys:
  "fst ` set (add_to_product p acc) =
     fst ` set acc \<union> {pid. pid \<noteq> [] \<and> p_product_id p = Some pid}"
  by (auto simp: add_to_product_def dom_update Let_def split: option.splits if_splits)

lemma fold_add_to_product_keys:
  "fst ` set (fold add_to_product ps acc) =
     fst ` set acc \<union> {pid. pid \<noteq> [] \<and> (\<exists>p \<in> set ps. p_product_id p = Some pid)}"
proof (induction ps arbitrary: acc)
  case Nil
  then show ?case by simp
next
  case (Cons p ps)
  have "fst ` set (fold add_to_product ps (add_to_product p acc)) =
          fst ` set (add_to_product p acc) \<union>
          {pid. pid \<noteq> [] \<and> (\<exists>p \<in> set ps. p_product_id p = Some pid)}"
    by (rule Cons.IH)
  also have "\<dots> = (fst ` set acc \<union> {pid. pid \<noteq> [] \<and> p_product_id p = Some pid}) \<union>
          {pid. pid \<noteq> [] \<and> (\<exists>p \<in> set ps. p_product_id p = Some pid)}"
    by (simp only: add_to_product_keys)
  finally show ?case by auto
qed

lemma group_by_product_keys:
  "fst ` set (group_by_product ps) =
     {pid. pid \<noteq> [] \<and> (\<exists>p \<in> set ps. p_product_id p = Some pid)}"
  by (simp add: group_by_product_def fold_add_to_product_keys)

lemma length_update_le: "length (AList.update k v al) \<le> Suc (length al)"
  by (induction al) auto

lemma add_to_product_length: "length (add_to_product p acc) \<le> Suc (length acc)"
  by (simp add: add_to_product_def Let_def length_update_le split: option.splits)

lemma fold_add_to_product_length:
  "length (fold add_to_product ps acc) \<le> length acc + length ps"
proof (induction ps arbitrary: acc)
  case Nil
  then show ?case by simp
next
  case (Cons p ps)
  have "length (fold add_to_product ps (add_to_product p acc))
          \<le> length (add_to_product p acc) + length ps"
    by (rule Cons.IH)
  also have "\<dots> \<le> Suc (length acc) + length ps"
    using add_to_product_length [of p acc] by simp
  finally show ?case by simp
qed

lemma group_by_product_length: "length (group_by_product ps) \<le> length ps"
  using fold_add_to_product_length [of ps "[]"] by (simp add: group_by_product_def)

lemma group_by_product_entry:
  assumes "(pid, stats) \<in> set (group_by_product ps)"
  shows "pid \<noteq> [] \<and> filter (\<lambda>p. p_product_id p = Some pid) ps \<noteq> [] \<and>
         fst stats = fold (\<lambda>p sum. binary64 (sum + amount_major p))
                       (filter (\<lambda>p. p_product_id p = Some pid) ps) 0 \<and>
         snd stats = length (filter (\<lambda>p. p_product_id p = Some pid) ps)"
proof -
  from assms have "pid \<in> fst ` set (fold add_to_product ps [])"
    by (force simp: group_by_product_def)
  with fold_add_to_product_keys [of ps "[]"] have ne: "pid \<noteq> []" by auto
  have look: "map_of (fold add_to_product ps []) pid = Some stats"
    using assms group_by_product_distinct [of ps]
    by (simp add: group_by_product_def)
  show ?thesis
  proof (cases "filter (\<lambda>p. p_product_id p = Some pid) ps = []")
    case True
    with fold_add_to_product_lookup [OF ne, of ps "[]"] look show ?thesis by simp
  next
    case False
    with fold_add_to_product_lookup [OF ne, of ps "[]"] look
    have "stats = (fold (\<lambda>p sum. binary64 (sum + amount_major p))
                       (filter (\<lambda>p. p_product_id p = Some pid) ps) 0,
         length (filter (\<lambda>p. p_product_id p = Some pid) ps))"
      by simp
    with ne False show ?thesis by simp
  qed
qed

lemma slice0_nat [simp]: "slice0 xs (int n) = take n xs"
  by (simp add: slice0_def)

lemma productMap_absent:
  assumes "\<forall>pr \<in> set prs. pr_id pr \<noteq> pid"
  shows "product_name_of (productMap (select_rows d q prs P)) pid = ''Unknown Product''"
proof (cases "query_fails d q")
  case True
  then show ?thesis by (simp add: select_rows_def productMap_def product_name_of_def)
next
  case False
  have "pid \<notin> fst ` set (rev (map (\<lambda>p. (pr_id p, pr_name p)) (filter P prs)))"
    using assms by auto
  then have "map_of (rev (map (\<lambda>p. (pr_id p, pr_name p)) (filter P prs))) pid = None"
    by (rule map_of_eq_None_iff [THEN iffD2])
  with False show ?thesis by (simp add: select_rows_def product_name_of_def productMap_def)
qed

lemma filter_product_id:
  "filter (\<lambda>p. p_product_id p = Some pid)
     (filter (\<lambda>p. p_company_id p = cid \<and> p_status p = ''paid'' \<and> p_product_id p \<noteq> None) xs) =
   filter (\<lambda>p. p_company_id p = cid \<and> p_status p = ''paid'' \<and> p_product_id p = Some pid) xs"
  by (induction xs) auto

text \<open>
  The rounded difference of two doubles has the sign of their difference: the comparator
  \<^verbatim>\<open>(a, b) => b.revenue - a.revenue\<close> orders by descending revenue.
\<close>

lemma comparator_sign:
  "binary64 (b - a) < 0 \<longleftrightarrow> a > b" "binary64 (b - a) = 0 \<longleftrightarrow> a = b"
  "0 < binary64 (b - a) \<longleftrightarrow> a < b"
  by (auto simp: binary64_sign)

text \<open>The complete ranking, of which \<^verbatim>\<open>slice(0, limit)\<close> keeps the first entries.\<close>

lemma top_products_shape:
  "\<exists>xs.
    (\<forall>n. getTopProducts d cid (int n) = take n xs) \<and>
    length xs \<le> length (payments d) \<and>
    sorted_wrt (\<lambda>a b. revenue a \<ge> revenue b) xs \<and>
    distinct (map productId xs) \<and>
    (\<not> query_fails d (PaidWithProduct cid) \<longrightarrow> set (map productId xs) = paid_product_ids d cid) \<and>
    (\<forall>e \<in> set xs.
       productId e \<in> paid_product_ids d cid \<and>
       revenue e =
         round_2_decimals
           (fold (\<lambda>p sum. binary64 (sum + amount_major p))
              (paid_for_product d cid (productId e)) 0) \<and>
       count e = length (paid_for_product d cid (productId e)) \<and>
       ((\<forall>pr \<in> set (products d). pr_id pr \<noteq> productId e) \<longrightarrow>
          productName e = ''Unknown Product''))"
proof (cases "query_fails d (PaidWithProduct cid)")
  case True
  then have "\<And>n. getTopProducts d cid (int n) = take n []"
    by (simp add: getTopProducts_def select_rows_def)
  then show ?thesis using True by (intro exI [of _ "[]"]) simp
next
  case False
  let ?ps = "filter (\<lambda>p. p_company_id p = cid \<and> p_status p = ''paid'' \<and> p_product_id p \<noteq> None)
               (payments d)"
  let ?ids = "map fst (Object_entries (group_by_product ?ps))"
  let ?pm = "productMap (select_rows d (ProductsIn ?ids) (products d) (\<lambda>p. pr_id p \<in> set ?ids))"
  let ?mk = "\<lambda>(pid, stats).
              \<lparr> productId = pid,
                productName = product_name_of ?pm pid,
                revenue = round_2_decimals (fst stats),
                count = snd stats \<rparr>"
  let ?xs = "sort_key (\<lambda>e. - revenue e) (map ?mk (Object_entries (group_by_product ?ps)))"
  have r: "getTopProducts d cid (int n) = take n ?xs" for n
  proof (cases "?ps = []")
    case True
    then have "?xs = []" by (simp add: group_by_product_def Object_entries_def)
    with True False show ?thesis by (simp add: getTopProducts_def select_rows_def)
  next
    case ne: False
    with False show ?thesis by (simp add: getTopProducts_def select_rows_def Let_def)
  qed
  have len: "length ?xs \<le> length (payments d)"
  proof -
    have "length ?xs = length (group_by_product ?ps)" by simp
    also have "\<dots> \<le> length ?ps" by (rule group_by_product_length)
    also have "\<dots> \<le> length (payments d)" by simp
    finally show ?thesis .
  qed
  have "sorted (map (\<lambda>e. - revenue e) ?xs)"
    by (rule sorted_sort_key)
  then have srt: "sorted_wrt (\<lambda>a b. revenue a \<ge> revenue b) ?xs"
    by (simp add: sorted_map)
  have ids: "map productId (map ?mk (Object_entries (group_by_product ?ps))) = ?ids"
    by (simp add: case_prod_beta)
  have dst: "distinct (map productId ?xs)"
    unfolding distinct_map_sort_key ids
    by (rule Object_entries_distinct) (rule group_by_product_distinct)
  have keys: "set (map productId ?xs) = paid_product_ids d cid"
  proof -
    have "set (map productId ?xs) = set (map productId (map ?mk (Object_entries (group_by_product ?ps))))"
      by (simp only: set_map set_sort)
    also have "\<dots> = set ?ids"
      by (simp only: ids)
    also have "\<dots> = fst ` set (group_by_product ?ps)"
      by simp
    also have "\<dots> = {pid. pid \<noteq> [] \<and> (\<exists>p \<in> set ?ps. p_product_id p = Some pid)}"
      by (rule group_by_product_keys)
    also have "\<dots> = paid_product_ids d cid"
      by (auto simp: paid_product_ids_def)
    finally show ?thesis .
  qed
  have entry: "productId e \<in> paid_product_ids d cid \<and>
       revenue e =
         round_2_decimals
           (fold (\<lambda>p sum. binary64 (sum + amount_major p))
              (paid_for_product d cid (productId e)) 0) \<and>
       count e = length (paid_for_product d cid (productId e)) \<and>
       ((\<forall>pr \<in> set (products d). pr_id pr \<noteq> productId e) \<longrightarrow>
          productName e = ''Unknown Product'')"
    if "e \<in> set ?xs" for e
  proof -
    from that have "e \<in> ?mk ` set (group_by_product ?ps)" by simp
    then obtain pid stats where in_g: "(pid, stats) \<in> set (group_by_product ?ps)"
      and e: "e = ?mk (pid, stats)"
      by auto
    from e have f: "productId e = pid" "revenue e = round_2_decimals (fst stats)"
      "count e = snd stats" "productName e = product_name_of ?pm (productId e)"
      by simp_all
    have sel: "filter (\<lambda>p. p_product_id p = Some pid) ?ps = paid_for_product d cid pid"
      unfolding paid_for_product_def by (rule filter_product_id)
    from group_by_product_entry [OF in_g]
    have g: "fst stats = fold (\<lambda>p sum. binary64 (sum + amount_major p))
                          (paid_for_product d cid pid) 0"
      "snd stats = length (paid_for_product d cid pid)"
      unfolding sel by simp_all
    from that have "productId e \<in> productId ` set ?xs" by (rule imageI)
    then have "productId e \<in> set (map productId ?xs)" by (simp only: set_map)
    then have k: "productId e \<in> paid_product_ids d cid" by (simp only: keys)
    have n: "productName e = ''Unknown Product''"
      if "\<forall>pr \<in> set (products d). pr_id pr \<noteq> productId e"
      unfolding f(4) using that by (rule productMap_absent)
    show ?thesis
      using k f g n by simp
  qed
  show ?thesis
  proof (intro exI [of _ ?xs] conjI)
    show "\<forall>n. getTopProducts d cid (int n) = take n ?xs" using r by blast
    show "length ?xs \<le> length (payments d)" by (rule len)
    show "sorted_wrt (\<lambda>a b. revenue a \<ge> revenue b) ?xs" by (rule srt)
    show "distinct (map productId ?xs)" by (rule dst)
    show "\<not> query_fails d (PaidWithProduct cid) \<longrightarrow>
            set (map productId ?xs) = paid_product_ids d cid"
      using keys by blast
    show "\<forall>e \<in> set ?xs.
       productId e \<in> paid_product_ids d cid \<and>
       revenue e =
         round_2_decimals
           (fold (\<lambda>p sum. binary64 (sum + amount_major p))
              (paid_for_product d cid (productId e)) 0) \<and>
       count e = length (paid_for_product d cid (productId e)) \<and>
       ((\<forall>pr \<in> set (products d). pr_id pr \<noteq> productId e) \<longrightarrow>
          productName e = ''Unknown Product'')"
      using entry by blast
  qed
qed

text \<open>
  Claim C8. For every limit \<open>n\<close> (a number of products) and every cache state,
  \<^verbatim>\<open>getTopProducts\<close> returns at most \<open>n\<close> entries, in descending order of revenue, for
  distinct products. Each entry names a product that some paid payment of the company
  refers to, with the sum (rounded to two decimals) and the number of the paid payments
  that refer to it; a product that is not in the products table is reported as
  \<^verbatim>\<open>'Unknown Product'\<close>. The entries are the first \<open>n\<close> of the complete ranking (the
  result for a limit as large as the payments table), which has one entry for every
  product that a paid payment refers to, when the query for the payments succeeds.
\<close>

theorem top_products_limited_sorted:
  "length (getTopProducts d cid (int n)) \<le> n \<and>
   sorted_wrt (\<lambda>a b. revenue a \<ge> revenue b) (getTopProducts d cid (int n)) \<and>
   distinct (map productId (getTopProducts d cid (int n))) \<and>
   (\<forall>e \<in> set (getTopProducts d cid (int n)).
      productId e \<in> paid_product_ids d cid \<and>
      revenue e =
        round_2_decimals
          (fold (\<lambda>p sum. binary64 (sum + amount_major p))
             (paid_for_product d cid (productId e)) 0) \<and>
      count e = length (paid_for_product d cid (productId e)) \<and>
      ((\<forall>pr \<in> set (products d). pr_id pr \<noteq> productId e) \<longrightarrow>
         productName e = ''Unknown Product'')) \<and>
   getTopProducts d cid (int n) = take n (getTopProducts d cid (int (length (payments d)))) \<and>
   (\<not> query_fails d (PaidWithProduct cid) \<longrightarrow>
      set (map productId (getTopProducts d cid (int (length (payments d))))) =
        paid_product_ids d cid \<and>
      length (getTopProducts d cid (int n)) = min n (card (paid_product_ids d cid)))"
proof -
  from top_products_shape [of d cid]
  obtain xs where r: "\<forall>n. getTopProducts d cid (int n) = take n xs"
    and len: "length xs \<le> length (payments d)"
    and srt: "sorted_wrt (\<lambda>a b. revenue a \<ge> revenue b) xs"
    and dst: "distinct (map productId xs)"
    and keys: "\<not> query_fails d (PaidWithProduct cid) \<longrightarrow>
                 set (map productId xs) = paid_product_ids d cid"
    and entry: "\<forall>e \<in> set xs.
       productId e \<in> paid_product_ids d cid \<and>
       revenue e =
         round_2_decimals
           (fold (\<lambda>p sum. binary64 (sum + amount_major p))
              (paid_for_product d cid (productId e)) 0) \<and>
       count e = length (paid_for_product d cid (productId e)) \<and>
       ((\<forall>pr \<in> set (products d). pr_id pr \<noteq> productId e) \<longrightarrow>
          productName e = ''Unknown Product'')"
    by (elim exE conjE)
  have full: "getTopProducts d cid (int (length (payments d))) = xs"
    using len by (simp add: r)
  have c1: "length (getTopProducts d cid (int n)) \<le> n"
    by (simp add: r)
  have c2: "sorted_wrt (\<lambda>a b. revenue a \<ge> revenue b) (getTopProducts d cid (int n))"
    using srt by (simp add: r sorted_wrt_take)
  have "distinct (take n (map productId xs))"
    using dst by (rule distinct_take)
  then have c3: "distinct (map productId (getTopProducts d cid (int n)))"
    by (simp add: r take_map)
  have c4: "\<forall>e \<in> set (getTopProducts d cid (int n)).
      productId e \<in> paid_product_ids d cid \<and>
      revenue e =
        round_2_decimals
          (fold (\<lambda>p sum. binary64 (sum + amount_major p))
             (paid_for_product d cid (productId e)) 0) \<and>
      count e = length (paid_for_product d cid (productId e)) \<and>
      ((\<forall>pr \<in> set (products d). pr_id pr \<noteq> productId e) \<longrightarrow>
         productName e = ''Unknown Product'')"
    using entry by (auto simp: r dest: in_set_takeD)
  have c5: "getTopProducts d cid (int n) = take n (getTopProducts d cid (int (length (payments d))))"
    unfolding full by (simp add: r)
  have c6: "set (map productId (getTopProducts d cid (int (length (payments d))))) =
        paid_product_ids d cid \<and>
      length (getTopProducts d cid (int n)) = min n (card (paid_product_ids d cid))"
    if ok: "\<not> query_fails d (PaidWithProduct cid)"
  proof -
    have "card (set (map productId xs)) = length (map productId xs)"
      using dst by (rule distinct_card)
    then have "length xs = card (paid_product_ids d cid)"
      using keys ok by simp
    then have "length (getTopProducts d cid (int n)) = min n (card (paid_product_ids d cid))"
      by (simp add: r min.commute)
    with keys ok show ?thesis unfolding full by simp
  qed
  show ?thesis
    using c1 c2 c3 c4 c5 c6 by blast
qed

text \<open>
  With a limit of 1 the product with the larger revenue is returned; with a limit of 5
  both products are, and the one missing from the products table is unknown.
\<close>

theorem top_products_limited_sorted_witness:
  "getTopProducts top_db ''biz_1'' (int 1) =
     [\<lparr> productId = ''prod_1'', productName = ''Premium'', revenue = binary64 (1999 / 100),
        count = 1 \<rparr>] \<and>
   length (getTopProducts top_db ''biz_1'' (int 1)) \<le> 1 \<and>
   getTopProducts top_db ''biz_1'' (int 5) =
     [\<lparr> productId = ''prod_1'', productName = ''Premium'', revenue = binary64 (1999 / 100),
        count = 1 \<rparr>,
      \<lparr> productId = ''prod_2'', productName = ''Unknown Product'', revenue = 5, count = 1 \<rparr>] \<and>
   \<not> query_fails top_db (PaidWithProduct ''biz_1'') \<and>
   paid_product_ids top_db ''biz_1'' = {''prod_1'', ''prod_2''} \<and>
   length (getTopProducts top_db ''biz_1'' (int 5)) = min 5 2"
proof -
  have one: "getTopProducts top_db ''biz_1'' (int 1) =
     [\<lparr> productId = ''prod_1'', productName = ''Premium'', revenue = binary64 (1999 / 100),
        count = 1 \<rparr>]"
    by code_simp
  have five: "getTopProducts top_db ''biz_1'' (int 5) =
     [\<lparr> productId = ''prod_1'', productName = ''Premium'', revenue = binary64 (1999 / 100),
        count = 1 \<rparr>,
      \<lparr> productId = ''prod_2'', productName = ''Unknown Product'', revenue = 5, count = 1 \<rparr>]"
    by code_simp
  have q: "\<not> query_fails top_db (PaidWithProduct ''biz_1'')"
    by (simp add: top_db_def)
  have ids: "paid_product_ids top_db ''biz_1'' = {''prod_1'', ''prod_2''}"
    by (auto simp: paid_product_ids_def top_db_def example_payment_row_def)
  from top_products_limited_sorted [of top_db "''biz_1''" 1]
  have l1: "length (getTopProducts top_db ''biz_1'' (int 1)) \<le> 1" by blast
  from top_products_limited_sorted [of top_db "''biz_1''" 5] q
  have "length (getTopProducts top_db ''biz_1'' (int 5)) =
          min 5 (card (paid_product_ids top_db ''biz_1''))"
    by blast
  then have l5: "length (getTopProducts top_db ''biz_1'' (int 5)) = min 5 2"
    by (simp add: ids)
  from one five q ids l1 l5 show ?thesis by blast
qed

end
